theory Spec2Isabelle
  imports Main "HOL-Library.Word"
begin

section \<open>Data model of the single-threaded VNC server (VNCServerST.cxx)\<close>

text \<open>
  The coordinator \<^verbatim>\<open>VNCServerST\<close> is a C++ object whose methods mutate its fields and call
  out to collaborators that live outside the file: the desktop backend (\<^verbatim>\<open>SDesktop\<close>), the
  per-client protocol driver (\<^verbatim>\<open>VNCSConnectionST\<close>), sockets and their output streams, the
  blacklist, the timers and the update tracker.  The embedding passes the coordinator's
  fields around as a record, returns exceptions as values together with the fields as they
  are at the throw, and records every call to a collaborator in a chronological trace.
\<close>

subsection \<open>Geometry\<close>

type_synonym byte = "8 word"

datatype point = Point (pt_x: int) (pt_y: int)

datatype rect = Rect (tl: point) (br: point)

text \<open>Modelled from the spec: \<^verbatim>\<open>core::Rect\<close> and \<^verbatim>\<open>core::Point\<close> are declared outside
  \<^verbatim>\<open>src/\<close>; their operations have the usual meaning on half-open rectangles.\<close>

definition setXYWH :: "int \<Rightarrow> int \<Rightarrow> int \<Rightarrow> int \<Rightarrow> rect" where
  "setXYWH x y w h = Rect (Point x y) (Point (x + w) (y + h))"

definition rect_is_empty :: "rect \<Rightarrow> bool" where
  "rect_is_empty r = (pt_x (br r) \<le> pt_x (tl r) \<or> pt_y (br r) \<le> pt_y (tl r))"

definition enclosed_by :: "rect \<Rightarrow> rect \<Rightarrow> bool" where
  "enclosed_by r outer =
     (pt_x (tl outer) \<le> pt_x (tl r) \<and> pt_y (tl outer) \<le> pt_y (tl r) \<and>
      pt_x (br r) \<le> pt_x (br outer) \<and> pt_y (br r) \<le> pt_y (br outer))"

definition rect_intersect :: "rect \<Rightarrow> rect \<Rightarrow> rect" where
  "rect_intersect a b =
     (let x1 = max (pt_x (tl a)) (pt_x (tl b));
          y1 = max (pt_y (tl a)) (pt_y (tl b));
          x2 = max (min (pt_x (br a)) (pt_x (br b))) x1;
          y2 = max (min (pt_y (br a)) (pt_y (br b))) y1
      in Rect (Point x1 y1) (Point x2 y2))"

definition pt_subtract :: "point \<Rightarrow> point \<Rightarrow> point" where
  "pt_subtract a b = Point (pt_x a - pt_x b) (pt_y a - pt_y b)"

definition rect_translate :: "rect \<Rightarrow> point \<Rightarrow> rect" where
  "rect_translate r d =
     Rect (Point (pt_x (tl r) + pt_x d) (pt_y (tl r) + pt_y d))
          (Point (pt_x (br r) + pt_x d) (pt_y (br r) + pt_y d))"

text \<open>Modelled from the spec: \<^verbatim>\<open>core::Region\<close> is declared outside \<^verbatim>\<open>src/\<close>; a region is
  the union of the rectangles of a list.\<close>

type_synonym region = "rect list"

definition region_is_empty :: "region \<Rightarrow> bool" where
  "region_is_empty rg = list_all rect_is_empty rg"

definition region_union :: "region \<Rightarrow> region \<Rightarrow> region" where
  "region_union a b = a @ b"

definition region_intersect :: "region \<Rightarrow> rect \<Rightarrow> region" where
  "region_intersect rg r = map (\<lambda>x. rect_intersect x r) rg"

subsection \<open>Pixel buffer, screens, cursor\<close>

datatype pixelBuffer = PixelBuffer (pb_width: int) (pb_height: int)

definition getRect :: "pixelBuffer \<Rightarrow> rect" where
  "getRect p = setXYWH 0 0 (pb_width p) (pb_height p)"

datatype screen = Screen (scr_id: "32 word") (dimensions: rect) (scr_flags: "32 word")

type_synonym screenSet = "screen list"

text \<open>Modelled from the spec: \<^verbatim>\<open>ScreenSet::validate\<close> is declared outside \<^verbatim>\<open>src/\<close>;
  "each Screen rect must lie within the framebuffer and the set must be non-empty", each
  Screen "non-empty".\<close>

definition validate :: "screenSet \<Rightarrow> int \<Rightarrow> int \<Rightarrow> bool" where
  "validate layout fb_width fb_height =
     (layout \<noteq> [] \<and>
      list_all (\<lambda>sc. \<not> rect_is_empty (dimensions sc) \<and>
                      enclosed_by (dimensions sc) (setXYWH 0 0 fb_width fb_height)) layout)"

definition remove_screen :: "32 word \<Rightarrow> screenSet \<Rightarrow> screenSet" where
  "remove_screen i layout = filter (\<lambda>sc. scr_id sc \<noteq> i) layout"

text \<open>Modelled from the spec: the comparison of two \<^verbatim>\<open>ScreenSet\<close>s is declared outside
  \<^verbatim>\<open>src/\<close>; a layout is "a set of Screens", so two layouts are equal when they hold the
  same screens, in whatever order.\<close>

definition screenSet_eq :: "screenSet \<Rightarrow> screenSet \<Rightarrow> bool" where
  "screenSet_eq a b = (set a = set b)"

datatype cursor =
  Cursor (cur_width: int) (cur_height: int) (cur_hotspot: point) (cur_data: "byte list")

subsection \<open>Sockets and their output streams\<close>

datatype exn =
    InvalidArgument string
  | LogicError string
  | RuntimeError string
  | StdException
  | AssertionFailed
  | NullDereference

text \<open>Modelled from the spec: \<^verbatim>\<open>rdr::OutStream\<close> is declared outside \<^verbatim>\<open>src/\<close>.  The stream
  keeps the bytes written to it; a write to a broken stream throws ("rejection banner
  write fails"), and \<^verbatim>\<open>writeU32\<close> writes its value big-endian.\<close>

record ostream =
  os_data :: "byte list"
  os_broken :: bool

definition writeBytes :: "byte list \<Rightarrow> ostream \<Rightarrow> exn + ostream" where
  "writeBytes bs os =
     (if os_broken os then Inl StdException else Inr (os\<lparr>os_data := os_data os @ bs\<rparr>))"

definition u32_bytes :: "32 word \<Rightarrow> byte list" where
  "u32_bytes v = [ucast (drop_bit 24 v), ucast (drop_bit 16 v), ucast (drop_bit 8 v), ucast v]"

definition writeU32 :: "32 word \<Rightarrow> ostream \<Rightarrow> exn + ostream" where
  "writeU32 v os = writeBytes (u32_bytes v) os"

definition flush :: "ostream \<Rightarrow> exn + ostream" where
  "flush os = (if os_broken os then Inl StdException else Inr os)"

definition ascii :: "string \<Rightarrow> byte list" where
  "ascii str = map (\<lambda>c. of_nat (of_char c)) str"

text \<open>A \<^verbatim>\<open>network::Socket*\<close> is a pointer: \<open>sock_id\<close> is its identity, the other fields are
  the pointee.\<close>

record socket =
  sock_id :: nat
  peerAddress :: string
  requiresQuery :: bool
  outStream :: ostream
  isShutdown :: bool

definition shutdown :: "socket \<Rightarrow> socket" where
  "shutdown sock = sock\<lparr>isShutdown := True\<rparr>"

subsection \<open>Connections\<close>

datatype accessRight = AccessNoQuery | AccessNonShared | AccessOther nat

text \<open>A \<^verbatim>\<open>VNCSConnectionST*\<close> is a pointer: \<open>conn_id\<close> is its identity.  The class is
  external; the coordinator reads the fields below through \<^verbatim>\<open>getSock()\<close>,
  \<^verbatim>\<open>authenticated()\<close>, \<^verbatim>\<open>accessCheck()\<close>, \<^verbatim>\<open>needRenderedCursor()\<close> and
  \<^verbatim>\<open>getComparerState()\<close>.\<close>

record connection =
  conn_id :: nat
  getSock :: socket
  conn_outgoing :: bool
  conn_accessRights :: "accessRight list"
  authenticated :: bool
  conn_needRenderedCursor :: bool
  conn_comparerState :: bool

definition accessCheck :: "connection \<Rightarrow> accessRight \<Rightarrow> bool" where
  "accessCheck c ar = (ar \<in> set (conn_accessRights c))"

subsection \<open>Calls to the collaborators\<close>

datatype reason = reasonServer | reasonOtherClient

datatype connCall =
    Init
  | ProcessMessages
  | FlushSocket
  | PixelBufferChange
  | ScreenLayoutChangeOrClose reason
  | RequestClipboardOrClose
  | AnnounceClipboardOrClose bool
  | SendClipboardDataOrClose string
  | BellOrClose
  | SetDesktopNameOrClose string
  | RenderedCursorChange
  | SetCursorOrClose
  | CursorPositionChange
  | SetLEDStateOrClose "32 word"
  | ApproveConnectionOrClose bool "string option"
  | Close string
  | ConnAddCopied region point
  | ConnAddChanged region
  | WriteFramebufferUpdateOrClose

datatype event =
    DesktopInit
  | DesktopStart
  | DesktopStop
  | DesktopTerminate
  | DesktopPointerEvent point "16 word"
  | DesktopKeyEvent "32 word" "32 word" bool
  | DesktopHandleClipboardRequest
  | DesktopHandleClipboardAnnounce bool
  | DesktopHandleClipboardData string
  | DesktopSetScreenLayout int int screenSet
  | DesktopQueryConnection nat string
  | DesktopFrameTick "64 word"
  | ConnCall nat connCall
  | ConnDelete nat
  | PbGrabRegion region

subsection \<open>Timers, update tracker, configuration\<close>

text \<open>Modelled from the spec: \<^verbatim>\<open>core::Timer\<close> is declared outside \<^verbatim>\<open>src/\<close>; a timer is
  running or not, and remembers the interval it was last armed with.\<close>

record timer =
  isStarted :: bool
  timeoutMs :: int

definition timer_start :: "int \<Rightarrow> timer \<Rightarrow> timer" where
  "timer_start ms t = \<lparr>isStarted = True, timeoutMs = ms\<rparr>"

definition timer_repeat :: "int \<Rightarrow> timer \<Rightarrow> timer" where
  "timer_repeat ms t = \<lparr>isStarted = True, timeoutMs = ms\<rparr>"

definition timer_stop :: "timer \<Rightarrow> timer" where
  "timer_stop t = t\<lparr>isStarted := False\<rparr>"

text \<open>Modelled from the spec: \<^verbatim>\<open>core::secsToMillis\<close> is declared outside \<^verbatim>\<open>src/\<close>.\<close>

definition secsToMillis :: "nat \<Rightarrow> int" where
  "secsToMillis secs = int secs * 1000"

text \<open>Modelled from the spec: \<^verbatim>\<open>ComparingUpdateTracker\<close> is declared outside \<^verbatim>\<open>src/\<close>; it
  "accumulates changed regions and copied region+delta".\<close>

record comparingUpdateTracker =
  cmp_changed :: region
  cmp_copied :: region
  cmp_copy_delta :: point
  cmp_enabled :: bool

definition new_ComparingUpdateTracker :: comparingUpdateTracker where
  "new_ComparingUpdateTracker =
     \<lparr>cmp_changed = [], cmp_copied = [], cmp_copy_delta = Point 0 0, cmp_enabled = True\<rparr>"

definition cmp_is_empty :: "comparingUpdateTracker \<Rightarrow> bool" where
  "cmp_is_empty c = (region_is_empty (cmp_changed c) \<and> region_is_empty (cmp_copied c))"

definition cmp_add_changed :: "region \<Rightarrow> comparingUpdateTracker \<Rightarrow> comparingUpdateTracker" where
  "cmp_add_changed rg c = c\<lparr>cmp_changed := region_union (cmp_changed c) rg\<rparr>"

definition cmp_add_copied ::
  "region \<Rightarrow> point \<Rightarrow> comparingUpdateTracker \<Rightarrow> comparingUpdateTracker" where
  "cmp_add_copied dest delta c =
     c\<lparr>cmp_copied := region_union (cmp_copied c) dest, cmp_copy_delta := delta\<rparr>"

definition cmp_clear :: "comparingUpdateTracker \<Rightarrow> comparingUpdateTracker" where
  "cmp_clear c = c\<lparr>cmp_changed := [], cmp_copied := []\<rparr>"

text \<open>The parameters of \<^verbatim>\<open>rfb::Server\<close> (declared outside \<^verbatim>\<open>src/\<close>).  The three exit
  times are seconds, 0 disables.  \<open>frameRate\<close> is a positive number of updates per second:
  the C++ division \<^verbatim>\<open>1000/frameRate\<close> is undefined for 0, where \<open>div\<close> yields 0, so the
  properties of the operations that divide assume \<open>0 < frameRate\<close>.\<close>

record config =
  maxIdleTime :: nat
  maxDisconnectionTime :: nat
  maxConnectionTime :: nat
  frameRate :: nat
  neverShared :: bool
  disconnectClients :: bool
  queryConnect :: bool
  acceptCutText :: bool
  sendCutText :: bool
  acceptKeyEvents :: bool
  acceptPointerEvents :: bool
  acceptSetDesktopSize :: bool
  compareFB :: nat

subsection \<open>The coordinator's fields\<close>

record state =
  blacklist :: "string list"
  desktopStarted :: bool
  blockCounter :: int
  pb :: "pixelBuffer option"
  ledState :: "32 word"
  serverName :: string
  pointerClient :: "nat option"
  clipboardClient :: "nat option"
  clipboardRequestors :: "nat list"
  pointerClientTime :: int
  comparer :: "comparingUpdateTracker option"
  cursor :: cursor
  cursorPos :: point
  renderedCursorInvalid :: bool
  renderedCursor :: "(pixelBuffer option \<times> cursor \<times> point) option"
  screenLayout :: screenSet
  clients :: "connection list"
  closingSockets :: "socket list"
  idleTimer :: timer
  disconnectTimer :: timer
  connectTimer :: timer
  frameTimer :: timer
  msc :: "64 word"
  queuedMsc :: "64 word"
  nextConn :: nat
  trace :: "event list"

definition emit :: "event list \<Rightarrow> state \<Rightarrow> state" where
  "emit es s = s\<lparr>trace := trace s @ es\<rparr>"

text \<open>A broadcast \<^verbatim>\<open>for (ci = clients.begin(); ci != clients.end(); ++ci) (*ci)->call()\<close>.\<close>

definition broadcast :: "connCall list \<Rightarrow> connection list \<Rightarrow> event list" where
  "broadcast calls cs = concat (map (\<lambda>c. map (ConnCall (conn_id c)) calls) cs)"

text \<open>The result of a method that may throw: the exception or the returned value, and the
  fields as the method leaves them.\<close>

type_synonym 'a result = "(exn + 'a) \<times> state"

definition returns :: "state \<Rightarrow> unit result" where
  "returns s = (Inr (), s)"

definition throws :: "exn \<Rightarrow> state \<Rightarrow> 'a result" where
  "throws e s = (Inl e, s)"

definition andThen :: "unit result \<Rightarrow> (state \<Rightarrow> 'a result) \<Rightarrow> 'a result" where
  "andThen r f = (case r of (Inl e, s) \<Rightarrow> (Inl e, s) | (Inr _, s) \<Rightarrow> f s)"

text \<open>Modelled from the spec: \<^verbatim>\<open>Blacklist\<close> is declared outside \<^verbatim>\<open>src/\<close>; it "decides
  whether to short-circuit-reject new connections" per peer address.\<close>

definition isBlackmarked :: "string \<Rightarrow> state \<Rightarrow> bool" where
  "isBlackmarked address s = (address \<in> set (blacklist s))"

definition clearBlackmark :: "string \<Rightarrow> state \<Rightarrow> state" where
  "clearBlackmark address s = s\<lparr>blacklist := removeAll address (blacklist s)\<rparr>"

section \<open>The coordinator's methods\<close>

subsection \<open>Frame clock\<close>

definition nothingPending :: "state \<Rightarrow> bool" where
  "nothingPending s =
     (\<not> desktopStarted s \<or> (case comparer s of None \<Rightarrow> False | Some c \<Rightarrow> cmp_is_empty c))"

definition stopFrameClock :: "state \<Rightarrow> state" where
  "stopFrameClock s = s\<lparr>frameTimer := timer_stop (frameTimer s)\<rparr>"

definition startFrameClock :: "config \<Rightarrow> state \<Rightarrow> state" where
  "startFrameClock cfg s =
     (if isStarted (frameTimer s) then s
      else if blockCounter s > 0 then s
      else if nothingPending s \<and> queuedMsc s < msc s then s
      else if \<not> desktopStarted s then s\<lparr>frameTimer := timer_start 1000 (frameTimer s)\<rparr>
      else s\<lparr>frameTimer :=
               timer_start (1000 div int (frameRate cfg) div 2) (frameTimer s)\<rparr>)"

definition blockUpdates :: "state \<Rightarrow> state" where
  "blockUpdates s = stopFrameClock (s\<lparr>blockCounter := blockCounter s + 1\<rparr>)"

definition unblockUpdates :: "config \<Rightarrow> state \<Rightarrow> unit result" where
  "unblockUpdates cfg s =
     (if \<not> blockCounter s > 0 then throws AssertionFailed s
      else let s1 = s\<lparr>blockCounter := blockCounter s - 1\<rparr>
           in if blockCounter s1 = 0 then returns (startFrameClock cfg s1) else returns s1)"

definition getMsc :: "state \<Rightarrow> 64 word" where
  "getMsc s = msc s"

definition queueMsc :: "config \<Rightarrow> 64 word \<Rightarrow> state \<Rightarrow> state" where
  "queueMsc cfg target s =
     startFrameClock cfg (if target > queuedMsc s then s\<lparr>queuedMsc := target\<rparr> else s)"

text \<open>\<^verbatim>\<open>getRemainingMs()\<close> depends on the clock; the model returns the interval the timer
  was armed with.\<close>

definition msToNextUpdate :: "config \<Rightarrow> state \<Rightarrow> int" where
  "msToNextUpdate cfg s =
     (if \<not> isStarted (frameTimer s) then 1000 div int (frameRate cfg) div 2
      else timeoutMs (frameTimer s))"

subsection \<open>Update tracking\<close>

definition add_changed :: "config \<Rightarrow> region \<Rightarrow> state \<Rightarrow> state" where
  "add_changed cfg rg s =
     (case comparer s of
        None \<Rightarrow> s
      | Some c \<Rightarrow> startFrameClock cfg (s\<lparr>comparer := Some (cmp_add_changed rg c)\<rparr>))"

definition add_copied :: "config \<Rightarrow> region \<Rightarrow> point \<Rightarrow> state \<Rightarrow> state" where
  "add_copied cfg dest delta s =
     (case comparer s of
        None \<Rightarrow> s
      | Some c \<Rightarrow> startFrameClock cfg (s\<lparr>comparer := Some (cmp_add_copied dest delta c)\<rparr>))"

subsection \<open>Framebuffer and layout\<close>

definition setPixelBuffer ::
  "config \<Rightarrow> pixelBuffer option \<Rightarrow> screenSet \<Rightarrow> state \<Rightarrow> unit result" where
  "setPixelBuffer cfg new_pb layout s =
     (let s1 = s\<lparr>pb := new_pb, comparer := None\<rparr> in
      case new_pb of
        None \<Rightarrow>
          (let s2 = s1\<lparr>screenLayout := []\<rparr> in
           if desktopStarted s2
           then throws (LogicError ''setPixelBuffer: Null PixelBuffer when desktopStarted?'') s2
           else returns s2)
      | Some p \<Rightarrow>
          if \<not> validate layout (pb_width p) (pb_height p)
          then throws (InvalidArgument ''setPixelBuffer: Invalid screen layout'') s1
          else
            (let s2 = s1\<lparr>screenLayout := layout,
                          comparer := Some new_ComparingUpdateTracker,
                          renderedCursorInvalid := True\<rparr>;
                 s3 = add_changed cfg [getRect p] s2
             in returns (emit (broadcast [PixelBufferChange] (clients s3)) s3)))"

text \<open>The loop of the one-argument overload: every screen that is not enclosed by the new
  framebuffer is clipped to it, and removed (by id) when nothing of it is left.\<close>

function clipScreens :: "rect \<Rightarrow> screenSet \<Rightarrow> screenSet \<Rightarrow> screenSet" where
  "clipScreens fbRect visited [] = visited"
| "clipScreens fbRect visited (sc # rest) =
     (if enclosed_by (dimensions sc) fbRect then clipScreens fbRect (visited @ [sc]) rest
      else
        (let d = rect_intersect (dimensions sc) fbRect in
         if rect_is_empty d
         then clipScreens fbRect (remove_screen (scr_id sc) visited)
                (remove_screen (scr_id sc) rest)
         else clipScreens fbRect (visited @ [Screen (scr_id sc) d (scr_flags sc)]) rest))"
  by pat_completeness auto
termination
  by (relation "measure (\<lambda>(fbRect, visited, todo). length todo)")
     (auto simp: remove_screen_def less_Suc_eq_le)

definition setPixelBuffer1 :: "config \<Rightarrow> pixelBuffer option \<Rightarrow> state \<Rightarrow> unit result" where
  "setPixelBuffer1 cfg new_pb s =
     (let layout = screenLayout s;
          layout1 =
            (case new_pb of
               None \<Rightarrow> layout
             | Some p \<Rightarrow>
                 if \<not> validate layout (pb_width p) (pb_height p)
                 then clipScreens (setXYWH 0 0 (pb_width p) (pb_height p)) [] layout
                 else layout)
      in if length layout1 = 0
         then (case new_pb of
                 None \<Rightarrow> throws NullDereference s
               | Some p \<Rightarrow>
                   setPixelBuffer cfg new_pb
                     [Screen 0 (setXYWH 0 0 (pb_width p) (pb_height p)) 0] s)
         else setPixelBuffer cfg new_pb layout1 s)"

definition setScreenLayout :: "screenSet \<Rightarrow> state \<Rightarrow> unit result" where
  "setScreenLayout layout s =
     (case pb s of
        None \<Rightarrow>
          throws (LogicError ''setScreenLayout: New screen layout without a PixelBuffer'') s
      | Some p \<Rightarrow>
          if \<not> validate layout (pb_width p) (pb_height p)
          then throws (InvalidArgument ''setScreenLayout: Invalid screen layout'') s
          else (let s1 = s\<lparr>screenLayout := layout\<rparr>
                in returns
                     (emit (broadcast [ScreenLayoutChangeOrClose reasonServer] (clients s1)) s1)))"

subsection \<open>Clipboard, bell, name, cursor, LEDs\<close>

definition requestClipboard :: "config \<Rightarrow> state \<Rightarrow> state" where
  "requestClipboard cfg s =
     (if \<not> acceptCutText cfg then s
      else case clipboardClient s of
             None \<Rightarrow> s
           | Some c \<Rightarrow> emit [ConnCall c RequestClipboardOrClose] s)"

definition announceClipboard :: "config \<Rightarrow> bool \<Rightarrow> state \<Rightarrow> state" where
  "announceClipboard cfg available s =
     (let s1 = s\<lparr>clipboardRequestors := []\<rparr> in
      if \<not> sendCutText cfg then s1
      else emit (broadcast [AnnounceClipboardOrClose available] (clients s1)) s1)"

definition sendClipboardData :: "config \<Rightarrow> string \<Rightarrow> state \<Rightarrow> unit result" where
  "sendClipboardData cfg data s =
     (if \<not> sendCutText cfg then returns s
      else if CHR 0x0D \<in> set data
      then throws (InvalidArgument ''Invalid carriage return in clipboard data'') s
      else
        (let s1 = emit (map (\<lambda>c. ConnCall c (SendClipboardDataOrClose data))
                          (clipboardRequestors s)) s
         in returns (s1\<lparr>clipboardRequestors := []\<rparr>)))"

definition bell :: "state \<Rightarrow> state" where
  "bell s = emit (broadcast [BellOrClose] (clients s)) s"

definition setName :: "string \<Rightarrow> state \<Rightarrow> state" where
  "setName new_name s =
     (let s1 = s\<lparr>serverName := new_name\<rparr>
      in emit (broadcast [SetDesktopNameOrClose new_name] (clients s1)) s1)"

text \<open>What the collaborators do is a parameter of the model.  \<^verbatim>\<open>Cursor::crop\<close>,
  \<^verbatim>\<open>KeyRemapper::remapKey\<close> and the pixel comparison of
  \<^verbatim>\<open>ComparingUpdateTracker::compare\<close> (\<open>Some c\<close>: it found changes and the tracker is now
  \<open>c\<close>) are functions.  The backend's \<^verbatim>\<open>start()\<close>, \<^verbatim>\<open>stop()\<close> and \<^verbatim>\<open>setScreenLayout()\<close>
  call back into the coordinator before they return ("must result in a call back to
  setPixelBuffer before returning", "may synchronously call setScreenLayout back on the
  coordinator"); the calls they make, in order, are lists of \<open>callback\<close>, and
  \<open>CbThrow\<close> is the backend method itself throwing.\<close>

datatype callback =
    CbSetPixelBuffer "pixelBuffer option" screenSet
  | CbSetPixelBuffer1 "pixelBuffer option"
  | CbSetScreenLayout screenSet
  | CbThrow exn

datatype resultCode =
    resultSuccess
  | resultProhibited
  | resultNoResources
  | resultInvalid
  | resultIOError

record externals =
  ext_crop :: "cursor \<Rightarrow> cursor"
  ext_keyRemapper :: "(32 word \<Rightarrow> 32 word) option"
  ext_compare :: "comparingUpdateTracker \<Rightarrow> comparingUpdateTracker option"
  ext_start :: "callback list"
  ext_stop :: "callback list"
  ext_setScreenLayout :: "int \<Rightarrow> int \<Rightarrow> screenSet \<Rightarrow> resultCode \<times> callback list"

definition runCallback :: "config \<Rightarrow> callback \<Rightarrow> state \<Rightarrow> unit result" where
  "runCallback cfg cb s =
     (case cb of
        CbSetPixelBuffer new_pb layout \<Rightarrow> setPixelBuffer cfg new_pb layout s
      | CbSetPixelBuffer1 new_pb \<Rightarrow> setPixelBuffer1 cfg new_pb s
      | CbSetScreenLayout layout \<Rightarrow> setScreenLayout layout s
      | CbThrow e \<Rightarrow> throws e s)"

fun runCallbacks :: "config \<Rightarrow> callback list \<Rightarrow> state \<Rightarrow> unit result" where
  "runCallbacks cfg [] s = returns s"
| "runCallbacks cfg (cb # cbs) s = andThen (runCallback cfg cb s) (runCallbacks cfg cbs)"

definition setCursor ::
  "externals \<Rightarrow> int \<Rightarrow> int \<Rightarrow> point \<Rightarrow> byte list \<Rightarrow> state \<Rightarrow> state" where
  "setCursor ext width height newHotspot data s =
     (let s1 = s\<lparr>cursor := ext_crop ext (Cursor width height newHotspot data),
                 renderedCursorInvalid := True\<rparr>
      in emit (broadcast [RenderedCursorChange, SetCursorOrClose] (clients s1)) s1)"

definition setCursorPos :: "point \<Rightarrow> bool \<Rightarrow> state \<Rightarrow> state" where
  "setCursorPos pos warped s =
     (if cursorPos s \<noteq> pos then
        (let s1 = s\<lparr>cursorPos := pos, renderedCursorInvalid := True\<rparr>
         in emit (broadcast (if warped then [RenderedCursorChange, CursorPositionChange]
                             else [RenderedCursorChange]) (clients s1)) s1)
      else s)"

definition setLEDState :: "32 word \<Rightarrow> state \<Rightarrow> state" where
  "setLEDState st s =
     (if st = ledState s then s
      else (let s1 = s\<lparr>ledState := st\<rparr>
            in emit (broadcast [SetLEDStateOrClose st] (clients s1)) s1))"

subsection \<open>Internal helpers\<close>

definition authClientCount :: "state \<Rightarrow> int" where
  "authClientCount s = int (length (filter authenticated (clients s)))"

definition needRenderedCursor :: "state \<Rightarrow> bool" where
  "needRenderedCursor s = list_ex conn_needRenderedCursor (clients s)"

definition getComparerState :: "config \<Rightarrow> state \<Rightarrow> bool" where
  "getComparerState cfg s =
     (if compareFB cfg = 0 then False
      else if compareFB cfg \<noteq> 2 then True
      else list_ex conn_comparerState (clients s))"

text \<open>\<^verbatim>\<open>comparer->getUpdateInfo(&ui, clip)\<close>: the pending changes inside \<open>clip\<close>.\<close>

definition getUpdateInfo ::
  "comparingUpdateTracker \<Rightarrow> rect \<Rightarrow> region \<times> region \<times> point" where
  "getUpdateInfo c clip =
     (region_intersect (cmp_changed c) clip, region_intersect (cmp_copied c) clip,
      cmp_copy_delta c)"

definition writeUpdate :: "config \<Rightarrow> externals \<Rightarrow> state \<Rightarrow> unit result" where
  "writeUpdate cfg ext s =
     (if blockCounter s \<noteq> 0 then throws AssertionFailed s
      else if \<not> desktopStarted s then throws AssertionFailed s
      else case comparer s of
        None \<Rightarrow> throws AssertionFailed s
      | Some c \<Rightarrow>
         (case pb s of
            None \<Rightarrow> throws NullDereference s
          | Some p \<Rightarrow>
             (let ui = getUpdateInfo c (getRect p);
                  toCheck = region_union (fst ui) (fst (snd ui));
                  clippedCursorRect =
                    rect_intersect
                      (rect_translate
                         (Rect (Point 0 0)
                               (Point (cur_width (cursor s)) (cur_height (cursor s))))
                         (pt_subtract (cursorPos s) (cur_hotspot (cursor s))))
                      (getRect p);
                  s1 = (if needRenderedCursor s \<and>
                           \<not> region_is_empty (region_intersect toCheck clippedCursorRect)
                        then s\<lparr>renderedCursorInvalid := True\<rparr> else s);
                  s2 = emit [PbGrabRegion toCheck] s1;
                  c1 = c\<lparr>cmp_enabled := getComparerState cfg s2\<rparr>;
                  c2 = (case ext_compare ext c1 of None \<Rightarrow> c1 | Some c' \<Rightarrow> c');
                  ui2 = (case ext_compare ext c1 of
                           None \<Rightarrow> ui
                         | Some c' \<Rightarrow> getUpdateInfo c' (getRect p));
                  s3 = s2\<lparr>comparer := Some (cmp_clear c2)\<rparr>
              in returns
                   (emit (broadcast
                            [ConnAddCopied (fst (snd ui2)) (snd (snd ui2)),
                             ConnAddChanged (fst ui2),
                             WriteFramebufferUpdateOrClose] (clients s3)) s3))))"

definition startDesktop :: "config \<Rightarrow> externals \<Rightarrow> state \<Rightarrow> unit result" where
  "startDesktop cfg ext s =
     (if \<not> desktopStarted s then
        andThen (runCallbacks cfg (ext_start ext) (emit [DesktopStart] s))
          (\<lambda>s1. case pb s1 of
             None \<Rightarrow>
               throws (LogicError ''SDesktop::start() did not set a valid PixelBuffer'') s1
           | Some p \<Rightarrow>
              (let s2 = s1\<lparr>desktopStarted := True\<rparr> in
               case comparer s2 of
                 None \<Rightarrow> throws AssertionFailed s2
               | Some c \<Rightarrow>
                   andThen (if \<not> cmp_is_empty c then writeUpdate cfg ext s2 else returns s2)
                     (\<lambda>s3. if isStarted (frameTimer s3)
                            then returns (startFrameClock cfg (stopFrameClock s3))
                            else returns s3)))
      else returns s)"

definition stopDesktop :: "config \<Rightarrow> externals \<Rightarrow> state \<Rightarrow> unit result" where
  "stopDesktop cfg ext s =
     (if desktopStarted s
      then runCallbacks cfg (ext_stop ext) (emit [DesktopStop] (s\<lparr>desktopStarted := False\<rparr>))
      else returns s)"

subsection \<open>Input events and clipboard arbitration\<close>

definition keyEvent ::
  "config \<Rightarrow> externals \<Rightarrow> 32 word \<Rightarrow> 32 word \<Rightarrow> bool \<Rightarrow> state \<Rightarrow> state" where
  "keyEvent cfg ext keysym keycode down s =
     (if \<not> acceptKeyEvents cfg then s
      else
        (let s1 = (if maxIdleTime cfg \<noteq> 0
                   then s\<lparr>idleTimer := timer_start (secsToMillis (maxIdleTime cfg)) (idleTimer s)\<rparr>
                   else s);
             keysym1 = (case ext_keyRemapper ext of
                          None \<Rightarrow> keysym
                        | Some remapKey \<Rightarrow>
                            (let newkey = remapKey keysym
                             in if newkey \<noteq> keysym then newkey else keysym))
         in emit [DesktopKeyEvent keysym1 keycode down] s1))"

text \<open>\<open>now\<close> is the value of \<^verbatim>\<open>time(nullptr)\<close>; \<open>client\<close> is only compared, never
  dereferenced.\<close>

definition pointerEvent ::
  "config \<Rightarrow> int \<Rightarrow> nat \<Rightarrow> point \<Rightarrow> 16 word \<Rightarrow> state \<Rightarrow> state" where
  "pointerEvent cfg now client pos buttonMask s =
     (if \<not> acceptPointerEvents cfg then s
      else
        (let s1 = (if maxIdleTime cfg \<noteq> 0
                   then s\<lparr>idleTimer := timer_start (secsToMillis (maxIdleTime cfg)) (idleTimer s)\<rparr>
                   else s)
         in if pointerClient s1 \<noteq> None \<and> pointerClient s1 \<noteq> Some client \<and>
               now - pointerClientTime s1 < 10
            then s1
            else
              (let s2 = s1\<lparr>pointerClientTime := now\<rparr>;
                   s3 = (if buttonMask \<noteq> 0 then s2\<lparr>pointerClient := Some client\<rparr>
                         else s2\<lparr>pointerClient := None\<rparr>)
               in emit [DesktopPointerEvent pos buttonMask] s3)))"

definition handleClipboardRequest :: "nat \<Rightarrow> state \<Rightarrow> state" where
  "handleClipboardRequest client s =
     (let s1 = s\<lparr>clipboardRequestors := clipboardRequestors s @ [client]\<rparr>
      in if length (clipboardRequestors s1) = 1 then emit [DesktopHandleClipboardRequest] s1
         else s1)"

definition handleClipboardAnnounce :: "config \<Rightarrow> nat \<Rightarrow> bool \<Rightarrow> state \<Rightarrow> state" where
  "handleClipboardAnnounce cfg client available s =
     (if available then
        (if \<not> acceptCutText cfg then s
         else emit [DesktopHandleClipboardAnnounce available]
                (s\<lparr>clipboardClient := Some client\<rparr>))
      else
        (if Some client \<noteq> clipboardClient s then s
         else emit [DesktopHandleClipboardAnnounce available]
                (s\<lparr>clipboardClient := None\<rparr>)))"

definition handleClipboardData :: "config \<Rightarrow> nat \<Rightarrow> string \<Rightarrow> state \<Rightarrow> state" where
  "handleClipboardData cfg client data s =
     (if \<not> acceptCutText cfg then s
      else if Some client \<noteq> clipboardClient s then s
      else emit [DesktopHandleClipboardData data] s)"

subsection \<open>Client-driven resize\<close>

definition setDesktopSize ::
  "config \<Rightarrow> externals \<Rightarrow> nat \<Rightarrow> int \<Rightarrow> int \<Rightarrow> screenSet \<Rightarrow> state \<Rightarrow> resultCode result" where
  "setDesktopSize cfg ext requester fb_width fb_height layout s =
     (if \<not> acceptSetDesktopSize cfg then (Inr resultProhibited, s)
      else if fb_width > 16384 \<or> fb_height > 16384 then (Inr resultProhibited, s)
      else if \<not> validate layout fb_width fb_height then (Inr resultInvalid, s)
      else
        (case runCallbacks cfg (snd (ext_setScreenLayout ext fb_width fb_height layout))
                (emit [DesktopSetScreenLayout fb_width fb_height layout] s) of
           (Inl e, s1) \<Rightarrow> (Inl e, s1)
         | (Inr _, s1) \<Rightarrow>
            (let result = fst (ext_setScreenLayout ext fb_width fb_height layout) in
             if result \<noteq> resultSuccess then (Inr result, s1)
             else if \<not> screenSet_eq (screenLayout s1) layout
             then throws (RuntimeError
                    ''Desktop configured a different screen layout than requested'') s1
             else (Inr resultSuccess,
                   emit (broadcast [ScreenLayoutChangeOrClose reasonOtherClient]
                           (filter (\<lambda>c. conn_id c \<noteq> requester) (clients s1))) s1))))"

subsection \<open>Sockets\<close>

definition findClient :: "nat \<Rightarrow> state \<Rightarrow> connection option" where
  "findClient sock s = find (\<lambda>c. sock_id (getSock c) = sock) (clients s)"

definition approveConnection :: "nat \<Rightarrow> bool \<Rightarrow> string option \<Rightarrow> state \<Rightarrow> state" where
  "approveConnection sock accept reason s =
     (case findClient sock s of
        Some c \<Rightarrow> emit [ConnCall (conn_id c) (ApproveConnectionOrClose accept reason)] s
      | None \<Rightarrow> s)"

definition closeClients :: "string \<Rightarrow> nat option \<Rightarrow> state \<Rightarrow> state" where
  "closeClients reason except s =
     emit (broadcast [Close reason]
             (filter (\<lambda>c. Some (sock_id (getSock c)) \<noteq> except) (clients s))) s"

definition getSockets :: "state \<Rightarrow> socket list" where
  "getSockets s = map getSock (clients s) @ closingSockets s"

definition getConnection :: "nat \<Rightarrow> state \<Rightarrow> connection option" where
  "getConnection sock s = findClient sock s"

definition processSocketReadEvent :: "nat \<Rightarrow> state \<Rightarrow> unit result" where
  "processSocketReadEvent sock s =
     (case findClient sock s of
        Some c \<Rightarrow> returns (emit [ConnCall (conn_id c) ProcessMessages] s)
      | None \<Rightarrow> throws (InvalidArgument ''Invalid Socket in VNCServerST'') s)"

definition processSocketWriteEvent :: "nat \<Rightarrow> state \<Rightarrow> unit result" where
  "processSocketWriteEvent sock s =
     (case findClient sock s of
        Some c \<Rightarrow> returns (emit [ConnCall (conn_id c) FlushSocket] s)
      | None \<Rightarrow> throws (InvalidArgument ''Invalid Socket in VNCServerST'') s)"

text \<open>The banner of the blacklist rejection, as the \<^verbatim>\<open>try\<close> block writes it; the
  \<^verbatim>\<open>catch\<close> swallows the exception of a failing write and leaves the stream as it is.\<close>

definition blacklistReason :: string where
  "blacklistReason = ''Too many security failures''"

definition writeBlacklistBanner :: "ostream \<Rightarrow> ostream" where
  "writeBlacklistBanner os =
     (case writeBytes (ascii (''RFB 003.003'' @ [CHR 0x0A])) os of
        Inl e \<Rightarrow> os
      | Inr os1 \<Rightarrow>
         (case writeU32 0 os1 of
            Inl e \<Rightarrow> os1
          | Inr os2 \<Rightarrow>
             (case writeU32 (of_nat (length blacklistReason)) os2 of
                Inl e \<Rightarrow> os2
              | Inr os3 \<Rightarrow>
                 (case writeBytes (ascii blacklistReason) os3 of
                    Inl e \<Rightarrow> os3
                  | Inr os4 \<Rightarrow>
                     (case flush os4 of Inl e \<Rightarrow> os4 | Inr os5 \<Rightarrow> os5)))))"

text \<open>\<^verbatim>\<open>VNCSConnectionST\<close> is external: whether its constructor or its \<^verbatim>\<open>init()\<close> throws
  is a parameter of \<open>addSocket\<close>.  When \<^verbatim>\<open>init()\<close> throws, the client is already in
  \<open>clients\<close> and the socket it points to is the one that is shut down.\<close>

datatype acceptOutcome = AcceptOk | ConstructorThrows | InitThrows

definition new_VNCSConnectionST ::
  "nat \<Rightarrow> socket \<Rightarrow> bool \<Rightarrow> accessRight list \<Rightarrow> connection" where
  "new_VNCSConnectionST i sock outgoing accessRights =
     \<lparr>conn_id = i, getSock = sock, conn_outgoing = outgoing,
      conn_accessRights = accessRights, authenticated = False,
      conn_needRenderedCursor = False, conn_comparerState = False\<rparr>"

definition addSocket ::
  "config \<Rightarrow> acceptOutcome \<Rightarrow> socket \<Rightarrow> bool \<Rightarrow> accessRight list \<Rightarrow> state \<Rightarrow> state" where
  "addSocket cfg outcome sock outgoing accessRights s =
     (if isBlackmarked (peerAddress sock) s then
        (let sock1 = sock\<lparr>outStream := writeBlacklistBanner (outStream sock)\<rparr>
         in s\<lparr>closingSockets := closingSockets s @ [shutdown sock1]\<rparr>)
      else
        (let s1 = (if maxConnectionTime cfg \<noteq> 0 \<and> clients s = []
                   then s\<lparr>connectTimer :=
                            timer_start (secsToMillis (maxConnectionTime cfg)) (connectTimer s)\<rparr>
                   else s);
             s2 = s1\<lparr>disconnectTimer := timer_stop (disconnectTimer s1)\<rparr>
         in case outcome of
              ConstructorThrows \<Rightarrow>
                s2\<lparr>closingSockets := closingSockets s2 @ [shutdown sock]\<rparr>
            | InitThrows \<Rightarrow>
                (let client = new_VNCSConnectionST (nextConn s2) (shutdown sock) outgoing
                                accessRights;
                     s3 = emit [ConnCall (conn_id client) Init]
                            (s2\<lparr>clients := client # clients s2, nextConn := nextConn s2 + 1\<rparr>)
                 in s3\<lparr>closingSockets := closingSockets s3 @ [shutdown sock]\<rparr>)
            | AcceptOk \<Rightarrow>
                (let client = new_VNCSConnectionST (nextConn s2) sock outgoing accessRights
                 in emit [ConnCall (conn_id client) Init]
                      (s2\<lparr>clients := client # clients s2, nextConn := nextConn s2 + 1\<rparr>))))"

definition removeSocket :: "config \<Rightarrow> externals \<Rightarrow> nat \<Rightarrow> state \<Rightarrow> unit result" where
  "removeSocket cfg ext sock s =
     (case findClient sock s of
        Some c \<Rightarrow>
          (let s1 = (if pointerClient s = Some (conn_id c)
                     then (emit [DesktopPointerEvent (cursorPos s) 0] s)\<lparr>pointerClient := None\<rparr>
                     else s);
               s2 = (if clipboardClient s1 = Some (conn_id c)
                     then handleClipboardAnnounce cfg (conn_id c) False s1 else s1);
               s3 = s2\<lparr>clipboardRequestors := removeAll (conn_id c) (clipboardRequestors s2)\<rparr>;
               s4 = emit [ConnDelete (conn_id c)] s3;
               s5 = s4\<lparr>clients := filter (\<lambda>x. conn_id x \<noteq> conn_id c) (clients s4)\<rparr>
           in andThen (if authClientCount s5 = 0 then stopDesktop cfg ext s5 else returns s5)
                (\<lambda>s6. let s7 = s6\<lparr>connectTimer := timer_stop (connectTimer s6)\<rparr>
                       in if maxDisconnectionTime cfg \<noteq> 0 \<and> clients s7 = []
                          then returns
                                 (s7\<lparr>disconnectTimer :=
                                       timer_start (secsToMillis (maxDisconnectionTime cfg))
                                         (disconnectTimer s7)\<rparr>)
                          else returns s7))
      | None \<Rightarrow>
          returns (s\<lparr>closingSockets := filter (\<lambda>x. sock_id x \<noteq> sock) (closingSockets s)\<rparr>))"

subsection \<open>Timers\<close>

datatype timerId = FrameTimer | IdleTimer | DisconnectTimer | ConnectTimer | OtherTimer

text \<open>The frame timer's handler computes \<^verbatim>\<open>1000/frameRate\<close> before it looks at
  \<open>desktopStarted\<close>, so for \<open>frameRate = 0\<close> the source divides by zero on every expiry that
  re-arms the timer.\<close>

definition handleTimeout :: "config \<Rightarrow> externals \<Rightarrow> timerId \<Rightarrow> state \<Rightarrow> unit result" where
  "handleTimeout cfg ext t s =
     (case t of
        FrameTimer \<Rightarrow>
          if nothingPending s \<and> queuedMsc s < msc s then returns s
          else
            (let timeout0 = 1000 div int (frameRate cfg);
                 timeout = (if \<not> desktopStarted s then 1000 else timeout0);
                 s1 = s\<lparr>frameTimer := timer_repeat timeout (frameTimer s)\<rparr>
             in andThen
                  (if desktopStarted s1 \<and>
                      (case comparer s1 of None \<Rightarrow> False | Some c \<Rightarrow> \<not> cmp_is_empty c)
                   then writeUpdate cfg ext s1 else returns s1)
                  (\<lambda>s2. let s3 = s2\<lparr>msc := msc s2 + 1\<rparr>
                         in returns (emit [DesktopFrameTick (msc s3)] s3)))
      | IdleTimer \<Rightarrow> returns (emit [DesktopTerminate] s)
      | DisconnectTimer \<Rightarrow> returns (emit [DesktopTerminate] s)
      | ConnectTimer \<Rightarrow> returns (emit [DesktopTerminate] s)
      | OtherTimer \<Rightarrow> returns s)"

text \<open>Modelled from the spec: the dispatch of \<^verbatim>\<open>core::Timer\<close> is outside \<^verbatim>\<open>src/\<close>.  Only a
  running timer expires, and it is no longer armed when its handler runs (the handler
  "re-arms" it).\<close>

definition timerOf :: "timerId \<Rightarrow> state \<Rightarrow> timer option" where
  "timerOf t s =
     (case t of
        FrameTimer \<Rightarrow> Some (frameTimer s)
      | IdleTimer \<Rightarrow> Some (idleTimer s)
      | DisconnectTimer \<Rightarrow> Some (disconnectTimer s)
      | ConnectTimer \<Rightarrow> Some (connectTimer s)
      | OtherTimer \<Rightarrow> None)"

definition disarm :: "timerId \<Rightarrow> state \<Rightarrow> state" where
  "disarm t s =
     (case t of
        FrameTimer \<Rightarrow> s\<lparr>frameTimer := timer_stop (frameTimer s)\<rparr>
      | IdleTimer \<Rightarrow> s\<lparr>idleTimer := timer_stop (idleTimer s)\<rparr>
      | DisconnectTimer \<Rightarrow> s\<lparr>disconnectTimer := timer_stop (disconnectTimer s)\<rparr>
      | ConnectTimer \<Rightarrow> s\<lparr>connectTimer := timer_stop (connectTimer s)\<rparr>
      | OtherTimer \<Rightarrow> s)"

definition timerExpiry :: "config \<Rightarrow> externals \<Rightarrow> timerId \<Rightarrow> state \<Rightarrow> unit result" where
  "timerExpiry cfg ext t s =
     (case timerOf t s of
        None \<Rightarrow> returns s
      | Some tm \<Rightarrow> if isStarted tm then handleTimeout cfg ext t (disarm t s) else returns s)"

subsection \<open>Authentication aftermath and sharing\<close>

text \<open>\<open>client\<close> is dereferenced here, so the argument is the connection itself.\<close>

definition queryConnection ::
  "config \<Rightarrow> externals \<Rightarrow> connection \<Rightarrow> string \<Rightarrow> state \<Rightarrow> unit result" where
  "queryConnection cfg ext client userName s =
     andThen (startDesktop cfg ext (clearBlackmark (peerAddress (getSock client)) s))
       (\<lambda>s1. if neverShared cfg \<and> \<not> disconnectClients cfg \<and> authClientCount s1 > 0
              then returns (approveConnection (sock_id (getSock client)) False
                              (Some ''The server is already in use'') s1)
              else if \<not> queryConnect cfg \<and> \<not> requiresQuery (getSock client)
              then returns (approveConnection (sock_id (getSock client)) True None s1)
              else if accessCheck client AccessNoQuery
              then returns (approveConnection (sock_id (getSock client)) True None s1)
              else returns
                     (emit [DesktopQueryConnection (sock_id (getSock client)) userName] s1))"

definition clientReady :: "config \<Rightarrow> connection \<Rightarrow> bool \<Rightarrow> state \<Rightarrow> state" where
  "clientReady cfg client shared s =
     (if \<not> shared then
        (if disconnectClients cfg \<and> accessCheck client AccessNonShared
         then closeClients ''Non-shared connection requested''
                (Some (sock_id (getSock client))) s
         else if authClientCount s > 1
         then emit [ConnCall (conn_id client) (Close ''Server is already in use'')] s
         else s)
      else s)"

subsection \<open>Queries of the clients\<close>

definition getPendingRegion :: "state \<Rightarrow> region result" where
  "getPendingRegion s =
     (if blockCounter s > 0 then
        (case pb s of None \<Rightarrow> throws NullDereference s | Some p \<Rightarrow> (Inr [getRect p], s))
      else case comparer s of
        None \<Rightarrow> throws AssertionFailed s
      | Some c \<Rightarrow>
          if cmp_is_empty c then (Inr [], s)
          else (case pb s of
                  None \<Rightarrow> throws NullDereference s
                | Some p \<Rightarrow>
                    (let ui = getUpdateInfo c (getRect p)
                     in (Inr (region_union (fst ui) (fst (snd ui))), s))))"

definition getRenderedCursor :: "state \<Rightarrow> state" where
  "getRenderedCursor s =
     (if renderedCursorInvalid s
      then s\<lparr>renderedCursor := Some (pb s, cursor s, cursorPos s),
              renderedCursorInvalid := False\<rparr>
      else s)"

subsection \<open>Construction\<close>

definition VNCServerST :: "config \<Rightarrow> string \<Rightarrow> string list \<Rightarrow> state" where
  "VNCServerST cfg new_name bl =
     \<lparr>blacklist = bl, desktopStarted = False, blockCounter = 0, pb = None, ledState = -1,
      serverName = new_name, pointerClient = None, clipboardClient = None,
      clipboardRequestors = [], pointerClientTime = 0, comparer = None,
      cursor = Cursor 0 0 (Point 0 0) [], cursorPos = Point 0 0,
      renderedCursorInvalid = False, renderedCursor = None, screenLayout = [],
      clients = [], closingSockets = [],
      idleTimer = (if maxIdleTime cfg \<noteq> 0
                   then \<lparr>isStarted = True, timeoutMs = secsToMillis (maxIdleTime cfg)\<rparr>
                   else \<lparr>isStarted = False, timeoutMs = 0\<rparr>),
      disconnectTimer = (if maxDisconnectionTime cfg \<noteq> 0
                         then \<lparr>isStarted = True,
                               timeoutMs = secsToMillis (maxDisconnectionTime cfg)\<rparr>
                         else \<lparr>isStarted = False, timeoutMs = 0\<rparr>),
      connectTimer = \<lparr>isStarted = False, timeoutMs = 0\<rparr>,
      frameTimer = \<lparr>isStarted = False, timeoutMs = 0\<rparr>,
      msc = 0, queuedMsc = 0, nextConn = 0, trace = [DesktopInit]\<rparr>"

subsection \<open>The public operations\<close>

datatype operation =
    AddSocket acceptOutcome socket bool "accessRight list"
  | RemoveSocket nat
  | ProcessSocketReadEvent nat
  | ProcessSocketWriteEvent nat
  | BlockUpdates
  | UnblockUpdates
  | GetMsc
  | QueueMsc "64 word"
  | SetPixelBuffer "pixelBuffer option" screenSet
  | SetPixelBuffer1 "pixelBuffer option"
  | SetScreenLayout screenSet
  | RequestClipboard
  | AnnounceClipboard bool
  | SendClipboardData string
  | Bell
  | SetName string
  | Add_changed region
  | Add_copied region point
  | SetCursor int int point "byte list"
  | SetCursorPos point bool
  | SetLEDState "32 word"
  | KeyEvent "32 word" "32 word" bool
  | PointerEvent int nat point "16 word"
  | HandleClipboardRequest nat
  | HandleClipboardAnnounce nat bool
  | HandleClipboardData nat string
  | SetDesktopSize nat int int screenSet
  | ApproveConnection nat bool "string option"
  | CloseClients string "nat option"
  | GetSockets
  | GetConnection nat
  | TimerExpiry timerId
  | QueryConnection connection string
  | ClientReady connection bool
  | GetPendingRegion
  | GetRenderedCursor
  | GetComparerState
  | MsToNextUpdate

text \<open>One public operation: the exception it throws, if any, and the fields after it.\<close>

definition outcomeOf :: "'a result \<Rightarrow> exn option \<times> state" where
  "outcomeOf r = (case r of (Inl e, s) \<Rightarrow> (Some e, s) | (Inr _, s) \<Rightarrow> (None, s))"

definition step :: "config \<Rightarrow> externals \<Rightarrow> operation \<Rightarrow> state \<Rightarrow> exn option \<times> state" where
  "step cfg ext oper s =
     (case oper of
        AddSocket oc sock outgoing ar \<Rightarrow> (None, addSocket cfg oc sock outgoing ar s)
      | RemoveSocket sock \<Rightarrow> outcomeOf (removeSocket cfg ext sock s)
      | ProcessSocketReadEvent sock \<Rightarrow> outcomeOf (processSocketReadEvent sock s)
      | ProcessSocketWriteEvent sock \<Rightarrow> outcomeOf (processSocketWriteEvent sock s)
      | BlockUpdates \<Rightarrow> (None, blockUpdates s)
      | UnblockUpdates \<Rightarrow> outcomeOf (unblockUpdates cfg s)
      | GetMsc \<Rightarrow> (None, s)
      | QueueMsc target \<Rightarrow> (None, queueMsc cfg target s)
      | SetPixelBuffer p layout \<Rightarrow> outcomeOf (setPixelBuffer cfg p layout s)
      | SetPixelBuffer1 p \<Rightarrow> outcomeOf (setPixelBuffer1 cfg p s)
      | SetScreenLayout layout \<Rightarrow> outcomeOf (setScreenLayout layout s)
      | RequestClipboard \<Rightarrow> (None, requestClipboard cfg s)
      | AnnounceClipboard available \<Rightarrow> (None, announceClipboard cfg available s)
      | SendClipboardData data \<Rightarrow> outcomeOf (sendClipboardData cfg data s)
      | Bell \<Rightarrow> (None, bell s)
      | SetName n \<Rightarrow> (None, setName n s)
      | Add_changed rg \<Rightarrow> (None, add_changed cfg rg s)
      | Add_copied dest delta \<Rightarrow> (None, add_copied cfg dest delta s)
      | SetCursor w h hotspot data \<Rightarrow> (None, setCursor ext w h hotspot data s)
      | SetCursorPos pos warped \<Rightarrow> (None, setCursorPos pos warped s)
      | SetLEDState st \<Rightarrow> (None, setLEDState st s)
      | KeyEvent keysym keycode down \<Rightarrow> (None, keyEvent cfg ext keysym keycode down s)
      | PointerEvent now client pos buttons \<Rightarrow> (None, pointerEvent cfg now client pos buttons s)
      | HandleClipboardRequest client \<Rightarrow> (None, handleClipboardRequest client s)
      | HandleClipboardAnnounce client available \<Rightarrow>
          (None, handleClipboardAnnounce cfg client available s)
      | HandleClipboardData client data \<Rightarrow> (None, handleClipboardData cfg client data s)
      | SetDesktopSize requester w h layout \<Rightarrow>
          outcomeOf (setDesktopSize cfg ext requester w h layout s)
      | ApproveConnection sock accept reason \<Rightarrow> (None, approveConnection sock accept reason s)
      | CloseClients reason except \<Rightarrow> (None, closeClients reason except s)
      | GetSockets \<Rightarrow> (None, s)
      | GetConnection sock \<Rightarrow> (None, s)
      | TimerExpiry t \<Rightarrow> outcomeOf (timerExpiry cfg ext t s)
      | QueryConnection client userName \<Rightarrow> outcomeOf (queryConnection cfg ext client userName s)
      | ClientReady client shared \<Rightarrow> (None, clientReady cfg client shared s)
      | GetPendingRegion \<Rightarrow> outcomeOf (getPendingRegion s)
      | GetRenderedCursor \<Rightarrow> (None, getRenderedCursor s)
      | GetComparerState \<Rightarrow> (None, s)
      | MsToNextUpdate \<Rightarrow> (None, s))"

text \<open>The invariant the spec numbers 1, and the condition under which the spec says the
  frame timer runs.\<close>

definition comparer_iff_pb :: "state \<Rightarrow> bool" where
  "comparer_iff_pb s = ((comparer s \<noteq> None) = (pb s \<noteq> None))"

definition comparerNonEmpty :: "state \<Rightarrow> bool" where
  "comparerNonEmpty s = (case comparer s of None \<Rightarrow> False | Some c \<Rightarrow> \<not> cmp_is_empty c)"

definition specRunningCondition :: "state \<Rightarrow> bool" where
  "specRunningCondition s =
     (blockCounter s = 0 \<and>
      (\<not> desktopStarted s \<or> comparerNonEmpty s \<or> queuedMsc s > msc s))"

section \<open>Example inputs\<close>

definition exampleConfig :: config where
  "exampleConfig =
     \<lparr>maxIdleTime = 0, maxDisconnectionTime = 0, maxConnectionTime = 0, frameRate = 60,
      neverShared = False, disconnectClients = True, queryConnect = False,
      acceptCutText = True, sendCutText = True, acceptKeyEvents = True,
      acceptPointerEvents = True, acceptSetDesktopSize = True, compareFB = 2\<rparr>"

definition exampleState :: state where
  "exampleState = VNCServerST exampleConfig ''desktop'' [''1.2.3.4'']"

definition exampleSocket :: "nat \<Rightarrow> string \<Rightarrow> socket" where
  "exampleSocket i address =
     \<lparr>sock_id = i, peerAddress = address, requiresQuery = False,
      outStream = \<lparr>os_data = [], os_broken = False\<rparr>, isShutdown = False\<rparr>"

text \<open>A backend that installs a 1920x1080 framebuffer with one screen when it starts,
  detaches it when it stops (as \<^verbatim>\<open>SDisplay::stop\<close> does), and effects every requested
  layout by installing a framebuffer of the requested size.\<close>

definition exampleExternals :: externals where
  "exampleExternals =
     \<lparr>ext_crop = (\<lambda>c. c), ext_keyRemapper = None, ext_compare = (\<lambda>c. None),
      ext_start = [CbSetPixelBuffer (Some (PixelBuffer 1920 1080))
                     [Screen 0 (setXYWH 0 0 1920 1080) 0]],
      ext_stop = [CbSetPixelBuffer1 None],
      ext_setScreenLayout =
        (\<lambda>w h layout. (resultSuccess, [CbSetPixelBuffer (Some (PixelBuffer w h)) layout]))\<rparr>"

text \<open>A sequence of public operations, each applied to the fields the previous one left.\<close>

definition run :: "config \<Rightarrow> externals \<Rightarrow> operation list \<Rightarrow> state \<Rightarrow> state" where
  "run cfg ext opers s = foldl (\<lambda>st oper. snd (step cfg ext oper st)) s opers"

text \<open>What each operation of such a sequence threw, if anything, in order.\<close>

fun outcomes ::
  "config \<Rightarrow> externals \<Rightarrow> operation list \<Rightarrow> state \<Rightarrow> exn option list" where
  "outcomes cfg ext [] s = []"
| "outcomes cfg ext (oper # opers) s =
     fst (step cfg ext oper s) # outcomes cfg ext opers (snd (step cfg ext oper s))"

definition exampleClient :: connection where
  "exampleClient = new_VNCSConnectionST 0 (exampleSocket 5 ''10.0.0.1'') False []"

text \<open>A client connects, authenticates (which starts the desktop) and presses a button.\<close>

definition exampleSession :: state where
  "exampleSession =
     run exampleConfig exampleExternals
       [AddSocket AcceptOk (exampleSocket 5 ''10.0.0.1'') False [],
        QueryConnection exampleClient ''alice'',
        PointerEvent 0 0 (Point 10 10) 1]
       exampleState"

text \<open>A second client connects to the running session.\<close>

definition exampleClient2 :: connection where
  "exampleClient2 = new_VNCSConnectionST 1 (exampleSocket 6 ''10.0.0.2'') False []"

definition exampleSession2 :: state where
  "exampleSession2 =
     run exampleConfig exampleExternals
       [AddSocket AcceptOk (exampleSocket 6 ''10.0.0.2'') False []] exampleSession"

text \<open>The same two clients once the protocol driver of the first reports it
  authenticated.\<close>

definition exampleSharedSession :: state where
  "exampleSharedSession =
     exampleSession2\<lparr>clients := [exampleClient2, exampleClient\<lparr>authenticated := True\<rparr>]\<rparr>"

section \<open>Notions used to state the properties\<close>

text \<open>The banner of the blacklist rejection as the spec gives it: the version line of 12
  ASCII bytes, the 32-bit value 0 and the 32-bit length 26 in big-endian order, and the 26
  bytes of the reason.\<close>

definition specRejectBanner :: "byte list" where
  "specRejectBanner =
     ascii ''RFB 003.003'' @ [10] @ [0, 0, 0, 0] @ [0, 0, 0, 26] @
     ascii ''Too many security failures''"

fun isConnCall :: "event \<Rightarrow> bool" where
  "isConnCall (ConnCall i call) = True"
| "isConnCall e = False"

text \<open>What a callback of the backend into \<open>setPixelBuffer\<close> or \<open>setScreenLayout\<close> leaves
  alone: the session's clients, sockets, arbitration state, exit timers and counters; the
  only calls it makes are calls to connections.\<close>

definition sameSession :: "state \<Rightarrow> state \<Rightarrow> bool" where
  "sameSession s s' =
     (clients s' = clients s \<and> closingSockets s' = closingSockets s \<and>
      blacklist s' = blacklist s \<and> desktopStarted s' = desktopStarted s \<and>
      blockCounter s' = blockCounter s \<and>
      pointerClient s' = pointerClient s \<and> pointerClientTime s' = pointerClientTime s \<and>
      clipboardClient s' = clipboardClient s \<and>
      clipboardRequestors s' = clipboardRequestors s \<and>
      cursorPos s' = cursorPos s \<and>
      idleTimer s' = idleTimer s \<and> disconnectTimer s' = disconnectTimer s \<and>
      connectTimer s' = connectTimer s \<and> msc s' = msc s \<and> queuedMsc s' = queuedMsc s \<and>
      nextConn s' = nextConn s \<and>
      (\<exists>es. trace s' = trace s @ es \<and> list_all isConnCall es))"

text \<open>What does hold of the frame clock throughout: the block counter is never
  negative, the frame timer never runs while updates are blocked, and a comparer is never
  present without the pixel buffer that \<open>writeUpdate\<close> dereferences.\<close>

definition frameClockInv :: "state \<Rightarrow> bool" where
  "frameClockInv s =
     (0 \<le> blockCounter s \<and> (isStarted (frameTimer s) \<longrightarrow> blockCounter s = 0) \<and>
      (comparer s \<noteq> None \<longrightarrow> pb s \<noteq> None))"

text \<open>The tests of \<open>startFrameClock\<close> that let it arm a stopped timer: updates are not
  blocked, and it is not the case that nothing is pending and \<open>queuedMsc < msc\<close>.\<close>

definition frameClockDue :: "state \<Rightarrow> bool" where
  "frameClockDue s =
     (\<not> 0 < blockCounter s \<and> \<not> (nothingPending s \<and> queuedMsc s < msc s))"

text \<open>The part of the spec's running condition that does hold from right to left: with
  updates unblocked, pending changes of a started desktop, or a queued frame count ahead
  of \<open>msc\<close>, keep the frame timer running.\<close>

definition frameClockLive :: "state \<Rightarrow> bool" where
  "frameClockLive s =
     (blockCounter s = 0 \<and>
      (desktopStarted s \<and> comparerNonEmpty s \<or> queuedMsc s > msc s) \<longrightarrow>
        isStarted (frameTimer s))"

text \<open>The exception with which \<open>setPixelBuffer\<close> rejects a layout that does not fit the new
  framebuffer.\<close>

definition invalidLayout :: exn where
  "invalidLayout = InvalidArgument ''setPixelBuffer: Invalid screen layout''"

section \<open>Properties\<close>

subsection \<open>Evaluating the examples\<close>

lemmas eval_defs =
  setXYWH_def rect_is_empty_def enclosed_by_def rect_intersect_def pt_subtract_def
  rect_translate_def region_is_empty_def region_union_def region_intersect_def getRect_def
  validate_def remove_screen_def shutdown_def accessCheck_def timer_start_def timer_repeat_def
  timer_stop_def secsToMillis_def new_ComparingUpdateTracker_def cmp_is_empty_def
  cmp_add_changed_def cmp_add_copied_def cmp_clear_def emit_def broadcast_def returns_def
  throws_def andThen_def isBlackmarked_def clearBlackmark_def nothingPending_def
  stopFrameClock_def startFrameClock_def blockUpdates_def unblockUpdates_def queueMsc_def
  add_changed_def add_copied_def setPixelBuffer_def setPixelBuffer1_def setScreenLayout_def
  requestClipboard_def announceClipboard_def sendClipboardData_def bell_def setName_def
  runCallback_def setCursor_def setCursorPos_def setLEDState_def authClientCount_def
  needRenderedCursor_def getComparerState_def getUpdateInfo_def writeUpdate_def
  startDesktop_def stopDesktop_def keyEvent_def pointerEvent_def handleClipboardRequest_def
  handleClipboardAnnounce_def handleClipboardData_def setDesktopSize_def findClient_def
  approveConnection_def closeClients_def getSockets_def processSocketReadEvent_def
  processSocketWriteEvent_def addSocket_def removeSocket_def new_VNCSConnectionST_def
  handleTimeout_def timerOf_def disarm_def timerExpiry_def queryConnection_def
  clientReady_def getPendingRegion_def getRenderedCursor_def VNCServerST_def outcomeOf_def
  step_def run_def exampleConfig_def exampleState_def exampleSocket_def exampleExternals_def
  Let_def

lemma exampleSession_eq:
  "exampleSession =
   \<lparr>blacklist = [''1.2.3.4''], desktopStarted = True, blockCounter = 0,
    pb = Some (PixelBuffer 1920 1080), ledState = - 1,
    serverName = ''desktop'', pointerClient = Some 0,
    clipboardClient = None, clipboardRequestors = [], pointerClientTime = 0,
    comparer =
      Some
       \<lparr>cmp_changed = [], cmp_copied = [], cmp_copy_delta = Point 0 0,
          cmp_enabled = False\<rparr>,
    cursor = Cursor 0 0 (Point 0 0) [], cursorPos = Point 0 0,
    renderedCursorInvalid = True, renderedCursor = None,
    screenLayout = [Screen 0 (Rect (Point 0 0) (Point 1920 1080)) 0],
    clients =
      [\<lparr>conn_id = 0,
          getSock =
            \<lparr>sock_id = 5, peerAddress = ''10.0.0.1'', requiresQuery = False,
               outStream = \<lparr>os_data = [], os_broken = False\<rparr>,
               isShutdown = False\<rparr>,
          conn_outgoing = False, conn_accessRights = [],
          authenticated = False, conn_needRenderedCursor = False,
          conn_comparerState = False\<rparr>],
    closingSockets = [], idleTimer = \<lparr>isStarted = False, timeoutMs = 0\<rparr>,
    disconnectTimer = \<lparr>isStarted = False, timeoutMs = 0\<rparr>,
    connectTimer = \<lparr>isStarted = False, timeoutMs = 0\<rparr>,
    frameTimer = \<lparr>isStarted = True, timeoutMs = 8\<rparr>, msc = 0, queuedMsc = 0,
    nextConn = 1,
    trace =
      [DesktopInit, ConnCall 0 Init, DesktopStart,
       ConnCall 0 PixelBufferChange,
       PbGrabRegion [Rect (Point 0 0) (Point 1920 1080)],
       ConnCall 0 (ConnAddCopied [] (Point 0 0)),
       ConnCall 0 (ConnAddChanged [Rect (Point 0 0) (Point 1920 1080)]),
       ConnCall 0 WriteFramebufferUpdateOrClose,
       ConnCall 0 (ApproveConnectionOrClose True None),
       DesktopPointerEvent (Point 10 10) 1]\<rparr>"
  unfolding exampleSession_def exampleClient_def
  by (simp add: eval_defs)

lemma exampleSession2_eq:
  "exampleSession2 =
     exampleSession\<lparr>clients := [exampleClient2, exampleClient], nextConn := 2,
       trace := trace exampleSession @ [ConnCall 1 Init]\<rparr>"
  unfolding exampleSession2_def exampleSession_eq exampleClient_def exampleClient2_def
  by (simp add: eval_defs)

lemma exampleSharedSession_eq:
  "exampleSharedSession =
     exampleSession\<lparr>clients := [exampleClient2, exampleClient\<lparr>authenticated := True\<rparr>],
       nextConn := 2, trace := trace exampleSession @ [ConnCall 1 Init]\<rparr>"
  by (simp add: exampleSharedSession_def exampleSession2_eq)

lemma exampleTick_eq:
  "timerExpiry exampleConfig exampleExternals FrameTimer exampleSession =
     (Inr (), exampleSession\<lparr>frameTimer := \<lparr>isStarted = True, timeoutMs = 16\<rparr>, msc := 1,
                trace := trace exampleSession @ [DesktopFrameTick 1]\<rparr>)"
  unfolding exampleSession_eq by (simp add: eval_defs)

subsection \<open>Sequencing\<close>

lemma snd_outcomeOf [simp]: "snd (outcomeOf r) = snd r"
  by (cases r) (simp add: outcomeOf_def split: sum.split)

lemma fst_outcomeOf_None: "(fst (outcomeOf r) = None) = (\<exists>v. fst r = Inr v)"
  by (cases r) (simp add: outcomeOf_def split: sum.split)

lemma andThen_rule:
  "P (snd r) \<Longrightarrow> (\<And>s1. P s1 \<Longrightarrow> P (snd (f s1))) \<Longrightarrow> P (snd (andThen r f))"
  by (cases r) (simp add: andThen_def split: sum.split)

lemma andThen_returns_rule:
  assumes "fst (andThen r f) = Inr v"
      and "fst r = Inr () \<Longrightarrow> P (snd r)"
      and "\<And>s1. P s1 \<Longrightarrow> fst (f s1) = Inr v \<Longrightarrow> P (snd (f s1))"
  shows "P (snd (andThen r f))"
proof (cases r)
  case (Pair x s1)
  show ?thesis
  proof (cases x)
    case (Inl e)
    with Pair assms(1) show ?thesis by (simp add: andThen_def)
  next
    case (Inr u)
    with Pair assms(2) have "P s1" by simp
    moreover from Pair Inr assms(1) have "fst (f s1) = Inr v" by (simp add: andThen_def)
    ultimately have "P (snd (f s1))" by (rule assms(3))
    with Pair Inr show ?thesis by (simp add: andThen_def)
  qed
qed

lemma snd_andThen:
  "snd (andThen r f) = (case fst r of Inl e \<Rightarrow> snd r | Inr v \<Rightarrow> snd (f (snd r)))"
  by (cases r) (simp add: andThen_def split: sum.split)

lemma andThen_returns_rule2:
  assumes "fst (andThen r f) = Inr v"
      and "P (snd r)"
      and "\<And>s1. P s1 \<Longrightarrow> fst (f s1) = Inr v \<Longrightarrow> Q (snd (f s1))"
  shows "Q (snd (andThen r f))"
proof (cases r)
  case (Pair x s1)
  show ?thesis
  proof (cases x)
    case (Inl e)
    with Pair assms(1) show ?thesis by (simp add: andThen_def)
  next
    case (Inr u)
    from Pair assms(2) have "P s1" by simp
    moreover from Pair Inr assms(1) have "fst (f s1) = Inr v" by (simp add: andThen_def)
    ultimately have "Q (snd (f s1))" by (rule assms(3))
    with Pair Inr show ?thesis by (simp add: andThen_def)
  qed
qed

lemma fst_outcomeOf_Some: "(fst (outcomeOf r) = Some e) = (fst r = Inl e)"
  by (cases r) (simp add: outcomeOf_def split: sum.split)

lemma andThen_except_rule:
  assumes "fst (andThen r f) \<noteq> Inl e"
      and "fst r \<noteq> Inl e \<Longrightarrow> P (snd r)"
      and "\<And>s1. P s1 \<Longrightarrow> fst (f s1) \<noteq> Inl e \<Longrightarrow> P (snd (f s1))"
  shows "P (snd (andThen r f))"
proof (cases r)
  case (Pair x s1)
  show ?thesis
  proof (cases x)
    case (Inl e')
    with Pair assms(1) have "fst r \<noteq> Inl e" by (simp add: andThen_def)
    then have "P (snd r)" by (rule assms(2))
    with Pair Inl show ?thesis by (simp add: andThen_def)
  next
    case (Inr u)
    with Pair have "fst r \<noteq> Inl e" by simp
    then have "P (snd r)" by (rule assms(2))
    with Pair have "P s1" by simp
    moreover from Pair Inr assms(1) have "fst (f s1) \<noteq> Inl e" by (simp add: andThen_def)
    ultimately have "P (snd (f s1))" by (rule assms(3))
    with Pair Inr show ?thesis by (simp add: andThen_def)
  qed
qed

subsection \<open>What the backend's callbacks leave alone\<close>

lemma sameSession_refl: "sameSession s s"
  by (simp add: sameSession_def)

lemma sameSession_trans: "sameSession s s1 \<Longrightarrow> sameSession s1 s2 \<Longrightarrow> sameSession s s2"
  by (auto simp: sameSession_def)

lemma list_all_broadcast: "list_all isConnCall (broadcast calls cs)"
  by (auto simp: broadcast_def list_all_iff)

lemma startFrameClock_same: "sameSession s (startFrameClock cfg s)"
  by (simp add: sameSession_def startFrameClock_def)

lemma add_changed_same: "sameSession s (add_changed cfg rg s)"
  by (simp add: sameSession_def add_changed_def startFrameClock_def split: option.split)

lemma setPixelBuffer_same: "sameSession s (snd (setPixelBuffer cfg p layout s))"
  by (simp add: sameSession_def setPixelBuffer_def add_changed_def startFrameClock_def
      emit_def returns_def throws_def Let_def list_all_broadcast split: option.split)

lemma setPixelBuffer1_same: "sameSession s (snd (setPixelBuffer1 cfg p s))"
  by (simp add: setPixelBuffer1_def Let_def setPixelBuffer_same throws_def sameSession_refl
      split: option.split)

lemma setScreenLayout_same: "sameSession s (snd (setScreenLayout layout s))"
  by (simp add: sameSession_def setScreenLayout_def emit_def returns_def throws_def Let_def
      list_all_broadcast split: option.split)

lemma runCallback_same: "sameSession s (snd (runCallback cfg cb s))"
  by (cases cb)
     (simp_all add: runCallback_def setPixelBuffer_same setPixelBuffer1_same
        setScreenLayout_same throws_def sameSession_refl)

lemma runCallbacks_same: "sameSession s (snd (runCallbacks cfg cbs s))"
proof (induction cbs arbitrary: s)
  case Nil
  show ?case by (simp add: returns_def sameSession_refl)
next
  case (Cons cb cbs)
  obtain r s1 where r: "runCallback cfg cb s = (r, s1)"
    by (cases "runCallback cfg cb s")
  have s1: "sameSession s s1"
    using runCallback_same [of s cfg cb] r by simp
  show ?case
  proof (cases r)
    case (Inl e)
    with r s1 show ?thesis by (simp add: andThen_def)
  next
    case (Inr u)
    with r have "snd (runCallbacks cfg (cb # cbs) s) = snd (runCallbacks cfg cbs s1)"
      by (simp add: andThen_def)
    with s1 Cons.IH [of s1] show ?thesis
      by (simp add: sameSession_trans)
  qed
qed

subsection \<open>What holds of the frame clock throughout\<close>

lemma frameClockInv_alt:
  "frameClockInv s =
     (0 \<le> blockCounter s \<and> (isStarted (frameTimer s) \<longrightarrow> blockCounter s = 0) \<and>
      (pb s = None \<longrightarrow> comparer s = None))"
  by (auto simp: frameClockInv_def)

lemma startFrameClock_inv: "frameClockInv s \<Longrightarrow> frameClockInv (startFrameClock cfg s)"
  by (simp add: frameClockInv_alt startFrameClock_def timer_start_def)

lemma add_changed_inv: "frameClockInv s \<Longrightarrow> frameClockInv (add_changed cfg rg s)"
proof (cases "comparer s")
  case None
  assume "frameClockInv s"
  with None show ?thesis by (simp add: add_changed_def)
next
  case (Some c)
  assume "frameClockInv s"
  with Some have "frameClockInv (s\<lparr>comparer := Some (cmp_add_changed rg c)\<rparr>)"
    by (auto simp: frameClockInv_alt)
  then have "frameClockInv (startFrameClock cfg (s\<lparr>comparer := Some (cmp_add_changed rg c)\<rparr>))"
    by (rule startFrameClock_inv)
  with Some show ?thesis by (simp add: add_changed_def)
qed

lemma add_copied_inv: "frameClockInv s \<Longrightarrow> frameClockInv (add_copied cfg dest delta s)"
proof (cases "comparer s")
  case None
  assume "frameClockInv s"
  with None show ?thesis by (simp add: add_copied_def)
next
  case (Some c)
  assume "frameClockInv s"
  with Some have "frameClockInv (s\<lparr>comparer := Some (cmp_add_copied dest delta c)\<rparr>)"
    by (auto simp: frameClockInv_alt)
  then have "frameClockInv (startFrameClock cfg
                              (s\<lparr>comparer := Some (cmp_add_copied dest delta c)\<rparr>))"
    by (rule startFrameClock_inv)
  with Some show ?thesis by (simp add: add_copied_def)
qed

lemma setPixelBuffer_inv:
  "frameClockInv s \<Longrightarrow> frameClockInv (snd (setPixelBuffer cfg p layout s))"
  by (simp add: setPixelBuffer_def add_changed_def frameClockInv_alt startFrameClock_def
      timer_start_def emit_def returns_def throws_def Let_def split: option.split)

lemma setPixelBuffer1_inv:
  "frameClockInv s \<Longrightarrow> frameClockInv (snd (setPixelBuffer1 cfg p s))"
  by (simp add: setPixelBuffer1_def Let_def setPixelBuffer_inv throws_def split: option.split)

lemma setScreenLayout_inv:
  "frameClockInv s \<Longrightarrow> frameClockInv (snd (setScreenLayout layout s))"
  by (simp add: setScreenLayout_def frameClockInv_alt emit_def returns_def throws_def Let_def
      split: option.split)

lemma runCallback_inv: "frameClockInv s \<Longrightarrow> frameClockInv (snd (runCallback cfg cb s))"
  by (cases cb)
     (simp_all add: runCallback_def setPixelBuffer_inv setPixelBuffer1_inv setScreenLayout_inv
        throws_def)

lemma runCallbacks_inv: "frameClockInv s \<Longrightarrow> frameClockInv (snd (runCallbacks cfg cbs s))"
proof (induction cbs arbitrary: s)
  case Nil
  then show ?case by (simp add: returns_def)
next
  case (Cons cb cbs)
  from Cons.prems have "frameClockInv (snd (runCallback cfg cb s))"
    by (rule runCallback_inv)
  with Cons.IH Cons.prems show ?case
    by (simp add: snd_andThen split: sum.split)
qed

lemma writeUpdate_inv: "frameClockInv s \<Longrightarrow> frameClockInv (snd (writeUpdate cfg ext s))"
  by (simp add: writeUpdate_def frameClockInv_alt emit_def returns_def throws_def Let_def
      split: option.split)

lemma stopFrameClock_inv: "frameClockInv s \<Longrightarrow> frameClockInv (stopFrameClock s)"
  by (simp add: stopFrameClock_def frameClockInv_alt timer_stop_def)

lemma startDesktop_inv: "frameClockInv s \<Longrightarrow> frameClockInv (snd (startDesktop cfg ext s))"
proof -
  assume inv: "frameClockInv s"
  have e: "frameClockInv (emit [DesktopStart] s)"
    using inv by (simp add: frameClockInv_alt emit_def)
  have cb: "frameClockInv (snd (runCallbacks cfg (ext_start ext) (emit [DesktopStart] s)))"
    using e by (rule runCallbacks_inv)
  have step2: "\<And>s1. frameClockInv s1 \<Longrightarrow>
       frameClockInv (snd (case pb s1 of
             None \<Rightarrow>
               throws (LogicError ''SDesktop::start() did not set a valid PixelBuffer'') s1
           | Some p \<Rightarrow>
              (let s2 = s1\<lparr>desktopStarted := True\<rparr> in
               case comparer s2 of
                 None \<Rightarrow> throws AssertionFailed s2
               | Some c \<Rightarrow>
                   andThen (if \<not> cmp_is_empty c then writeUpdate cfg ext s2 else returns s2)
                     (\<lambda>s3. if isStarted (frameTimer s3)
                            then returns (startFrameClock cfg (stopFrameClock s3))
                            else returns s3))))"
  proof -
    fix s1 assume i1: "frameClockInv s1"
    have i2: "frameClockInv (s1\<lparr>desktopStarted := True\<rparr>)"
      using i1 by (simp add: frameClockInv_alt)
    have i3: "frameClockInv (snd (writeUpdate cfg ext (s1\<lparr>desktopStarted := True\<rparr>)))"
      using i2 by (rule writeUpdate_inv)
    have fin: "\<And>s3. frameClockInv s3 \<Longrightarrow>
        frameClockInv (snd (if isStarted (frameTimer s3)
                            then returns (startFrameClock cfg (stopFrameClock s3))
                            else returns s3))"
      by (simp add: returns_def startFrameClock_inv stopFrameClock_inv)
    show "?thesis s1"
      using i1 i2 i3 fin
      by (simp add: Let_def throws_def snd_andThen returns_def startFrameClock_inv
          stopFrameClock_inv split: option.split sum.split)
  qed
  show ?thesis
    using inv cb step2
    by (simp add: startDesktop_def snd_andThen returns_def split: sum.split)
qed


lemma stopDesktop_inv: "frameClockInv s \<Longrightarrow> frameClockInv (snd (stopDesktop cfg ext s))"
proof -
  assume inv: "frameClockInv s"
  then have "frameClockInv (emit [DesktopStop] (s\<lparr>desktopStarted := False\<rparr>))"
    by (simp add: frameClockInv_alt emit_def)
  then have "frameClockInv (snd (runCallbacks cfg (ext_stop ext)
                                   (emit [DesktopStop] (s\<lparr>desktopStarted := False\<rparr>))))"
    by (rule runCallbacks_inv)
  with inv show ?thesis
    by (simp add: stopDesktop_def returns_def)
qed

lemma removeSocket_inv: "frameClockInv s \<Longrightarrow> frameClockInv (snd (removeSocket cfg ext sock s))"
proof (cases "findClient sock s")
  case None
  assume "frameClockInv s"
  with None show ?thesis
    by (simp add: removeSocket_def returns_def frameClockInv_alt)
next
  case (Some c)
  assume inv: "frameClockInv s"
  define s5 where "s5 =
    (let s1 = (if pointerClient s = Some (conn_id c)
                     then (emit [DesktopPointerEvent (cursorPos s) 0] s)\<lparr>pointerClient := None\<rparr>
                     else s);
               s2 = (if clipboardClient s1 = Some (conn_id c)
                     then handleClipboardAnnounce cfg (conn_id c) False s1 else s1);
               s3 = s2\<lparr>clipboardRequestors := removeAll (conn_id c) (clipboardRequestors s2)\<rparr>;
               s4 = emit [ConnDelete (conn_id c)] s3
     in s4\<lparr>clients := filter (\<lambda>x. conn_id x \<noteq> conn_id c) (clients s4)\<rparr>)"
  have i5: "frameClockInv s5"
    using inv
    by (simp add: s5_def Let_def frameClockInv_alt emit_def handleClipboardAnnounce_def)
  have i6: "frameClockInv (snd (stopDesktop cfg ext s5))"
    using i5 by (rule stopDesktop_inv)
  have fin: "\<And>s6. frameClockInv s6 \<Longrightarrow>
     frameClockInv (snd (let s7 = s6\<lparr>connectTimer := timer_stop (connectTimer s6)\<rparr>
                       in if maxDisconnectionTime cfg \<noteq> 0 \<and> clients s7 = []
                          then returns
                                 (s7\<lparr>disconnectTimer :=
                                       timer_start (secsToMillis (maxDisconnectionTime cfg))
                                         (disconnectTimer s7)\<rparr>)
                          else returns s7))"
    by (simp add: Let_def returns_def frameClockInv_alt)
  have "removeSocket cfg ext sock s =
      andThen (if authClientCount s5 = 0 then stopDesktop cfg ext s5 else returns s5)
                (\<lambda>s6. let s7 = s6\<lparr>connectTimer := timer_stop (connectTimer s6)\<rparr>
                       in if maxDisconnectionTime cfg \<noteq> 0 \<and> clients s7 = []
                          then returns
                                 (s7\<lparr>disconnectTimer :=
                                       timer_start (secsToMillis (maxDisconnectionTime cfg))
                                         (disconnectTimer s7)\<rparr>)
                          else returns s7)"
    using Some by (simp add: removeSocket_def s5_def Let_def)
  then show ?thesis
    using i5 i6 fin
    by (simp add: snd_andThen returns_def split: sum.split)
qed

lemma handleTimeout_inv:
  assumes "frameClockInv s" and "t = FrameTimer \<longrightarrow> blockCounter s = 0"
  shows "frameClockInv (snd (handleTimeout cfg ext t s))"
proof (cases t)
  case FrameTimer
  show ?thesis
  proof (cases "nothingPending s \<and> queuedMsc s < msc s")
    case True
    with assms FrameTimer show ?thesis
      by (simp add: handleTimeout_def returns_def)
  next
    case False
    define s1 where "s1 = s\<lparr>frameTimer := timer_repeat (if \<not> desktopStarted s then 1000
                            else 1000 div int (frameRate cfg)) (frameTimer s)\<rparr>"
    have i1: "frameClockInv s1"
      using assms FrameTimer by (simp add: s1_def frameClockInv_alt)
    have i2: "frameClockInv (snd (writeUpdate cfg ext s1))"
      using i1 by (rule writeUpdate_inv)
    have eq: "handleTimeout cfg ext t s =
       andThen (if desktopStarted s1 \<and>
                      (case comparer s1 of None \<Rightarrow> False | Some c \<Rightarrow> \<not> cmp_is_empty c)
                   then writeUpdate cfg ext s1 else returns s1)
                  (\<lambda>s2. let s3 = s2\<lparr>msc := msc s2 + 1\<rparr>
                         in returns (emit [DesktopFrameTick (msc s3)] s3))"
      using FrameTimer by (simp add: handleTimeout_def s1_def Let_def False)
    show ?thesis
      unfolding eq
    proof (rule andThen_rule)
      show "frameClockInv (snd (if desktopStarted s1 \<and>
                      (case comparer s1 of None \<Rightarrow> False | Some c \<Rightarrow> \<not> cmp_is_empty c)
                   then writeUpdate cfg ext s1 else returns s1))"
        using i1 i2 by (simp add: returns_def)
    next
      fix s2 assume "frameClockInv s2"
      then show "frameClockInv (snd (let s3 = s2\<lparr>msc := msc s2 + 1\<rparr>
                         in returns (emit [DesktopFrameTick (msc s3)] s3)))"
        by (simp add: Let_def returns_def emit_def frameClockInv_alt)
    qed
  qed
qed (use assms in \<open>simp_all add: handleTimeout_def returns_def emit_def frameClockInv_alt\<close>)

lemma timerExpiry_inv: "frameClockInv s \<Longrightarrow> frameClockInv (snd (timerExpiry cfg ext t s))"
proof -
  assume inv: "frameClockInv s"
  have d: "frameClockInv (disarm t s)"
    using inv by (cases t) (simp_all add: disarm_def frameClockInv_alt timer_stop_def)
  have b: "t = FrameTimer \<longrightarrow> isStarted (frameTimer s) \<longrightarrow> blockCounter (disarm t s) = 0"
    using inv by (simp add: disarm_def frameClockInv_alt)
  show ?thesis
  proof (cases "timerOf t s")
    case None
    with inv show ?thesis by (simp add: timerExpiry_def returns_def)
  next
    case (Some tm)
    show ?thesis
    proof (cases "isStarted tm")
      case False
      with Some inv show ?thesis by (simp add: timerExpiry_def returns_def)
    next
      case True
      have "t = FrameTimer \<longrightarrow> blockCounter (disarm t s) = 0"
        using b Some True by (cases t) (simp_all add: timerOf_def)
      from handleTimeout_inv [OF d this] Some True show ?thesis
        by (simp add: timerExpiry_def)
    qed
  qed
qed

lemma unblockUpdates_inv: "frameClockInv s \<Longrightarrow> frameClockInv (snd (unblockUpdates cfg s))"
  by (simp add: unblockUpdates_def Let_def returns_def throws_def startFrameClock_def
      frameClockInv_alt timer_start_def)

lemma setDesktopSize_inv:
  "frameClockInv s \<Longrightarrow> frameClockInv (snd (setDesktopSize cfg ext requester w h layout s))"
proof -
  assume inv: "frameClockInv s"
  obtain r s1 where cb: "runCallbacks cfg (snd (ext_setScreenLayout ext w h layout))
                (emit [DesktopSetScreenLayout w h layout] s) = (r, s1)"
    by (cases "runCallbacks cfg (snd (ext_setScreenLayout ext w h layout))
                (emit [DesktopSetScreenLayout w h layout] s)")
  from inv have "frameClockInv (emit [DesktopSetScreenLayout w h layout] s)"
    by (simp add: frameClockInv_alt emit_def)
  then have "frameClockInv (snd (runCallbacks cfg (snd (ext_setScreenLayout ext w h layout))
                (emit [DesktopSetScreenLayout w h layout] s)))"
    by (rule runCallbacks_inv)
  with cb have i1: "frameClockInv s1"
    by simp
  then have i2: "\<And>es. frameClockInv (emit es s1)"
    by (simp add: frameClockInv_alt emit_def)
  from inv i1 i2 cb show ?thesis
    by (simp add: setDesktopSize_def Let_def throws_def split: sum.split)
qed

lemma queryConnection_inv:
  "frameClockInv s \<Longrightarrow> frameClockInv (snd (queryConnection cfg ext client userName s))"
proof -
  assume inv: "frameClockInv s"
  then have "frameClockInv (clearBlackmark (peerAddress (getSock client)) s)"
    by (simp add: frameClockInv_alt clearBlackmark_def)
  then have i1: "frameClockInv (snd (startDesktop cfg ext
                                 (clearBlackmark (peerAddress (getSock client)) s)))"
    by (rule startDesktop_inv)
  have ap: "\<And>st sock accept reason. frameClockInv st \<Longrightarrow>
              frameClockInv (approveConnection sock accept reason st)"
    by (simp add: approveConnection_def emit_def frameClockInv_alt split: option.split)
  from i1 ap show ?thesis
    by (simp add: queryConnection_def snd_andThen returns_def emit_def split: sum.split)
       (simp add: frameClockInv_alt)
qed

lemma frameClockInv_step: "frameClockInv s \<Longrightarrow> frameClockInv (snd (step cfg ext oper s))"
proof (cases oper)
  case (AddSocket oc sock outgoing ar)
  assume "frameClockInv s"
  then show ?thesis
    unfolding AddSocket
    by (simp add: step_def addSocket_def Let_def emit_def frameClockInv_alt
        split: acceptOutcome.split)
qed (simp_all add: step_def removeSocket_inv timerExpiry_inv unblockUpdates_inv
      setDesktopSize_inv queryConnection_inv setPixelBuffer_inv setPixelBuffer1_inv
      setScreenLayout_inv add_changed_inv add_copied_inv,
     simp_all add: frameClockInv_alt processSocketReadEvent_def processSocketWriteEvent_def
      blockUpdates_def stopFrameClock_def timer_stop_def queueMsc_def startFrameClock_def
      timer_start_def requestClipboard_def announceClipboard_def sendClipboardData_def
      bell_def setName_def setCursor_def setCursorPos_def setLEDState_def keyEvent_def
      pointerEvent_def handleClipboardRequest_def handleClipboardAnnounce_def
      handleClipboardData_def approveConnection_def closeClients_def clientReady_def
      getPendingRegion_def getRenderedCursor_def emit_def returns_def throws_def Let_def
      split: option.split)

subsection \<open>Comparer and pixel buffer\<close>

lemma comparer_iff_pb_alt: "comparer_iff_pb s = ((comparer s = None) = (pb s = None))"
  by (auto simp: comparer_iff_pb_def)

lemma startFrameClock_fields [simp]:
  "pb (startFrameClock cfg s) = pb s"
  "comparer (startFrameClock cfg s) = comparer s"
  by (simp_all add: startFrameClock_def)

lemma add_changed_pb: "comparer_iff_pb (add_changed cfg rg s) = comparer_iff_pb s"
  by (simp add: comparer_iff_pb_alt add_changed_def split: option.split)

lemma add_copied_pb: "comparer_iff_pb (add_copied cfg dest delta s) = comparer_iff_pb s"
  by (simp add: comparer_iff_pb_alt add_copied_def split: option.split)

lemma setPixelBuffer_pb:
  assumes "fst (setPixelBuffer cfg p layout s) \<noteq> Inl invalidLayout"
  shows "comparer_iff_pb (snd (setPixelBuffer cfg p layout s))"
proof (cases p)
  case None
  then show ?thesis
    by (simp add: setPixelBuffer_def comparer_iff_pb_alt returns_def throws_def Let_def)
next
  case (Some x)
  show ?thesis
  proof (cases "validate layout (pb_width x) (pb_height x)")
    case False
    with Some assms show ?thesis
      by (simp add: setPixelBuffer_def throws_def Let_def invalidLayout_def)
  next
    case True
    with Some show ?thesis
      by (simp add: setPixelBuffer_def comparer_iff_pb_alt returns_def emit_def Let_def
          add_changed_def)
  qed
qed

lemma setPixelBuffer1_pb:
  assumes inv: "comparer_iff_pb s"
      and "fst (setPixelBuffer1 cfg p s) \<noteq> Inl invalidLayout"
  shows "comparer_iff_pb (snd (setPixelBuffer1 cfg p s))"
proof -
  have "\<exists>layout. setPixelBuffer1 cfg p s = setPixelBuffer cfg p layout s \<or>
                 setPixelBuffer1 cfg p s = throws NullDereference s"
    by (cases p) (auto simp: setPixelBuffer1_def Let_def)
  then obtain layout where
    "setPixelBuffer1 cfg p s = setPixelBuffer cfg p layout s \<or>
     setPixelBuffer1 cfg p s = throws NullDereference s"
    by blast
  with assms show ?thesis
    by (auto simp: throws_def setPixelBuffer_pb)
qed

lemma setScreenLayout_pb:
  "comparer_iff_pb s \<Longrightarrow> comparer_iff_pb (snd (setScreenLayout layout s))"
  by (simp add: setScreenLayout_def comparer_iff_pb_alt emit_def returns_def throws_def Let_def
      split: option.split)

lemma runCallback_pb:
  "comparer_iff_pb s \<Longrightarrow> fst (runCallback cfg cb s) \<noteq> Inl invalidLayout \<Longrightarrow>
   comparer_iff_pb (snd (runCallback cfg cb s))"
  by (cases cb)
     (simp_all add: runCallback_def setPixelBuffer_pb setPixelBuffer1_pb setScreenLayout_pb
        throws_def)

lemma runCallbacks_pb:
  "comparer_iff_pb s \<Longrightarrow> fst (runCallbacks cfg cbs s) \<noteq> Inl invalidLayout \<Longrightarrow>
   comparer_iff_pb (snd (runCallbacks cfg cbs s))"
proof (induction cbs arbitrary: s)
  case Nil
  then show ?case by (simp add: returns_def)
next
  case (Cons cb cbs)
  from Cons.prems(2)
  have "fst (andThen (runCallback cfg cb s) (runCallbacks cfg cbs)) \<noteq> Inl invalidLayout"
    by simp
  then have "comparer_iff_pb (snd (andThen (runCallback cfg cb s) (runCallbacks cfg cbs)))"
  proof (rule andThen_except_rule)
    assume "fst (runCallback cfg cb s) \<noteq> Inl invalidLayout"
    with Cons.prems(1) show "comparer_iff_pb (snd (runCallback cfg cb s))"
      by (rule runCallback_pb)
  next
    fix s1 assume "comparer_iff_pb s1" "fst (runCallbacks cfg cbs s1) \<noteq> Inl invalidLayout"
    then show "comparer_iff_pb (snd (runCallbacks cfg cbs s1))"
      by (rule Cons.IH)
  qed
  then show ?case by simp
qed

lemma writeUpdate_pb: "comparer_iff_pb s \<Longrightarrow> comparer_iff_pb (snd (writeUpdate cfg ext s))"
  by (auto simp: writeUpdate_def comparer_iff_pb_alt emit_def returns_def throws_def Let_def
      split: option.split)


lemma startDesktop_pb:
  assumes inv: "comparer_iff_pb s"
      and ret: "fst (startDesktop cfg ext s) \<noteq> Inl invalidLayout"
  shows "comparer_iff_pb (snd (startDesktop cfg ext s))"
proof (cases "desktopStarted s")
  case True
  with inv show ?thesis by (simp add: startDesktop_def returns_def)
next
  case False
  define f where "f = (\<lambda>s1. case pb s1 of
             None \<Rightarrow>
               throws (LogicError ''SDesktop::start() did not set a valid PixelBuffer'') s1
           | Some p \<Rightarrow>
              (let s2 = s1\<lparr>desktopStarted := True\<rparr> in
               case comparer s2 of
                 None \<Rightarrow> throws AssertionFailed s2
               | Some c \<Rightarrow>
                   andThen (if \<not> cmp_is_empty c then writeUpdate cfg ext s2 else returns s2)
                     (\<lambda>s3. if isStarted (frameTimer s3)
                            then returns (startFrameClock cfg (stopFrameClock s3))
                            else returns s3)))"
  have eq: "startDesktop cfg ext s =
      andThen (runCallbacks cfg (ext_start ext) (emit [DesktopStart] s)) f"
    using False by (simp add: startDesktop_def f_def)
  have e: "comparer_iff_pb (emit [DesktopStart] s)"
    using inv by (simp add: comparer_iff_pb_alt emit_def)
  have f_pb: "comparer_iff_pb (snd (f s1))" if i1: "comparer_iff_pb s1" for s1
  proof -
    have i2: "comparer_iff_pb (s1\<lparr>desktopStarted := True\<rparr>)"
      using i1 by (simp add: comparer_iff_pb_alt)
    have tail: "comparer_iff_pb (snd (andThen
             (if \<not> cmp_is_empty c then writeUpdate cfg ext (s1\<lparr>desktopStarted := True\<rparr>)
              else returns (s1\<lparr>desktopStarted := True\<rparr>))
             (\<lambda>s3. if isStarted (frameTimer s3)
                            then returns (startFrameClock cfg (stopFrameClock s3))
                            else returns s3)))" for c
    proof (rule andThen_rule)
      show "comparer_iff_pb (snd (if \<not> cmp_is_empty c
              then writeUpdate cfg ext (s1\<lparr>desktopStarted := True\<rparr>)
              else returns (s1\<lparr>desktopStarted := True\<rparr>)))"
        using i2 by (simp add: writeUpdate_pb returns_def)
    next
      fix s3 assume "comparer_iff_pb s3"
      then show "comparer_iff_pb (snd (if isStarted (frameTimer s3)
                            then returns (startFrameClock cfg (stopFrameClock s3))
                            else returns s3))"
        by (simp add: returns_def comparer_iff_pb_alt stopFrameClock_def)
    qed
    show ?thesis
      using i1 i2 tail by (simp add: f_def Let_def throws_def split: option.split)
  qed
  from ret have "fst (andThen (runCallbacks cfg (ext_start ext) (emit [DesktopStart] s)) f) \<noteq>
                 Inl invalidLayout"
    by (simp add: eq)
  then have "comparer_iff_pb
     (snd (andThen (runCallbacks cfg (ext_start ext) (emit [DesktopStart] s)) f))"
  proof (rule andThen_except_rule)
    assume "fst (runCallbacks cfg (ext_start ext) (emit [DesktopStart] s)) \<noteq> Inl invalidLayout"
    with e show "comparer_iff_pb (snd (runCallbacks cfg (ext_start ext) (emit [DesktopStart] s)))"
      by (rule runCallbacks_pb)
  next
    fix s1 assume "comparer_iff_pb s1"
    then show "comparer_iff_pb (snd (f s1))" by (rule f_pb)
  qed
  then show ?thesis by (simp add: eq)
qed

lemma stopDesktop_pb:
  assumes inv: "comparer_iff_pb s"
      and ret: "fst (stopDesktop cfg ext s) \<noteq> Inl invalidLayout"
  shows "comparer_iff_pb (snd (stopDesktop cfg ext s))"
proof (cases "desktopStarted s")
  case False
  with inv show ?thesis by (simp add: stopDesktop_def returns_def)
next
  case True
  have "comparer_iff_pb (emit [DesktopStop] (s\<lparr>desktopStarted := False\<rparr>))"
    using inv by (simp add: comparer_iff_pb_alt emit_def)
  moreover from True ret
  have "fst (runCallbacks cfg (ext_stop ext) (emit [DesktopStop] (s\<lparr>desktopStarted := False\<rparr>))) \<noteq>
        Inl invalidLayout"
    by (simp add: stopDesktop_def)
  ultimately have "comparer_iff_pb (snd (runCallbacks cfg (ext_stop ext)
                                      (emit [DesktopStop] (s\<lparr>desktopStarted := False\<rparr>))))"
    by (rule runCallbacks_pb)
  with True show ?thesis by (simp add: stopDesktop_def)
qed

lemma removeSocket_pb:
  assumes inv: "comparer_iff_pb s"
      and ret: "fst (removeSocket cfg ext sock s) \<noteq> Inl invalidLayout"
  shows "comparer_iff_pb (snd (removeSocket cfg ext sock s))"
proof (cases "findClient sock s")
  case None
  with inv show ?thesis
    by (simp add: removeSocket_def returns_def comparer_iff_pb_alt)
next
  case (Some c)
  define s5 where "s5 =
    (let s1 = (if pointerClient s = Some (conn_id c)
                     then (emit [DesktopPointerEvent (cursorPos s) 0] s)\<lparr>pointerClient := None\<rparr>
                     else s);
               s2 = (if clipboardClient s1 = Some (conn_id c)
                     then handleClipboardAnnounce cfg (conn_id c) False s1 else s1);
               s3 = s2\<lparr>clipboardRequestors := removeAll (conn_id c) (clipboardRequestors s2)\<rparr>;
               s4 = emit [ConnDelete (conn_id c)] s3
     in s4\<lparr>clients := filter (\<lambda>x. conn_id x \<noteq> conn_id c) (clients s4)\<rparr>)"
  define g where "g = (\<lambda>s6. let s7 = s6\<lparr>connectTimer := timer_stop (connectTimer s6)\<rparr>
                       in if maxDisconnectionTime cfg \<noteq> 0 \<and> clients s7 = []
                          then returns
                                 (s7\<lparr>disconnectTimer :=
                                       timer_start (secsToMillis (maxDisconnectionTime cfg))
                                         (disconnectTimer s7)\<rparr>)
                          else returns s7)"
  have i5: "comparer_iff_pb s5"
    using inv
    by (simp add: s5_def Let_def comparer_iff_pb_alt emit_def handleClipboardAnnounce_def)
  have eq: "removeSocket cfg ext sock s =
      andThen (if authClientCount s5 = 0 then stopDesktop cfg ext s5 else returns s5) g"
    using Some by (simp add: removeSocket_def s5_def g_def Let_def)
  from ret have "fst (andThen (if authClientCount s5 = 0 then stopDesktop cfg ext s5
                               else returns s5) g) \<noteq> Inl invalidLayout"
    by (simp add: eq)
  then have "comparer_iff_pb (snd (andThen (if authClientCount s5 = 0
                 then stopDesktop cfg ext s5 else returns s5) g))"
  proof (rule andThen_except_rule)
    assume "fst (if authClientCount s5 = 0 then stopDesktop cfg ext s5 else returns s5) \<noteq>
            Inl invalidLayout"
    with i5 show "comparer_iff_pb (snd (if authClientCount s5 = 0 then stopDesktop cfg ext s5
                                       else returns s5))"
      by (simp add: stopDesktop_pb returns_def split: if_splits)
  next
    fix s6 assume "comparer_iff_pb s6"
    then show "comparer_iff_pb (snd (g s6))"
      by (simp add: g_def Let_def returns_def comparer_iff_pb_alt)
  qed
  then show ?thesis by (simp add: eq)
qed

lemma handleTimeout_pb:
  "comparer_iff_pb s \<Longrightarrow> comparer_iff_pb (snd (handleTimeout cfg ext t s))"
proof (cases t)
  case FrameTimer
  assume inv: "comparer_iff_pb s"
  show ?thesis
  proof (cases "nothingPending s \<and> queuedMsc s < msc s")
    case True
    with inv FrameTimer show ?thesis
      by (simp add: handleTimeout_def returns_def)
  next
    case False
    define s1 where "s1 = s\<lparr>frameTimer := timer_repeat (if \<not> desktopStarted s then 1000
                            else 1000 div int (frameRate cfg)) (frameTimer s)\<rparr>"
    have i1: "comparer_iff_pb s1"
      using inv by (simp add: s1_def comparer_iff_pb_alt)
    have eq: "handleTimeout cfg ext t s =
       andThen (if desktopStarted s1 \<and>
                      (case comparer s1 of None \<Rightarrow> False | Some c \<Rightarrow> \<not> cmp_is_empty c)
                   then writeUpdate cfg ext s1 else returns s1)
                  (\<lambda>s2. let s3 = s2\<lparr>msc := msc s2 + 1\<rparr>
                         in returns (emit [DesktopFrameTick (msc s3)] s3))"
      using FrameTimer by (simp add: handleTimeout_def s1_def Let_def False)
    show ?thesis
      unfolding eq
    proof (rule andThen_rule)
      show "comparer_iff_pb (snd (if desktopStarted s1 \<and>
                      (case comparer s1 of None \<Rightarrow> False | Some c \<Rightarrow> \<not> cmp_is_empty c)
                   then writeUpdate cfg ext s1 else returns s1))"
        using i1 by (simp add: returns_def writeUpdate_pb)
    next
      fix s2 assume "comparer_iff_pb s2"
      then show "comparer_iff_pb (snd (let s3 = s2\<lparr>msc := msc s2 + 1\<rparr>
                         in returns (emit [DesktopFrameTick (msc s3)] s3)))"
        by (simp add: Let_def returns_def emit_def comparer_iff_pb_alt)
    qed
  qed
qed (simp_all add: handleTimeout_def returns_def emit_def comparer_iff_pb_alt)

lemma timerExpiry_pb:
  "comparer_iff_pb s \<Longrightarrow> comparer_iff_pb (snd (timerExpiry cfg ext t s))"
proof -
  assume inv: "comparer_iff_pb s"
  have "comparer_iff_pb (disarm t s)"
    using inv by (cases t) (simp_all add: disarm_def comparer_iff_pb_alt)
  then have "comparer_iff_pb (snd (handleTimeout cfg ext t (disarm t s)))"
    by (rule handleTimeout_pb)
  with inv show ?thesis
    by (simp add: timerExpiry_def returns_def split: option.split)
qed

lemma setDesktopSize_pb:
  assumes inv: "comparer_iff_pb s"
      and ret: "fst (setDesktopSize cfg ext requester w h layout s) \<noteq> Inl invalidLayout"
  shows "comparer_iff_pb (snd (setDesktopSize cfg ext requester w h layout s))"
proof -
  obtain r s1 where cb: "runCallbacks cfg (snd (ext_setScreenLayout ext w h layout))
                (emit [DesktopSetScreenLayout w h layout] s) = (r, s1)"
    by (cases "runCallbacks cfg (snd (ext_setScreenLayout ext w h layout))
                (emit [DesktopSetScreenLayout w h layout] s)")
  have e: "comparer_iff_pb (emit [DesktopSetScreenLayout w h layout] s)"
    using inv by (simp add: comparer_iff_pb_alt emit_def)
  show ?thesis
  proof (cases r)
    case (Inl ex)
    show ?thesis
    proof (cases "\<not> acceptSetDesktopSize cfg \<or> w > 16384 \<or> h > 16384 \<or>
                  \<not> validate layout w h")
      case True
      with inv show ?thesis
        by (auto simp: setDesktopSize_def)
    next
      case False
      with cb Inl have sd: "setDesktopSize cfg ext requester w h layout s = (Inl ex, s1)"
        by (simp add: setDesktopSize_def)
      with ret have "ex \<noteq> invalidLayout"
        by simp
      with cb Inl have "fst (runCallbacks cfg (snd (ext_setScreenLayout ext w h layout))
                (emit [DesktopSetScreenLayout w h layout] s)) \<noteq> Inl invalidLayout"
        by simp
      with e have "comparer_iff_pb (snd (runCallbacks cfg (snd (ext_setScreenLayout ext w h layout))
                (emit [DesktopSetScreenLayout w h layout] s)))"
        by (rule runCallbacks_pb)
      with cb sd show ?thesis
        by simp
    qed
  next
    case (Inr u)
    with cb have "fst (runCallbacks cfg (snd (ext_setScreenLayout ext w h layout))
                (emit [DesktopSetScreenLayout w h layout] s)) \<noteq> Inl invalidLayout"
      by simp
    with e have "comparer_iff_pb (snd (runCallbacks cfg (snd (ext_setScreenLayout ext w h layout))
                (emit [DesktopSetScreenLayout w h layout] s)))"
      by (rule runCallbacks_pb)
    with cb have i1: "comparer_iff_pb s1" by simp
    then have i2: "\<And>es. comparer_iff_pb (emit es s1)"
      by (simp add: comparer_iff_pb_alt emit_def)
    from inv i1 i2 cb Inr show ?thesis
      by (simp add: setDesktopSize_def Let_def throws_def)
  qed
qed

lemma queryConnection_pb:
  assumes inv: "comparer_iff_pb s"
      and ret: "fst (queryConnection cfg ext client userName s) \<noteq> Inl invalidLayout"
  shows "comparer_iff_pb (snd (queryConnection cfg ext client userName s))"
proof -
  have c: "comparer_iff_pb (clearBlackmark (peerAddress (getSock client)) s)"
    using inv by (simp add: comparer_iff_pb_alt clearBlackmark_def)
  have ap: "\<And>st sock accept reason. comparer_iff_pb st \<Longrightarrow>
              comparer_iff_pb (approveConnection sock accept reason st)"
    by (simp add: approveConnection_def emit_def comparer_iff_pb_alt split: option.split)
  have em: "\<And>st es. comparer_iff_pb st \<Longrightarrow> comparer_iff_pb (emit es st)"
    by (simp add: emit_def comparer_iff_pb_alt)
  from ret have "fst (andThen (startDesktop cfg ext (clearBlackmark (peerAddress (getSock client)) s))
       (\<lambda>s1. if neverShared cfg \<and> \<not> disconnectClients cfg \<and> authClientCount s1 > 0
              then returns (approveConnection (sock_id (getSock client)) False
                              (Some ''The server is already in use'') s1)
              else if \<not> queryConnect cfg \<and> \<not> requiresQuery (getSock client)
              then returns (approveConnection (sock_id (getSock client)) True None s1)
              else if accessCheck client AccessNoQuery
              then returns (approveConnection (sock_id (getSock client)) True None s1)
              else returns
                     (emit [DesktopQueryConnection (sock_id (getSock client)) userName] s1))) \<noteq>
        Inl invalidLayout"
    by (simp add: queryConnection_def)
  then show ?thesis
    unfolding queryConnection_def
  proof (rule andThen_except_rule)
    assume "fst (startDesktop cfg ext (clearBlackmark (peerAddress (getSock client)) s)) \<noteq>
            Inl invalidLayout"
    with c show "comparer_iff_pb (snd (startDesktop cfg ext
                    (clearBlackmark (peerAddress (getSock client)) s)))"
      by (rule startDesktop_pb)
  next
    fix s1 assume "comparer_iff_pb s1"
    then show "comparer_iff_pb (snd (if neverShared cfg \<and> \<not> disconnectClients cfg \<and> authClientCount s1 > 0
              then returns (approveConnection (sock_id (getSock client)) False
                              (Some ''The server is already in use'') s1)
              else if \<not> queryConnect cfg \<and> \<not> requiresQuery (getSock client)
              then returns (approveConnection (sock_id (getSock client)) True None s1)
              else if accessCheck client AccessNoQuery
              then returns (approveConnection (sock_id (getSock client)) True None s1)
              else returns
                     (emit [DesktopQueryConnection (sock_id (getSock client)) userName] s1)))"
      by (simp add: returns_def ap em)
  qed
qed

lemma comparer_iff_pb_step:
  assumes inv: "comparer_iff_pb s" and ret: "fst (step cfg ext oper s) \<noteq> Some invalidLayout"
  shows "comparer_iff_pb (snd (step cfg ext oper s))"
proof (cases oper)
  case (AddSocket oc sock outgoing ar)
  with inv show ?thesis
    by (simp add: step_def addSocket_def Let_def emit_def comparer_iff_pb_alt
        split: acceptOutcome.split)
next
  case (RemoveSocket sock)
  with inv ret show ?thesis
    by (auto simp: step_def fst_outcomeOf_Some removeSocket_pb)
next
  case (SetPixelBuffer p layout)
  with ret show ?thesis
    by (auto simp: step_def fst_outcomeOf_Some setPixelBuffer_pb)
next
  case (SetPixelBuffer1 p)
  with inv ret show ?thesis
    by (auto simp: step_def fst_outcomeOf_Some setPixelBuffer1_pb)
next
  case (SetDesktopSize requester w h layout)
  with inv ret show ?thesis
    by (auto simp: step_def fst_outcomeOf_Some setDesktopSize_pb)
next
  case (QueryConnection client userName)
  with inv ret show ?thesis
    by (auto simp: step_def fst_outcomeOf_Some queryConnection_pb)
qed (use inv in \<open>simp_all add: step_def timerExpiry_pb setScreenLayout_pb add_changed_pb
      add_copied_pb\<close>,
     simp_all add: comparer_iff_pb_alt processSocketReadEvent_def processSocketWriteEvent_def
      blockUpdates_def unblockUpdates_def stopFrameClock_def queueMsc_def
      requestClipboard_def announceClipboard_def sendClipboardData_def
      bell_def setName_def setCursor_def setCursorPos_def setLEDState_def keyEvent_def
      pointerEvent_def handleClipboardRequest_def handleClipboardAnnounce_def
      handleClipboardData_def approveConnection_def closeClients_def clientReady_def
      getPendingRegion_def getRenderedCursor_def emit_def returns_def throws_def Let_def
      split: option.split)

subsection \<open>Pending work keeps the frame clock running\<close>

lemma frameClockLive_emit [simp]: "frameClockLive (emit es s) = frameClockLive s"
  by (simp add: frameClockLive_def comparerNonEmpty_def emit_def)

lemma startFrameClock_due [simp]: "frameClockDue (startFrameClock cfg s) = frameClockDue s"
  by (simp add: frameClockDue_def startFrameClock_def nothingPending_def)

lemma startFrameClock_isStarted:
  "isStarted (frameTimer (startFrameClock cfg s)) = (isStarted (frameTimer s) \<or> frameClockDue s)"
  by (simp add: frameClockDue_def startFrameClock_def timer_start_def)

lemma live_if_not_due:
  "\<not> frameClockDue s \<Longrightarrow> frameClockLive s"
  by (auto simp: frameClockDue_def frameClockLive_def nothingPending_def comparerNonEmpty_def
      split: option.splits)

lemma live_if_started: "isStarted (frameTimer s) \<Longrightarrow> frameClockLive s"
  by (simp add: frameClockLive_def)

lemma startFrameClock_live: "frameClockLive (startFrameClock cfg s)"
proof (cases "isStarted (frameTimer (startFrameClock cfg s))")
  case True
  then show ?thesis by (rule live_if_started)
next
  case False
  then have "\<not> frameClockDue (startFrameClock cfg s)"
    by (simp add: startFrameClock_isStarted)
  then show ?thesis by (rule live_if_not_due)
qed

lemma add_changed_live: "frameClockLive s \<Longrightarrow> frameClockLive (add_changed cfg rg s)"
  by (simp add: add_changed_def startFrameClock_live split: option.split)

lemma add_copied_live: "frameClockLive s \<Longrightarrow> frameClockLive (add_copied cfg dest delta s)"
  by (simp add: add_copied_def startFrameClock_live split: option.split)

lemma live_no_comparer:
  "frameClockLive s \<Longrightarrow> frameTimer s' = frameTimer s \<Longrightarrow> blockCounter s' = blockCounter s \<Longrightarrow>
   queuedMsc s' = queuedMsc s \<Longrightarrow> msc s' = msc s \<Longrightarrow> \<not> comparerNonEmpty s' \<Longrightarrow>
   frameClockLive s'"
  by (simp add: frameClockLive_def)

lemma setPixelBuffer_live:
  assumes live: "frameClockLive s"
  shows "frameClockLive (snd (setPixelBuffer cfg p layout s))"
proof (cases p)
  case None
  have "frameClockLive (s\<lparr>pb := None, comparer := None, screenLayout := []\<rparr>)"
    using live by (rule live_no_comparer) (simp_all add: comparerNonEmpty_def)
  with None show ?thesis
    by (simp add: setPixelBuffer_def Let_def returns_def throws_def)
next
  case (Some x)
  show ?thesis
  proof (cases "validate layout (pb_width x) (pb_height x)")
    case False
    have "frameClockLive (s\<lparr>pb := Some x, comparer := None\<rparr>)"
      using live by (rule live_no_comparer) (simp_all add: comparerNonEmpty_def)
    with Some False show ?thesis
      by (simp add: setPixelBuffer_def Let_def throws_def)
  next
    case True
    with Some show ?thesis
      by (simp add: setPixelBuffer_def Let_def returns_def add_changed_def
          startFrameClock_live)
  qed
qed

lemma setPixelBuffer1_live:
  "frameClockLive s \<Longrightarrow> frameClockLive (snd (setPixelBuffer1 cfg p s))"
  by (simp add: setPixelBuffer1_def Let_def setPixelBuffer_live throws_def split: option.split)

lemma setScreenLayout_live:
  "frameClockLive s \<Longrightarrow> frameClockLive (snd (setScreenLayout layout s))"
  by (simp add: setScreenLayout_def returns_def throws_def Let_def
        frameClockLive_def comparerNonEmpty_def emit_def
      split: option.split)

lemma runCallback_live: "frameClockLive s \<Longrightarrow> frameClockLive (snd (runCallback cfg cb s))"
  by (cases cb)
     (simp_all add: runCallback_def setPixelBuffer_live setPixelBuffer1_live
        setScreenLayout_live throws_def)

lemma runCallbacks_live: "frameClockLive s \<Longrightarrow> frameClockLive (snd (runCallbacks cfg cbs s))"
proof (induction cbs arbitrary: s)
  case Nil
  then show ?case by (simp add: returns_def)
next
  case (Cons cb cbs)
  from Cons.prems have "frameClockLive (snd (runCallback cfg cb s))"
    by (rule runCallback_live)
  with Cons.IH Cons.prems show ?case
    by (simp add: snd_andThen split: sum.split)
qed

lemma cmp_clear_empty: "cmp_is_empty (cmp_clear c)"
  by (simp add: cmp_is_empty_def cmp_clear_def region_is_empty_def)

lemma writeUpdate_frameTimer: "frameTimer (snd (writeUpdate cfg ext s)) = frameTimer s"
  by (simp add: writeUpdate_def emit_def returns_def throws_def Let_def split: option.split)

text \<open>\<open>writeUpdate\<close> empties the comparer, so what it needs of the state before is only
  the part about the queued frame count.\<close>

lemma writeUpdate_live2:
  assumes m: "blockCounter s = 0 \<and> queuedMsc s > msc s \<longrightarrow> isStarted (frameTimer s)"
      and p: "pb s \<noteq> None"
  shows "frameClockLive (snd (writeUpdate cfg ext s))"
proof (cases "blockCounter s \<noteq> 0 \<or> \<not> desktopStarted s \<or> comparer s = None")
  case True
  then have "snd (writeUpdate cfg ext s) = s"
    by (auto simp: writeUpdate_def throws_def)
  moreover from True m have "frameClockLive s"
    by (auto simp: frameClockLive_def comparerNonEmpty_def)
  ultimately show ?thesis by simp
next
  case False
  then obtain c where c: "comparer s = Some c" by auto
  from p obtain x where x: "pb s = Some x" by auto
  from False m c x show ?thesis
    by (simp add: writeUpdate_def Let_def returns_def emit_def frameClockLive_def
        comparerNonEmpty_def cmp_clear_empty)
qed

lemma writeUpdate_live:
  assumes live: "frameClockLive s"
  shows "frameClockLive (snd (writeUpdate cfg ext s))"
proof (cases "pb s")
  case None
  then have "snd (writeUpdate cfg ext s) = s"
    by (simp add: writeUpdate_def throws_def split: option.split)
  with live show ?thesis by simp
next
  case (Some x)
  from live have "blockCounter s = 0 \<and> queuedMsc s > msc s \<longrightarrow> isStarted (frameTimer s)"
    by (simp add: frameClockLive_def)
  moreover from Some have "pb s \<noteq> None" by simp
  ultimately show ?thesis by (rule writeUpdate_live2)
qed

lemma startDesktop_live:
  assumes live: "frameClockLive s"
  shows "frameClockLive (snd (startDesktop cfg ext s))"
proof (cases "desktopStarted s")
  case True
  with live show ?thesis by (simp add: startDesktop_def returns_def)
next
  case False
  define f where "f = (\<lambda>s1. case pb s1 of
             None \<Rightarrow>
               throws (LogicError ''SDesktop::start() did not set a valid PixelBuffer'') s1
           | Some p \<Rightarrow>
              (let s2 = s1\<lparr>desktopStarted := True\<rparr> in
               case comparer s2 of
                 None \<Rightarrow> throws AssertionFailed s2
               | Some c \<Rightarrow>
                   andThen (if \<not> cmp_is_empty c then writeUpdate cfg ext s2 else returns s2)
                     (\<lambda>s3. if isStarted (frameTimer s3)
                            then returns (startFrameClock cfg (stopFrameClock s3))
                            else returns s3)))"
  have eq: "startDesktop cfg ext s =
      andThen (runCallbacks cfg (ext_start ext) (emit [DesktopStart] s)) f"
    using False by (simp add: startDesktop_def f_def)
  have f_live: "frameClockLive (snd (f s1))" if l1: "frameClockLive s1" for s1
  proof (cases "pb s1")
    case None
    with l1 show ?thesis by (simp add: f_def throws_def)
  next
    case (Some x)
    define s2 where "s2 = s1\<lparr>desktopStarted := True\<rparr>"
    have m2: "blockCounter s2 = 0 \<and> queuedMsc s2 > msc s2 \<longrightarrow> isStarted (frameTimer s2)"
      using l1 by (simp add: s2_def frameClockLive_def)
    have p2: "pb s2 \<noteq> None"
      using Some by (simp add: s2_def)
    show ?thesis
    proof (cases "comparer s2")
      case None
      with m2 have "frameClockLive s2"
        by (simp add: frameClockLive_def comparerNonEmpty_def)
      with Some None show ?thesis
        by (simp add: f_def Let_def throws_def s2_def)
    next
      case c: (Some c)
      have "frameClockLive (snd (andThen
               (if \<not> cmp_is_empty c then writeUpdate cfg ext s2 else returns s2)
               (\<lambda>s3. if isStarted (frameTimer s3)
                      then returns (startFrameClock cfg (stopFrameClock s3))
                      else returns s3)))"
      proof (rule andThen_rule)
        show "frameClockLive (snd (if \<not> cmp_is_empty c then writeUpdate cfg ext s2
                                  else returns s2))"
        proof (cases "cmp_is_empty c")
          case True
          with m2 c have "frameClockLive s2"
            by (simp add: frameClockLive_def comparerNonEmpty_def)
          with True show ?thesis by (simp add: returns_def)
        next
          case False
          from writeUpdate_live2 [OF m2 p2] False show ?thesis by simp
        qed
      next
        fix s3 assume "frameClockLive s3"
        then show "frameClockLive (snd (if isStarted (frameTimer s3)
                      then returns (startFrameClock cfg (stopFrameClock s3))
                      else returns s3))"
          by (simp add: returns_def startFrameClock_live)
      qed
      with Some c show ?thesis
        unfolding s2_def by (simp add: f_def Let_def split del: if_split)
    qed
  qed
  have "frameClockLive (snd (runCallbacks cfg (ext_start ext) (emit [DesktopStart] s)))"
    using live by (simp add: runCallbacks_live)
  then have "frameClockLive
     (snd (andThen (runCallbacks cfg (ext_start ext) (emit [DesktopStart] s)) f))"
    using f_live by (rule andThen_rule)
  then show ?thesis by (simp add: eq)
qed

lemma stopDesktop_live:
  assumes live: "frameClockLive s"
  shows "frameClockLive (snd (stopDesktop cfg ext s))"
proof -
  from live have "frameClockLive (s\<lparr>desktopStarted := False\<rparr>)"
    by (simp add: frameClockLive_def comparerNonEmpty_def)
  then have "frameClockLive (emit [DesktopStop] (s\<lparr>desktopStarted := False\<rparr>))"
    by simp
  then have "frameClockLive (snd (runCallbacks cfg (ext_stop ext)
                                   (emit [DesktopStop] (s\<lparr>desktopStarted := False\<rparr>))))"
    by (rule runCallbacks_live)
  with live show ?thesis
    by (simp add: stopDesktop_def returns_def)
qed

lemma removeSocket_live:
  assumes live: "frameClockLive s"
  shows "frameClockLive (snd (removeSocket cfg ext sock s))"
proof (cases "findClient sock s")
  case None
  with live show ?thesis
    by (simp add: removeSocket_def returns_def frameClockLive_def comparerNonEmpty_def)
next
  case (Some c)
  define s5 where "s5 =
    (let s1 = (if pointerClient s = Some (conn_id c)
                     then (emit [DesktopPointerEvent (cursorPos s) 0] s)\<lparr>pointerClient := None\<rparr>
                     else s);
               s2 = (if clipboardClient s1 = Some (conn_id c)
                     then handleClipboardAnnounce cfg (conn_id c) False s1 else s1);
               s3 = s2\<lparr>clipboardRequestors := removeAll (conn_id c) (clipboardRequestors s2)\<rparr>;
               s4 = emit [ConnDelete (conn_id c)] s3
     in s4\<lparr>clients := filter (\<lambda>x. conn_id x \<noteq> conn_id c) (clients s4)\<rparr>)"
  define g where "g = (\<lambda>s6. let s7 = s6\<lparr>connectTimer := timer_stop (connectTimer s6)\<rparr>
                       in if maxDisconnectionTime cfg \<noteq> 0 \<and> clients s7 = []
                          then returns
                                 (s7\<lparr>disconnectTimer :=
                                       timer_start (secsToMillis (maxDisconnectionTime cfg))
                                         (disconnectTimer s7)\<rparr>)
                          else returns s7)"
  have l5: "frameClockLive s5"
    using live
    by (simp add: s5_def Let_def frameClockLive_def comparerNonEmpty_def emit_def
        handleClipboardAnnounce_def)
  have eq: "removeSocket cfg ext sock s =
      andThen (if authClientCount s5 = 0 then stopDesktop cfg ext s5 else returns s5) g"
    using Some by (simp add: removeSocket_def s5_def g_def Let_def)
  show ?thesis
    unfolding eq
  proof (rule andThen_rule)
    show "frameClockLive (snd (if authClientCount s5 = 0 then stopDesktop cfg ext s5
                              else returns s5))"
      using l5 by (simp add: stopDesktop_live returns_def)
  next
    fix s6 assume "frameClockLive s6"
    then show "frameClockLive (snd (g s6))"
      by (simp add: g_def Let_def returns_def frameClockLive_def comparerNonEmpty_def)
  qed
qed

lemma handleTimeout_frame_live: "frameClockLive (snd (handleTimeout cfg ext FrameTimer s))"
proof (cases "nothingPending s \<and> queuedMsc s < msc s")
  case True
  then have "\<not> frameClockDue s"
    by (simp add: frameClockDue_def)
  then have "frameClockLive s"
    by (rule live_if_not_due)
  with True show ?thesis
    by (simp add: handleTimeout_def returns_def)
next
  case False
  define s1 where "s1 = s\<lparr>frameTimer := timer_repeat (if \<not> desktopStarted s then 1000
                          else 1000 div int (frameRate cfg)) (frameTimer s)\<rparr>"
  have eq: "handleTimeout cfg ext FrameTimer s =
     andThen (if desktopStarted s1 \<and>
                    (case comparer s1 of None \<Rightarrow> False | Some c \<Rightarrow> \<not> cmp_is_empty c)
                 then writeUpdate cfg ext s1 else returns s1)
                (\<lambda>s2. let s3 = s2\<lparr>msc := msc s2 + 1\<rparr>
                       in returns (emit [DesktopFrameTick (msc s3)] s3))"
    by (simp add: handleTimeout_def s1_def Let_def False)
  have "isStarted (frameTimer (snd (handleTimeout cfg ext FrameTimer s)))"
    unfolding eq
  proof (rule andThen_rule)
    show "isStarted (frameTimer (snd (if desktopStarted s1 \<and>
                    (case comparer s1 of None \<Rightarrow> False | Some c \<Rightarrow> \<not> cmp_is_empty c)
                 then writeUpdate cfg ext s1 else returns s1)))"
      by (simp add: writeUpdate_frameTimer returns_def) (simp add: s1_def timer_repeat_def)
  next
    fix s2 :: state
    assume "isStarted (frameTimer s2)"
    then show "isStarted (frameTimer (snd (let s3 = s2\<lparr>msc := msc s2 + 1\<rparr>
                       in returns (emit [DesktopFrameTick (msc s3)] s3))))"
      by (simp add: Let_def returns_def emit_def)
  qed
  then show ?thesis by (rule live_if_started)
qed

lemma timerExpiry_live:
  assumes live: "frameClockLive s"
  shows "frameClockLive (snd (timerExpiry cfg ext t s))"
proof (cases t)
  case FrameTimer
  with live show ?thesis
    by (simp add: timerExpiry_def timerOf_def returns_def handleTimeout_frame_live)
next
  case IdleTimer
  with live show ?thesis
    by (simp add: timerExpiry_def timerOf_def returns_def handleTimeout_def disarm_def)
       (simp add: frameClockLive_def comparerNonEmpty_def)
next
  case DisconnectTimer
  with live show ?thesis
    by (simp add: timerExpiry_def timerOf_def returns_def handleTimeout_def disarm_def)
       (simp add: frameClockLive_def comparerNonEmpty_def)
next
  case ConnectTimer
  with live show ?thesis
    by (simp add: timerExpiry_def timerOf_def returns_def handleTimeout_def disarm_def)
       (simp add: frameClockLive_def comparerNonEmpty_def)
next
  case OtherTimer
  with live show ?thesis
    by (simp add: timerExpiry_def timerOf_def returns_def handleTimeout_def disarm_def)
qed

lemma unblockUpdates_live:
  assumes live: "frameClockLive s"
  shows "frameClockLive (snd (unblockUpdates cfg s))"
proof (cases "blockCounter s > 0")
  case False
  with live show ?thesis by (simp add: unblockUpdates_def throws_def)
next
  case True
  show ?thesis
  proof (cases "blockCounter s - 1 = 0")
    case z: True
    with True show ?thesis
      by (simp add: unblockUpdates_def Let_def returns_def startFrameClock_live)
  next
    case nz: False
    have "frameClockLive (s\<lparr>blockCounter := blockCounter s - 1\<rparr>)"
      using nz by (simp add: frameClockLive_def)
    with True nz show ?thesis
      by (simp add: unblockUpdates_def Let_def returns_def)
  qed
qed

lemma blockUpdates_live: "0 \<le> blockCounter s \<Longrightarrow> frameClockLive (blockUpdates s)"
  by (simp add: blockUpdates_def stopFrameClock_def frameClockLive_def)

lemma queueMsc_live: "frameClockLive (queueMsc cfg target s)"
  by (simp add: queueMsc_def startFrameClock_live)

lemma setDesktopSize_live:
  assumes live: "frameClockLive s"
  shows "frameClockLive (snd (setDesktopSize cfg ext requester w h layout s))"
proof -
  obtain r s1 where cb: "runCallbacks cfg (snd (ext_setScreenLayout ext w h layout))
                (emit [DesktopSetScreenLayout w h layout] s) = (r, s1)"
    by (cases "runCallbacks cfg (snd (ext_setScreenLayout ext w h layout))
                (emit [DesktopSetScreenLayout w h layout] s)")
  from live have "frameClockLive (emit [DesktopSetScreenLayout w h layout] s)"
    by simp
  then have "frameClockLive (snd (runCallbacks cfg (snd (ext_setScreenLayout ext w h layout))
                (emit [DesktopSetScreenLayout w h layout] s)))"
    by (rule runCallbacks_live)
  with cb have l1: "frameClockLive s1"
    by simp
  from live l1 cb show ?thesis
    by (simp add: setDesktopSize_def Let_def throws_def split: sum.split)
qed

lemma queryConnection_live:
  assumes live: "frameClockLive s"
  shows "frameClockLive (snd (queryConnection cfg ext client userName s))"
proof -
  from live have "frameClockLive (clearBlackmark (peerAddress (getSock client)) s)"
    by (simp add: frameClockLive_def comparerNonEmpty_def clearBlackmark_def)
  then have l1: "frameClockLive (snd (startDesktop cfg ext
                                 (clearBlackmark (peerAddress (getSock client)) s)))"
    by (rule startDesktop_live)
  have ap: "\<And>st sock accept reason. frameClockLive st \<Longrightarrow>
              frameClockLive (approveConnection sock accept reason st)"
    by (simp add: approveConnection_def split: option.split)
  show ?thesis
    unfolding queryConnection_def
  proof (rule andThen_rule)
    show "frameClockLive (snd (startDesktop cfg ext
                                 (clearBlackmark (peerAddress (getSock client)) s)))"
      by (rule l1)
  next
    fix s1 assume "frameClockLive s1"
    then show "frameClockLive (snd (if neverShared cfg \<and> \<not> disconnectClients cfg \<and> authClientCount s1 > 0
              then returns (approveConnection (sock_id (getSock client)) False
                              (Some ''The server is already in use'') s1)
              else if \<not> queryConnect cfg \<and> \<not> requiresQuery (getSock client)
              then returns (approveConnection (sock_id (getSock client)) True None s1)
              else if accessCheck client AccessNoQuery
              then returns (approveConnection (sock_id (getSock client)) True None s1)
              else returns
                     (emit [DesktopQueryConnection (sock_id (getSock client)) userName] s1)))"
      by (simp add: returns_def ap)
  qed
qed

lemma frameClockLive_step:
  assumes inv: "frameClockInv s" and live: "frameClockLive s"
  shows "frameClockLive (snd (step cfg ext oper s))"
proof (cases oper)
  case (AddSocket oc sock outgoing ar)
  with live show ?thesis
    by (simp add: step_def addSocket_def Let_def emit_def frameClockLive_def
        comparerNonEmpty_def split: acceptOutcome.split)
next
  case BlockUpdates
  from inv have "0 \<le> blockCounter s"
    by (simp add: frameClockInv_def)
  then have "frameClockLive (blockUpdates s)"
    by (rule blockUpdates_live)
  with BlockUpdates show ?thesis
    by (simp add: step_def)
qed (use live in \<open>simp_all add: step_def removeSocket_live timerExpiry_live unblockUpdates_live
      setDesktopSize_live queryConnection_live setPixelBuffer_live setPixelBuffer1_live
      setScreenLayout_live add_changed_live add_copied_live queueMsc_live\<close>,
     simp_all add: frameClockLive_def comparerNonEmpty_def processSocketReadEvent_def
      processSocketWriteEvent_def
      requestClipboard_def announceClipboard_def sendClipboardData_def
      bell_def setName_def setCursor_def setCursorPos_def setLEDState_def keyEvent_def
      pointerEvent_def handleClipboardRequest_def handleClipboardAnnounce_def
      handleClipboardData_def approveConnection_def closeClients_def clientReady_def
      getPendingRegion_def getRenderedCursor_def emit_def returns_def throws_def Let_def
      split: option.split)

lemma frameClockLive_init: "frameClockLive (VNCServerST cfg new_name bl)"
  by (simp add: frameClockLive_def VNCServerST_def)

subsection \<open>Pointer arbitration\<close>

text \<open>
  Claim C6.  With \<open>acceptPointerEvents\<close> enabled, \<open>pointerEvent client pos mask\<close> drops the
  event when \<open>pointerClient\<close> is set, differs from \<open>client\<close> and fewer than 10 seconds have
  elapsed since \<open>pointerClientTime\<close>: the backend is not called and the grab is as it was.
  Otherwise \<open>pointerClientTime\<close> becomes the current time, \<open>pointerClient\<close> becomes \<open>client\<close>
  when the mask is non-zero and is cleared when it is zero, and the event is forwarded to
  \<^verbatim>\<open>desktop->pointerEvent(pos, mask)\<close>.
\<close>

theorem pointerEvent_arbitration:
  assumes "acceptPointerEvents cfg"
  shows "(pointerClient s \<noteq> None \<and> pointerClient s \<noteq> Some client \<and>
          now - pointerClientTime s < 10 \<longrightarrow>
            trace (pointerEvent cfg now client pos buttonMask s) = trace s \<and>
            pointerClient (pointerEvent cfg now client pos buttonMask s) = pointerClient s \<and>
            pointerClientTime (pointerEvent cfg now client pos buttonMask s) =
              pointerClientTime s) \<and>
         (\<not> (pointerClient s \<noteq> None \<and> pointerClient s \<noteq> Some client \<and>
             now - pointerClientTime s < 10) \<longrightarrow>
            pointerClientTime (pointerEvent cfg now client pos buttonMask s) = now \<and>
            pointerClient (pointerEvent cfg now client pos buttonMask s) =
              (if buttonMask \<noteq> 0 then Some client else None) \<and>
            trace (pointerEvent cfg now client pos buttonMask s) =
              trace s @ [DesktopPointerEvent pos buttonMask])"
  using assms by (simp add: pointerEvent_def emit_def Let_def)

theorem pointerEvent_arbitration_witness:
  "acceptPointerEvents exampleConfig \<and>
   trace (pointerEvent exampleConfig 3 2 (Point 5 5) 2
            (exampleState\<lparr>pointerClient := Some 1, pointerClientTime := 0\<rparr>)) = [DesktopInit] \<and>
   pointerClient (pointerEvent exampleConfig 3 2 (Point 5 5) 2
            (exampleState\<lparr>pointerClient := Some 1, pointerClientTime := 0\<rparr>)) = Some 1 \<and>
   trace (pointerEvent exampleConfig 11 2 (Point 5 5) 2
            (exampleState\<lparr>pointerClient := Some 1, pointerClientTime := 0\<rparr>)) =
     [DesktopInit, DesktopPointerEvent (Point 5 5) 2] \<and>
   pointerClient (pointerEvent exampleConfig 11 2 (Point 5 5) 2
            (exampleState\<lparr>pointerClient := Some 1, pointerClientTime := 0\<rparr>)) = Some 2 \<and>
   pointerClientTime (pointerEvent exampleConfig 11 2 (Point 5 5) 2
            (exampleState\<lparr>pointerClient := Some 1, pointerClientTime := 0\<rparr>)) = 11"
  using pointerEvent_arbitration
          [of exampleConfig "exampleState\<lparr>pointerClient := Some 1, pointerClientTime := 0\<rparr>"
              2 3 "Point 5 5" 2]
        pointerEvent_arbitration
          [of exampleConfig "exampleState\<lparr>pointerClient := Some 1, pointerClientTime := 0\<rparr>"
              2 11 "Point 5 5" 2]
  by (simp add: exampleConfig_def exampleState_def VNCServerST_def)

subsection \<open>Clipboard arbitration\<close>

text \<open>
  Claim C9.  The withdraw path of \<open>handleClipboardAnnounce\<close> does not read \<open>acceptCutText\<close>:
  for any configuration, \<open>handleClipboardAnnounce client False\<close> with \<open>client\<close> the
  \<open>clipboardClient\<close> clears \<open>clipboardClient\<close> and calls
  \<^verbatim>\<open>desktop->handleClipboardAnnounce(false)\<close>, and with any other \<open>client\<close> it returns with
  no call to the backend and no change of the fields.
\<close>

theorem handleClipboardAnnounce_withdraw:
  "(clipboardClient s = Some client \<longrightarrow>
      handleClipboardAnnounce cfg client False s =
        s\<lparr>clipboardClient := None,
          trace := trace s @ [DesktopHandleClipboardAnnounce False]\<rparr>) \<and>
   (clipboardClient s \<noteq> Some client \<longrightarrow> handleClipboardAnnounce cfg client False s = s)"
  by (simp add: handleClipboardAnnounce_def emit_def)

theorem handleClipboardAnnounce_withdraw_witness:
  "\<not> acceptCutText (exampleConfig\<lparr>acceptCutText := False\<rparr>) \<and>
   handleClipboardAnnounce (exampleConfig\<lparr>acceptCutText := False\<rparr>) 1 False
     (exampleState\<lparr>clipboardClient := Some 1\<rparr>) =
     exampleState\<lparr>clipboardClient := None,
       trace := [DesktopInit, DesktopHandleClipboardAnnounce False]\<rparr> \<and>
   handleClipboardAnnounce (exampleConfig\<lparr>acceptCutText := False\<rparr>) 2 False
     (exampleState\<lparr>clipboardClient := Some 1\<rparr>) =
     exampleState\<lparr>clipboardClient := Some 1\<rparr>"
  using handleClipboardAnnounce_withdraw
          [of "exampleState\<lparr>clipboardClient := Some 1\<rparr>" 1
              "exampleConfig\<lparr>acceptCutText := False\<rparr>"]
        handleClipboardAnnounce_withdraw
          [of "exampleState\<lparr>clipboardClient := Some 1\<rparr>" 2
              "exampleConfig\<lparr>acceptCutText := False\<rparr>"]
  by (simp add: exampleConfig_def exampleState_def VNCServerST_def)

text \<open>
  Claim C8.  With \<open>sendCutText\<close> enabled, \<open>sendClipboardData data\<close> throws exactly when
  \<open>data\<close> contains a carriage return, the exception is invalid-argument and the fields
  (the requestor list among them) are as before the call; otherwise the data is delivered
  to every pending clipboard requestor, in order, and the requestor list is cleared.
\<close>

theorem sendClipboardData_carriage_return:
  assumes "sendCutText cfg"
  shows "isl (fst (sendClipboardData cfg data s)) = (CHR 0x0D \<in> set data) \<and>
         (CHR 0x0D \<in> set data \<longrightarrow>
            sendClipboardData cfg data s =
              (Inl (InvalidArgument ''Invalid carriage return in clipboard data''), s)) \<and>
         (CHR 0x0D \<notin> set data \<longrightarrow>
            sendClipboardData cfg data s =
              (Inr (), s\<lparr>trace := trace s @ map (\<lambda>c. ConnCall c (SendClipboardDataOrClose data))
                                              (clipboardRequestors s),
                          clipboardRequestors := []\<rparr>))"
  using assms by (simp add: sendClipboardData_def emit_def returns_def throws_def Let_def)

theorem sendClipboardData_carriage_return_witness:
  "sendCutText exampleConfig \<and>
   sendClipboardData exampleConfig (''a'' @ [CHR 0x0D] @ ''b'')
     (exampleState\<lparr>clipboardRequestors := [1, 2]\<rparr>) =
     (Inl (InvalidArgument ''Invalid carriage return in clipboard data''),
      exampleState\<lparr>clipboardRequestors := [1, 2]\<rparr>) \<and>
   sendClipboardData exampleConfig ''ab'' (exampleState\<lparr>clipboardRequestors := [1, 2]\<rparr>) =
     (Inr (), exampleState\<lparr>trace := [DesktopInit, ConnCall 1 (SendClipboardDataOrClose ''ab''),
                                        ConnCall 2 (SendClipboardDataOrClose ''ab'')],
                             clipboardRequestors := []\<rparr>)"
  using sendClipboardData_carriage_return
          [of exampleConfig "''a'' @ [CHR 0x0D] @ ''b''"
              "exampleState\<lparr>clipboardRequestors := [1, 2]\<rparr>"]
        sendClipboardData_carriage_return
          [of exampleConfig "''ab''" "exampleState\<lparr>clipboardRequestors := [1, 2]\<rparr>"]
  by (simp add: exampleConfig_def exampleState_def VNCServerST_def)

subsection \<open>Unknown sockets\<close>

lemma findClient_None:
  "(findClient sock s = None) = (\<forall>c \<in> set (clients s). sock_id (getSock c) \<noteq> sock)"
  by (auto simp: findClient_def find_None_iff)

text \<open>
  Claim C10.  For a socket that is the socket of no connection in \<open>clients\<close>,
  \<open>approveConnection\<close> returns with the fields unchanged and raises nothing, whereas
  \<open>processSocketReadEvent\<close> and \<open>processSocketWriteEvent\<close> throw invalid-argument.
\<close>

theorem approveConnection_unknown_socket:
  assumes "\<forall>c \<in> set (clients s). sock_id (getSock c) \<noteq> sock"
  shows "approveConnection sock accept reason s = s \<and>
         processSocketReadEvent sock s =
           (Inl (InvalidArgument ''Invalid Socket in VNCServerST''), s) \<and>
         processSocketWriteEvent sock s =
           (Inl (InvalidArgument ''Invalid Socket in VNCServerST''), s)"
proof -
  from assms have "findClient sock s = None"
    by (simp add: findClient_None)
  then show ?thesis
    by (simp add: approveConnection_def processSocketReadEvent_def
        processSocketWriteEvent_def throws_def)
qed

theorem approveConnection_unknown_socket_witness:
  "map (\<lambda>c. sock_id (getSock c))
     (clients (addSocket exampleConfig AcceptOk (exampleSocket 5 ''10.0.0.1'') False []
                 exampleState)) = [5] \<and>
   approveConnection 7 True None
     (addSocket exampleConfig AcceptOk (exampleSocket 5 ''10.0.0.1'') False [] exampleState) =
     addSocket exampleConfig AcceptOk (exampleSocket 5 ''10.0.0.1'') False [] exampleState \<and>
   fst (processSocketReadEvent 7
     (addSocket exampleConfig AcceptOk (exampleSocket 5 ''10.0.0.1'') False [] exampleState)) =
     Inl (InvalidArgument ''Invalid Socket in VNCServerST'') \<and>
   fst (processSocketWriteEvent 7
     (addSocket exampleConfig AcceptOk (exampleSocket 5 ''10.0.0.1'') False [] exampleState)) =
     Inl (InvalidArgument ''Invalid Socket in VNCServerST'')"
proof -
  have h: "\<forall>c \<in> set (clients (addSocket exampleConfig AcceptOk (exampleSocket 5 ''10.0.0.1'')
                                   False [] exampleState)). sock_id (getSock c) \<noteq> 7"
    by (simp add: addSocket_def exampleConfig_def exampleState_def VNCServerST_def
        exampleSocket_def isBlackmarked_def emit_def new_VNCSConnectionST_def Let_def)
  have m: "map (\<lambda>c. sock_id (getSock c))
     (clients (addSocket exampleConfig AcceptOk (exampleSocket 5 ''10.0.0.1'') False []
                 exampleState)) = [5]"
    by (simp add: addSocket_def exampleConfig_def exampleState_def VNCServerST_def
        exampleSocket_def isBlackmarked_def emit_def new_VNCSConnectionST_def Let_def)
  show ?thesis
    using m approveConnection_unknown_socket [OF h, of True None]
    by simp
qed

subsection \<open>Blacklisted peers\<close>

lemma writeBlacklistBanner_eq:
  "writeBlacklistBanner os =
     (if os_broken os then os else os\<lparr>os_data := os_data os @ specRejectBanner\<rparr>)"
  by (simp add: writeBlacklistBanner_def writeBytes_def writeU32_def flush_def u32_bytes_def
      specRejectBanner_def ascii_def blacklistReason_def)

lemma length_specRejectBanner: "length specRejectBanner = 46"
  by (simp add: specRejectBanner_def ascii_def)

text \<open>
  Claim C2, as amended.  For a socket whose peer address is blackmarked, \<open>addSocket\<close>
  shuts the socket down and appends it to \<open>closingSockets\<close>, changes no other field
  (\<open>clients\<close> among them), and \<open>getSockets\<close> then includes the socket.  When the socket's
  stream accepts the writes, what is written is exactly the 46 bytes of the spec's banner;
  a failing write is swallowed by the \<^verbatim>\<open>catch\<close>.
\<close>

theorem addSocket_blacklisted:
  assumes "isBlackmarked (peerAddress sock) s"
  shows "addSocket cfg oc sock outgoing accessRights s =
           s\<lparr>closingSockets := closingSockets s @
               [sock\<lparr>outStream := writeBlacklistBanner (outStream sock), isShutdown := True\<rparr>]\<rparr> \<and>
         clients (addSocket cfg oc sock outgoing accessRights s) = clients s \<and>
         sock_id sock \<in> sock_id ` set (getSockets (addSocket cfg oc sock outgoing accessRights s)) \<and>
         (\<not> os_broken (outStream sock) \<longrightarrow>
            os_data (writeBlacklistBanner (outStream sock)) =
              os_data (outStream sock) @ specRejectBanner) \<and>
         (os_broken (outStream sock) \<longrightarrow>
            writeBlacklistBanner (outStream sock) = outStream sock) \<and>
         length specRejectBanner = 46"
  using assms
  by (simp add: addSocket_def shutdown_def getSockets_def writeBlacklistBanner_eq
      length_specRejectBanner Let_def)

theorem addSocket_blacklisted_witness:
  "isBlackmarked (peerAddress (exampleSocket 7 ''1.2.3.4'')) exampleState \<and>
   closingSockets (addSocket exampleConfig AcceptOk (exampleSocket 7 ''1.2.3.4'') False []
                     exampleState) =
     [\<lparr>sock_id = 7, peerAddress = ''1.2.3.4'', requiresQuery = False,
       outStream = \<lparr>os_data = specRejectBanner, os_broken = False\<rparr>, isShutdown = True\<rparr>] \<and>
   clients (addSocket exampleConfig AcceptOk (exampleSocket 7 ''1.2.3.4'') False []
              exampleState) = [] \<and>
   isBlackmarked
     (peerAddress ((exampleSocket 7 ''1.2.3.4'')\<lparr>outStream := \<lparr>os_data = [], os_broken = True\<rparr>\<rparr>))
     exampleState \<and>
   closingSockets
     (addSocket exampleConfig AcceptOk
        ((exampleSocket 7 ''1.2.3.4'')\<lparr>outStream := \<lparr>os_data = [], os_broken = True\<rparr>\<rparr>)
        False [] exampleState) =
     [\<lparr>sock_id = 7, peerAddress = ''1.2.3.4'', requiresQuery = False,
       outStream = \<lparr>os_data = [], os_broken = True\<rparr>, isShutdown = True\<rparr>]"
proof -
  have h1: "isBlackmarked (peerAddress (exampleSocket 7 ''1.2.3.4'')) exampleState"
    by (simp add: isBlackmarked_def exampleSocket_def exampleState_def VNCServerST_def)
  have h2: "isBlackmarked
     (peerAddress ((exampleSocket 7 ''1.2.3.4'')\<lparr>outStream := \<lparr>os_data = [], os_broken = True\<rparr>\<rparr>))
     exampleState"
    by (simp add: isBlackmarked_def exampleSocket_def exampleState_def VNCServerST_def)
  show ?thesis
    using h1 h2
      addSocket_blacklisted [OF h1, of exampleConfig AcceptOk False "[]"]
      addSocket_blacklisted [OF h2, of exampleConfig AcceptOk False "[]"]
    by (simp add: exampleSocket_def exampleState_def VNCServerST_def exampleConfig_def
        writeBlacklistBanner_eq)
qed

text \<open>The claim as stated fails for a socket whose stream throws: nothing is written.\<close>

theorem addSocket_blacklisted_counterexample:
  "isBlackmarked
     (peerAddress ((exampleSocket 7 ''1.2.3.4'')\<lparr>outStream := \<lparr>os_data = [], os_broken = True\<rparr>\<rparr>))
     exampleState \<and>
   os_data (outStream (last (closingSockets
     (addSocket exampleConfig AcceptOk
        ((exampleSocket 7 ''1.2.3.4'')\<lparr>outStream := \<lparr>os_data = [], os_broken = True\<rparr>\<rparr>)
        False [] exampleState)))) = [] \<and>
   [] \<noteq> specRejectBanner"
  by (simp add: isBlackmarked_def exampleSocket_def exampleState_def VNCServerST_def
      addSocket_def shutdown_def writeBlacklistBanner_eq specRejectBanner_def Let_def)

subsection \<open>Removing a socket\<close>

lemma stopDesktop_effect:
  assumes "stopDesktop cfg ext s = (r, s')"
  shows "clients s' = clients s \<and> pointerClient s' = pointerClient s \<and>
         clipboardClient s' = clipboardClient s \<and>
         clipboardRequestors s' = clipboardRequestors s \<and>
         connectTimer s' = connectTimer s \<and> disconnectTimer s' = disconnectTimer s \<and>
         \<not> desktopStarted s' \<and>
         (\<exists>es. trace s' = trace s @ (if desktopStarted s then [DesktopStop] else []) @ es \<and>
               list_all isConnCall es)"
proof (cases "desktopStarted s")
  case False
  with assms show ?thesis by (simp add: stopDesktop_def returns_def)
next
  case True
  have "sameSession (emit [DesktopStop] (s\<lparr>desktopStarted := False\<rparr>))
          (snd (runCallbacks cfg (ext_stop ext) (emit [DesktopStop] (s\<lparr>desktopStarted := False\<rparr>))))"
    by (rule runCallbacks_same)
  moreover from assms True
  have "s' = snd (runCallbacks cfg (ext_stop ext) (emit [DesktopStop] (s\<lparr>desktopStarted := False\<rparr>)))"
    by (simp add: stopDesktop_def)
  ultimately have "sameSession (emit [DesktopStop] (s\<lparr>desktopStarted := False\<rparr>)) s'"
    by simp
  with True show ?thesis
    by (simp add: sameSession_def emit_def)
qed

text \<open>
  Claim C5.  When \<open>removeSocket sock\<close> finds \<open>sock\<close> owned by a connection of \<open>clients\<close>:
  if that connection is \<open>pointerClient\<close>, one \<^verbatim>\<open>desktop->pointerEvent(cursorPos, 0)\<close> is
  issued before the connection is deleted and \<open>pointerClient\<close> is then null; if it is
  \<open>clipboardClient\<close>, the withdraw path runs (\<^verbatim>\<open>desktop->handleClipboardAnnounce(false)\<close>,
  \<open>clipboardClient\<close> null); it is removed from \<open>clipboardRequestors\<close>; the connection is
  deleted and leaves \<open>clients\<close>; the desktop is stopped when no authenticated client
  remains (what follows the deletion in the trace is that stop, if any, and the calls the
  backend makes to connections while it stops); and when \<open>removeSocket\<close> returns,
  \<open>connectTimer\<close> is stopped and \<open>disconnectTimer\<close> is started exactly when
  \<open>maxDisconnectionTime\<close> is positive and \<open>clients\<close> is now empty.  It returns unless the
  backend throws while the desktop is stopped.
\<close>

theorem removeSocket_live_connection:
  assumes found: "findClient sock s = Some c"
      and res: "removeSocket cfg ext sock s = (r, s')"
  shows "(\<exists>es. trace s' =
            trace s @
            (if pointerClient s = Some (conn_id c) then [DesktopPointerEvent (cursorPos s) 0]
             else []) @
            (if clipboardClient s = Some (conn_id c) then [DesktopHandleClipboardAnnounce False]
             else []) @
            [ConnDelete (conn_id c)] @
            (if desktopStarted s \<and>
                filter authenticated (filter (\<lambda>x. conn_id x \<noteq> conn_id c) (clients s)) = []
             then [DesktopStop] else []) @ es \<and>
            list_all isConnCall es) \<and>
         pointerClient s' =
           (if pointerClient s = Some (conn_id c) then None else pointerClient s) \<and>
         clipboardClient s' =
           (if clipboardClient s = Some (conn_id c) then None else clipboardClient s) \<and>
         clipboardRequestors s' = removeAll (conn_id c) (clipboardRequestors s) \<and>
         clients s' = filter (\<lambda>x. conn_id x \<noteq> conn_id c) (clients s) \<and>
         (filter authenticated (clients s') = [] \<longrightarrow> \<not> desktopStarted s') \<and>
         (r = Inr () \<longrightarrow>
            \<not> isStarted (connectTimer s') \<and>
            disconnectTimer s' =
              (if 0 < maxDisconnectionTime cfg \<and> clients s' = []
               then timer_start (secsToMillis (maxDisconnectionTime cfg)) (disconnectTimer s)
               else disconnectTimer s)) \<and>
         (r \<noteq> Inr () \<longrightarrow>
            desktopStarted s \<and>
            filter authenticated (filter (\<lambda>x. conn_id x \<noteq> conn_id c) (clients s)) = [])"
proof -
  define s1 where "s1 = (if pointerClient s = Some (conn_id c)
                     then (emit [DesktopPointerEvent (cursorPos s) 0] s)\<lparr>pointerClient := None\<rparr>
                     else s)"
  define s2 where "s2 = (if clipboardClient s1 = Some (conn_id c)
                     then handleClipboardAnnounce cfg (conn_id c) False s1 else s1)"
  define s5 where "s5 = (emit [ConnDelete (conn_id c)]
       (s2\<lparr>clipboardRequestors := removeAll (conn_id c) (clipboardRequestors s2)\<rparr>))
       \<lparr>clients := filter (\<lambda>x. conn_id x \<noteq> conn_id c) (clients s2)\<rparr>"
  define stopped where
    "stopped = (if authClientCount s5 = 0 then stopDesktop cfg ext s5 else returns s5)"
  define timers where "timers = (\<lambda>s6::state.
      let s7 = s6\<lparr>connectTimer := timer_stop (connectTimer s6)\<rparr>
      in if maxDisconnectionTime cfg \<noteq> 0 \<and> clients s7 = []
         then s7\<lparr>disconnectTimer :=
                   timer_start (secsToMillis (maxDisconnectionTime cfg)) (disconnectTimer s7)\<rparr>
         else s7)"
  obtain r6 s6 where st: "stopped = (r6, s6)"
    by (cases stopped)
  define g where "g = (\<lambda>s6. let s7 = s6\<lparr>connectTimer := timer_stop (connectTimer s6)\<rparr>
                       in if maxDisconnectionTime cfg \<noteq> 0 \<and> clients s7 = []
                          then returns
                                 (s7\<lparr>disconnectTimer :=
                                       timer_start (secsToMillis (maxDisconnectionTime cfg))
                                         (disconnectTimer s7)\<rparr>)
                          else returns s7)"
  have g: "g = (\<lambda>s6. returns (timers s6))"
    by (rule ext) (simp add: g_def timers_def returns_def Let_def)
  have "removeSocket cfg ext sock s = andThen stopped g"
    using found
    by (simp add: removeSocket_def s1_def s2_def s5_def stopped_def g_def Let_def emit_def)
  then have rs: "removeSocket cfg ext sock s = andThen stopped (\<lambda>s6. returns (timers s6))"
    by (simp add: g)
  have out: "(r = Inr () \<and> r6 = Inr () \<and> s' = timers s6) \<or> (r \<noteq> Inr () \<and> r6 = r \<and> s' = s6)"
    using res unfolding rs st
    by (cases r6) (auto simp: andThen_def returns_def)
  have f5: "clients s5 = filter (\<lambda>x. conn_id x \<noteq> conn_id c) (clients s) \<and>
            pointerClient s5 =
              (if pointerClient s = Some (conn_id c) then None else pointerClient s) \<and>
            clipboardClient s5 =
              (if clipboardClient s = Some (conn_id c) then None else clipboardClient s) \<and>
            clipboardRequestors s5 = removeAll (conn_id c) (clipboardRequestors s) \<and>
            connectTimer s5 = connectTimer s \<and> disconnectTimer s5 = disconnectTimer s \<and>
            desktopStarted s5 = desktopStarted s \<and>
            trace s5 = trace s @
              (if pointerClient s = Some (conn_id c)
               then [DesktopPointerEvent (cursorPos s) 0] else []) @
              (if clipboardClient s = Some (conn_id c)
               then [DesktopHandleClipboardAnnounce False] else []) @
              [ConnDelete (conn_id c)]"
    by (simp add: s5_def s2_def s1_def emit_def handleClipboardAnnounce_def)
  have f6: "clients s6 = clients s5 \<and> pointerClient s6 = pointerClient s5 \<and>
         clipboardClient s6 = clipboardClient s5 \<and>
         clipboardRequestors s6 = clipboardRequestors s5 \<and>
         connectTimer s6 = connectTimer s5 \<and> disconnectTimer s6 = disconnectTimer s5 \<and>
         (authClientCount s5 = 0 \<longrightarrow> \<not> desktopStarted s6) \<and>
         (r6 \<noteq> Inr () \<longrightarrow> authClientCount s5 = 0 \<and> desktopStarted s5) \<and>
         (\<exists>es. trace s6 = trace s5 @
                 (if desktopStarted s5 \<and> authClientCount s5 = 0 then [DesktopStop] else []) @ es \<and>
               list_all isConnCall es)"
  proof (cases "authClientCount s5 = 0")
    case True
    with st have sd: "stopDesktop cfg ext s5 = (r6, s6)"
      by (simp add: stopped_def)
    have "r6 \<noteq> Inr () \<longrightarrow> desktopStarted s5"
      using sd by (auto simp: stopDesktop_def returns_def split: if_splits)
    with stopDesktop_effect [OF sd] True show ?thesis
      by simp
  next
    case False
    with st show ?thesis
      by (auto simp: stopped_def returns_def)
  qed
  have auth: "(authClientCount s5 = 0) =
              (filter authenticated (filter (\<lambda>x. conn_id x \<noteq> conn_id c) (clients s)) = [])"
    using f5 by (simp add: authClientCount_def)
  from f6 obtain es where es: "trace s6 = trace s5 @
                 (if desktopStarted s5 \<and> authClientCount s5 = 0 then [DesktopStop] else []) @ es"
      "list_all isConnCall es"
    by blast
  have same: "clients s' = clients s6 \<and> desktopStarted s' = desktopStarted s6 \<and>
              pointerClient s' = pointerClient s6 \<and> clipboardClient s' = clipboardClient s6 \<and>
              clipboardRequestors s' = clipboardRequestors s6 \<and> trace s' = trace s6"
  proof -
    have "clients (timers s6) = clients s6 \<and> desktopStarted (timers s6) = desktopStarted s6 \<and>
          pointerClient (timers s6) = pointerClient s6 \<and>
          clipboardClient (timers s6) = clipboardClient s6 \<and>
          clipboardRequestors (timers s6) = clipboardRequestors s6 \<and>
          trace (timers s6) = trace s6"
      by (simp add: timers_def Let_def)
    with out show ?thesis
      by blast
  qed
  have "trace s' =
            trace s @
            (if pointerClient s = Some (conn_id c) then [DesktopPointerEvent (cursorPos s) 0]
             else []) @
            (if clipboardClient s = Some (conn_id c) then [DesktopHandleClipboardAnnounce False]
             else []) @
            [ConnDelete (conn_id c)] @
            (if desktopStarted s \<and>
                filter authenticated (filter (\<lambda>x. conn_id x \<noteq> conn_id c) (clients s)) = []
             then [DesktopStop] else []) @ es"
    using same es(1) f5 auth by simp
  with es(2) have t: "\<exists>es. trace s' =
            trace s @
            (if pointerClient s = Some (conn_id c) then [DesktopPointerEvent (cursorPos s) 0]
             else []) @
            (if clipboardClient s = Some (conn_id c) then [DesktopHandleClipboardAnnounce False]
             else []) @
            [ConnDelete (conn_id c)] @
            (if desktopStarted s \<and>
                filter authenticated (filter (\<lambda>x. conn_id x \<noteq> conn_id c) (clients s)) = []
             then [DesktopStop] else []) @ es \<and>
            list_all isConnCall es"
    by blast
  have fields: "pointerClient s' =
           (if pointerClient s = Some (conn_id c) then None else pointerClient s) \<and>
         clipboardClient s' =
           (if clipboardClient s = Some (conn_id c) then None else clipboardClient s) \<and>
         clipboardRequestors s' = removeAll (conn_id c) (clipboardRequestors s) \<and>
         clients s' = filter (\<lambda>x. conn_id x \<noteq> conn_id c) (clients s)"
    using same f5 f6 by simp
  have ds: "filter authenticated (clients s') = [] \<longrightarrow> \<not> desktopStarted s'"
    using same f5 f6 auth by simp
  have timers: "\<not> isStarted (connectTimer s') \<and>
         disconnectTimer s' =
           (if 0 < maxDisconnectionTime cfg \<and> clients s' = []
            then timer_start (secsToMillis (maxDisconnectionTime cfg)) (disconnectTimer s)
            else disconnectTimer s)" if "r = Inr ()"
  proof -
    from that out have "s' = timers s6" by auto
    then show ?thesis
      using f5 f6 by (simp add: timers_def Let_def timer_stop_def timer_start_def)
  qed
  have exc: "desktopStarted s \<and>
            filter authenticated (filter (\<lambda>x. conn_id x \<noteq> conn_id c) (clients s)) = []"
    if "r \<noteq> Inr ()"
  proof -
    from that out have "r6 \<noteq> Inr ()" by auto
    with f6 f5 auth show ?thesis by simp
  qed
  from t fields ds timers exc show ?thesis
    by blast
qed

theorem removeSocket_live_connection_witness:
  "findClient 5 exampleSession = Some exampleClient \<and>
   fst (removeSocket (exampleConfig\<lparr>maxDisconnectionTime := 5\<rparr>) exampleExternals 5
          exampleSession) = Inr () \<and>
   pointerClient exampleSession = Some (conn_id exampleClient) \<and>
   desktopStarted exampleSession \<and>
   trace (snd (removeSocket (exampleConfig\<lparr>maxDisconnectionTime := 5\<rparr>) exampleExternals 5
                 exampleSession)) =
     trace exampleSession @ [DesktopPointerEvent (Point 0 0) 0, ConnDelete 0, DesktopStop] \<and>
   pointerClient (snd (removeSocket (exampleConfig\<lparr>maxDisconnectionTime := 5\<rparr>)
                         exampleExternals 5 exampleSession)) = None \<and>
   clients (snd (removeSocket (exampleConfig\<lparr>maxDisconnectionTime := 5\<rparr>) exampleExternals 5
                   exampleSession)) = [] \<and>
   \<not> desktopStarted (snd (removeSocket (exampleConfig\<lparr>maxDisconnectionTime := 5\<rparr>)
                             exampleExternals 5 exampleSession)) \<and>
   disconnectTimer (snd (removeSocket (exampleConfig\<lparr>maxDisconnectionTime := 5\<rparr>)
                           exampleExternals 5 exampleSession)) =
     \<lparr>isStarted = True, timeoutMs = 5000\<rparr>"
proof -
  have h1: "findClient 5 exampleSession = Some exampleClient"
    by (simp add: exampleSession_eq exampleClient_def findClient_def
        new_VNCSConnectionST_def exampleSocket_def)
  have ev: "fst (removeSocket (exampleConfig\<lparr>maxDisconnectionTime := 5\<rparr>) exampleExternals 5
                   exampleSession) = Inr ()"
    unfolding exampleSession_eq by (simp add: eval_defs)
  have h2: "removeSocket (exampleConfig\<lparr>maxDisconnectionTime := 5\<rparr>) exampleExternals 5
              exampleSession =
            (Inr (), snd (removeSocket (exampleConfig\<lparr>maxDisconnectionTime := 5\<rparr>)
                            exampleExternals 5 exampleSession))"
    using ev by (simp add: prod_eq_iff)
  have tr: "trace (snd (removeSocket (exampleConfig\<lparr>maxDisconnectionTime := 5\<rparr>)
                          exampleExternals 5 exampleSession)) =
     trace exampleSession @ [DesktopPointerEvent (Point 0 0) 0, ConnDelete 0, DesktopStop]"
    unfolding exampleSession_eq by (simp add: eval_defs)
  have st: "pointerClient exampleSession = Some (conn_id exampleClient) \<and>
            desktopStarted exampleSession \<and> clients exampleSession = [exampleClient] \<and>
            disconnectTimer exampleSession = \<lparr>isStarted = False, timeoutMs = 0\<rparr>"
    by (simp add: exampleSession_eq exampleClient_def new_VNCSConnectionST_def
        exampleSocket_def)
  show ?thesis
    using removeSocket_live_connection [OF h1 h2] h1 ev tr st
    by (simp add: exampleConfig_def timer_start_def secsToMillis_def exampleClient_def
        new_VNCSConnectionST_def)
qed

subsection \<open>Client-driven resize\<close>

lemma broadcast_single:
  "broadcast [call] cs = map (\<lambda>c. ConnCall (conn_id c) call) cs"
  by (induction cs) (simp_all add: broadcast_def)

text \<open>
  Claim C4.  \<open>setDesktopSize requester w h layout\<close> returns \<open>resultProhibited\<close> with no
  call to the backend (the fields are unchanged) when \<open>acceptSetDesktopSize\<close> is false or
  \<open>w > 16384\<close> or \<open>h > 16384\<close>; otherwise it returns \<open>resultInvalid\<close>, again with nothing
  changed, when the layout fails \<open>validate w h\<close>; otherwise it calls
  \<^verbatim>\<open>desktop->setScreenLayout\<close>, which leaves the fields as \<open>s1\<close>: an exception of the
  backend propagates; a result other than success is returned as it is; after a success a
  runtime error is thrown if \<open>screenLayout\<close> differs from the requested layout (as a set
  of screens); and else every client but \<open>requester\<close> is notified with reason other-client
  and success is returned.  The frame rate is positive.
\<close>

theorem setDesktopSize_outcomes:
  assumes "0 < frameRate cfg"
  shows
  "(\<not> acceptSetDesktopSize cfg \<or> 16384 < fb_width \<or> 16384 < fb_height \<longrightarrow>
      setDesktopSize cfg ext requester fb_width fb_height layout s =
        (Inr resultProhibited, s)) \<and>
   (acceptSetDesktopSize cfg \<and> fb_width \<le> 16384 \<and> fb_height \<le> 16384 \<and>
    \<not> validate layout fb_width fb_height \<longrightarrow>
      setDesktopSize cfg ext requester fb_width fb_height layout s = (Inr resultInvalid, s)) \<and>
   (acceptSetDesktopSize cfg \<and> fb_width \<le> 16384 \<and> fb_height \<le> 16384 \<and>
    validate layout fb_width fb_height \<and>
    runCallbacks cfg (snd (ext_setScreenLayout ext fb_width fb_height layout))
      (emit [DesktopSetScreenLayout fb_width fb_height layout] s) = (r, s1) \<longrightarrow>
      (\<exists>es. trace s1 = trace s @ [DesktopSetScreenLayout fb_width fb_height layout] @ es \<and>
            list_all isConnCall es) \<and>
      clients s1 = clients s \<and>
      (\<forall>e. r = Inl e \<longrightarrow>
         setDesktopSize cfg ext requester fb_width fb_height layout s = (Inl e, s1)) \<and>
      (r = Inr () \<and>
       fst (ext_setScreenLayout ext fb_width fb_height layout) \<noteq> resultSuccess \<longrightarrow>
         setDesktopSize cfg ext requester fb_width fb_height layout s =
           (Inr (fst (ext_setScreenLayout ext fb_width fb_height layout)), s1)) \<and>
      (r = Inr () \<and>
       fst (ext_setScreenLayout ext fb_width fb_height layout) = resultSuccess \<and>
       \<not> screenSet_eq (screenLayout s1) layout \<longrightarrow>
         setDesktopSize cfg ext requester fb_width fb_height layout s =
           (Inl (RuntimeError ''Desktop configured a different screen layout than requested''),
            s1)) \<and>
      (r = Inr () \<and>
       fst (ext_setScreenLayout ext fb_width fb_height layout) = resultSuccess \<and>
       screenSet_eq (screenLayout s1) layout \<longrightarrow>
         setDesktopSize cfg ext requester fb_width fb_height layout s =
           (Inr resultSuccess,
            s1\<lparr>trace := trace s1 @
                   map (\<lambda>c. ConnCall (conn_id c) (ScreenLayoutChangeOrClose reasonOtherClient))
                     (filter (\<lambda>c. conn_id c \<noteq> requester) (clients s))\<rparr>)))"
proof -
  have a: "\<not> acceptSetDesktopSize cfg \<or> 16384 < fb_width \<or> 16384 < fb_height \<longrightarrow>
      setDesktopSize cfg ext requester fb_width fb_height layout s =
        (Inr resultProhibited, s)"
    by (simp add: setDesktopSize_def)
  have b: "acceptSetDesktopSize cfg \<and> fb_width \<le> 16384 \<and> fb_height \<le> 16384 \<and>
    \<not> validate layout fb_width fb_height \<longrightarrow>
      setDesktopSize cfg ext requester fb_width fb_height layout s = (Inr resultInvalid, s)"
    by (simp add: setDesktopSize_def)
  have c: "(\<exists>es. trace s1 = trace s @ [DesktopSetScreenLayout fb_width fb_height layout] @ es \<and>
            list_all isConnCall es) \<and>
      clients s1 = clients s \<and>
      (\<forall>e. r = Inl e \<longrightarrow>
         setDesktopSize cfg ext requester fb_width fb_height layout s = (Inl e, s1)) \<and>
      (r = Inr () \<and>
       fst (ext_setScreenLayout ext fb_width fb_height layout) \<noteq> resultSuccess \<longrightarrow>
         setDesktopSize cfg ext requester fb_width fb_height layout s =
           (Inr (fst (ext_setScreenLayout ext fb_width fb_height layout)), s1)) \<and>
      (r = Inr () \<and>
       fst (ext_setScreenLayout ext fb_width fb_height layout) = resultSuccess \<and>
       \<not> screenSet_eq (screenLayout s1) layout \<longrightarrow>
         setDesktopSize cfg ext requester fb_width fb_height layout s =
           (Inl (RuntimeError ''Desktop configured a different screen layout than requested''),
            s1)) \<and>
      (r = Inr () \<and>
       fst (ext_setScreenLayout ext fb_width fb_height layout) = resultSuccess \<and>
       screenSet_eq (screenLayout s1) layout \<longrightarrow>
         setDesktopSize cfg ext requester fb_width fb_height layout s =
           (Inr resultSuccess,
            s1\<lparr>trace := trace s1 @
                   map (\<lambda>c. ConnCall (conn_id c) (ScreenLayoutChangeOrClose reasonOtherClient))
                     (filter (\<lambda>c. conn_id c \<noteq> requester) (clients s))\<rparr>))"
    if ok: "acceptSetDesktopSize cfg" "fb_width \<le> 16384" "fb_height \<le> 16384"
           "validate layout fb_width fb_height"
       and cb: "runCallbacks cfg (snd (ext_setScreenLayout ext fb_width fb_height layout))
                  (emit [DesktopSetScreenLayout fb_width fb_height layout] s) = (r, s1)"
  proof -
    have "sameSession (emit [DesktopSetScreenLayout fb_width fb_height layout] s)
            (snd (runCallbacks cfg (snd (ext_setScreenLayout ext fb_width fb_height layout))
                    (emit [DesktopSetScreenLayout fb_width fb_height layout] s)))"
      by (rule runCallbacks_same)
    with cb have same: "sameSession (emit [DesktopSetScreenLayout fb_width fb_height layout] s) s1"
      by simp
    then have cl: "clients s1 = clients s"
      by (simp add: sameSession_def emit_def)
    from same have tr: "\<exists>es. trace s1 =
             trace s @ [DesktopSetScreenLayout fb_width fb_height layout] @ es \<and>
            list_all isConnCall es"
      by (simp add: sameSession_def emit_def)
    have exc: "setDesktopSize cfg ext requester fb_width fb_height layout s = (Inl e, s1)"
      if "r = Inl e" for e
      using ok cb that by (simp add: setDesktopSize_def)
    have res: "setDesktopSize cfg ext requester fb_width fb_height layout s =
       (let result = fst (ext_setScreenLayout ext fb_width fb_height layout) in
             if result \<noteq> resultSuccess then (Inr result, s1)
             else if \<not> screenSet_eq (screenLayout s1) layout
             then throws (RuntimeError
                    ''Desktop configured a different screen layout than requested'') s1
             else (Inr resultSuccess,
                   emit (broadcast [ScreenLayoutChangeOrClose reasonOtherClient]
                           (filter (\<lambda>c. conn_id c \<noteq> requester) (clients s1))) s1))"
      if "r = Inr ()"
      using ok cb that by (simp add: setDesktopSize_def)
    have norm: "(fst (ext_setScreenLayout ext fb_width fb_height layout) \<noteq> resultSuccess \<longrightarrow>
         setDesktopSize cfg ext requester fb_width fb_height layout s =
           (Inr (fst (ext_setScreenLayout ext fb_width fb_height layout)), s1)) \<and>
      (fst (ext_setScreenLayout ext fb_width fb_height layout) = resultSuccess \<and>
       \<not> screenSet_eq (screenLayout s1) layout \<longrightarrow>
         setDesktopSize cfg ext requester fb_width fb_height layout s =
           (Inl (RuntimeError ''Desktop configured a different screen layout than requested''),
            s1)) \<and>
      (fst (ext_setScreenLayout ext fb_width fb_height layout) = resultSuccess \<and>
       screenSet_eq (screenLayout s1) layout \<longrightarrow>
         setDesktopSize cfg ext requester fb_width fb_height layout s =
           (Inr resultSuccess,
            s1\<lparr>trace := trace s1 @
                   map (\<lambda>c. ConnCall (conn_id c) (ScreenLayoutChangeOrClose reasonOtherClient))
                     (filter (\<lambda>c. conn_id c \<noteq> requester) (clients s))\<rparr>))"
      if "r = Inr ()"
      using cl by (simp add: res [OF that] Let_def throws_def emit_def broadcast_single)
    from tr cl exc norm show ?thesis
      by blast
  qed
  from a b c show ?thesis
    by blast
qed

theorem setDesktopSize_outcomes_witness:
  "0 < frameRate exampleConfig \<and>
   setDesktopSize (exampleConfig\<lparr>acceptSetDesktopSize := False\<rparr>) exampleExternals 0 1280 720
     [Screen 0 (setXYWH 0 0 1280 720) 0] exampleSession2 =
     (Inr resultProhibited, exampleSession2) \<and>
   setDesktopSize exampleConfig exampleExternals 0 20000 720
     [Screen 0 (setXYWH 0 0 1280 720) 0] exampleSession2 =
     (Inr resultProhibited, exampleSession2) \<and>
   setDesktopSize exampleConfig exampleExternals 0 1280 720 [] exampleSession2 =
     (Inr resultInvalid, exampleSession2) \<and>
   fst (setDesktopSize exampleConfig exampleExternals 0 1280 720
          [Screen 0 (setXYWH 0 0 1280 720) 0] exampleSession2) = Inr resultSuccess \<and>
   trace (snd (setDesktopSize exampleConfig exampleExternals 0 1280 720
                 [Screen 0 (setXYWH 0 0 1280 720) 0] exampleSession2)) =
     trace exampleSession2 @
       [DesktopSetScreenLayout 1280 720 [Screen 0 (setXYWH 0 0 1280 720) 0],
        ConnCall 1 PixelBufferChange, ConnCall 0 PixelBufferChange,
        ConnCall 1 (ScreenLayoutChangeOrClose reasonOtherClient)] \<and>
   fst (setDesktopSize exampleConfig
          (exampleExternals\<lparr>ext_setScreenLayout := (\<lambda>w h layout. (resultNoResources, []))\<rparr>)
          0 1280 720 [Screen 0 (setXYWH 0 0 1280 720) 0] exampleSession2) =
     Inr resultNoResources \<and>
   fst (setDesktopSize exampleConfig
          (exampleExternals\<lparr>ext_setScreenLayout := (\<lambda>w h layout. (resultSuccess, []))\<rparr>)
          0 1280 720 [Screen 0 (setXYWH 0 0 1280 720) 0] exampleSession2) =
     Inl (RuntimeError ''Desktop configured a different screen layout than requested'') \<and>
   fst (setDesktopSize exampleConfig
          (exampleExternals\<lparr>ext_setScreenLayout :=
             (\<lambda>w h layout. (resultSuccess,
                [CbSetPixelBuffer (Some (PixelBuffer w h)) (rev layout)]))\<rparr>)
          0 1280 720
          [Screen 0 (setXYWH 0 0 640 720) 0, Screen 1 (setXYWH 640 0 640 720) 0]
          exampleSession2) = Inr resultSuccess"
proof -
  let ?L = "[Screen 0 (setXYWH 0 0 1280 720) 0]"
  let ?L2 = "[Screen 0 (setXYWH 0 0 640 720) 0, Screen 1 (setXYWH 640 0 640 720) 0]"
  let ?e3 = "exampleExternals\<lparr>ext_setScreenLayout :=
             (\<lambda>w h layout. (resultSuccess,
                [CbSetPixelBuffer (Some (PixelBuffer w h)) (rev layout)]))\<rparr>"
  let ?s2 = "emit [DesktopSetScreenLayout 1280 720 ?L2] exampleSession2"
  have fr: "0 < frameRate exampleConfig"
    by (simp add: exampleConfig_def)
  have fr': "0 < frameRate (exampleConfig\<lparr>acceptSetDesktopSize := False\<rparr>)"
    by (simp add: exampleConfig_def)
  have cb3: "runCallbacks exampleConfig (snd (ext_setScreenLayout ?e3 1280 720 ?L2)) ?s2 =
      (Inr (), snd (runCallbacks exampleConfig
                      (snd (ext_setScreenLayout ?e3 1280 720 ?L2)) ?s2))"
    unfolding exampleSession2_eq exampleSession_eq
    by (simp add: prod_eq_iff eval_defs)
  have sl3: "validate ?L2 1280 720 \<and>
             screenSet_eq (screenLayout (snd (runCallbacks exampleConfig
                      (snd (ext_setScreenLayout ?e3 1280 720 ?L2)) ?s2))) ?L2"
    unfolding exampleSession2_eq exampleSession_eq
    by (simp add: eval_defs screenSet_eq_def insert_commute)
  let ?e1 = "exampleExternals\<lparr>ext_setScreenLayout := (\<lambda>w h layout. (resultNoResources, []))\<rparr>"
  let ?e2 = "exampleExternals\<lparr>ext_setScreenLayout := (\<lambda>w h layout. (resultSuccess, []))\<rparr>"
  let ?s0 = "emit [DesktopSetScreenLayout 1280 720 ?L] exampleSession2"
  have cb: "runCallbacks exampleConfig (snd (ext_setScreenLayout exampleExternals 1280 720 ?L)) ?s0 =
      (Inr (), snd (runCallbacks exampleConfig
                      (snd (ext_setScreenLayout exampleExternals 1280 720 ?L)) ?s0))"
    unfolding exampleSession2_eq exampleSession_eq
    by (simp add: prod_eq_iff eval_defs)
  have cb1: "runCallbacks exampleConfig (snd (ext_setScreenLayout ?e1 1280 720 ?L)) ?s0 =
      (Inr (), ?s0)"
    by (simp add: returns_def)
  have cb2: "runCallbacks exampleConfig (snd (ext_setScreenLayout ?e2 1280 720 ?L)) ?s0 =
      (Inr (), ?s0)"
    by (simp add: returns_def)
  have v: "validate ?L 1280 720 \<and> \<not> validate [] 1280 720 \<and> acceptSetDesktopSize exampleConfig"
    by (simp add: eval_defs)
  have sl: "screenSet_eq (screenLayout (snd (runCallbacks exampleConfig
                      (snd (ext_setScreenLayout exampleExternals 1280 720 ?L)) ?s0))) ?L \<and>
            \<not> screenSet_eq (screenLayout ?s0) ?L \<and>
            trace (snd (runCallbacks exampleConfig
                      (snd (ext_setScreenLayout exampleExternals 1280 720 ?L)) ?s0)) =
              trace exampleSession2 @ [DesktopSetScreenLayout 1280 720 ?L,
                 ConnCall 1 PixelBufferChange, ConnCall 0 PixelBufferChange] \<and>
            clients exampleSession2 = [exampleClient2, exampleClient]"
    unfolding exampleSession2_eq exampleSession_eq
    by (simp add: eval_defs exampleClient_def exampleClient2_def screenSet_eq_def)
  have ids: "conn_id exampleClient2 = 1 \<and> conn_id exampleClient = 0"
    by (simp add: exampleClient_def exampleClient2_def new_VNCSConnectionST_def)
  show ?thesis
    using setDesktopSize_outcomes
            [OF fr', where fb_width = 1280
               and fb_height = 720 and ext = exampleExternals and requester = 0 and layout = ?L
               and s = exampleSession2 and r = "Inr ()" and ?s1.0 = exampleSession2]
          setDesktopSize_outcomes
            [OF fr, where fb_width = 1280 and fb_height = 720
               and ext = ?e3 and requester = 0 and layout = ?L2
               and s = exampleSession2 and r = "Inr ()"
               and ?s1.0 = "snd (runCallbacks exampleConfig
                      (snd (ext_setScreenLayout ?e3 1280 720 ?L2)) ?s2)"]
          setDesktopSize_outcomes
            [OF fr, where fb_width = 20000 and fb_height = 720
               and ext = exampleExternals and requester = 0 and layout = ?L
               and s = exampleSession2 and r = "Inr ()" and ?s1.0 = exampleSession2]
          setDesktopSize_outcomes
            [OF fr, where fb_width = 1280 and fb_height = 720
               and ext = exampleExternals and requester = 0 and layout = "[]"
               and s = exampleSession2 and r = "Inr ()" and ?s1.0 = exampleSession2]
          setDesktopSize_outcomes
            [OF fr, where fb_width = 1280 and fb_height = 720
               and ext = exampleExternals and requester = 0 and layout = ?L
               and s = exampleSession2 and r = "Inr ()"
               and ?s1.0 = "snd (runCallbacks exampleConfig
                      (snd (ext_setScreenLayout exampleExternals 1280 720 ?L)) ?s0)"]
          setDesktopSize_outcomes
            [OF fr, where fb_width = 1280 and fb_height = 720
               and ext = ?e1 and requester = 0 and layout = ?L
               and s = exampleSession2 and r = "Inr ()" and ?s1.0 = ?s0]
          setDesktopSize_outcomes
            [OF fr, where fb_width = 1280 and fb_height = 720
               and ext = ?e2 and requester = 0 and layout = ?L
               and s = exampleSession2 and r = "Inr ()" and ?s1.0 = ?s0]
          fr cb cb1 cb2 cb3 v sl sl3 ids
    by (simp add: exampleExternals_def)
qed

subsection \<open>Authentication aftermath\<close>

lemma writeUpdate_fields:
  "clients (snd (writeUpdate cfg ext s)) = clients s"
  "blacklist (snd (writeUpdate cfg ext s)) = blacklist s"
  "desktopStarted (snd (writeUpdate cfg ext s)) = desktopStarted s"
  by (simp_all add: writeUpdate_def emit_def returns_def throws_def Let_def split: option.split)

lemma startDesktop_effect:
  assumes "startDesktop cfg ext s = (Inr (), s1)"
  shows "clients s1 = clients s \<and> blacklist s1 = blacklist s \<and> desktopStarted s1"
proof (cases "desktopStarted s")
  case True
  with assms show ?thesis by (simp add: startDesktop_def returns_def)
next
  case False
  define f where "f = (\<lambda>s1. case pb s1 of
             None \<Rightarrow>
               throws (LogicError ''SDesktop::start() did not set a valid PixelBuffer'') s1
           | Some p \<Rightarrow>
              (let s2 = s1\<lparr>desktopStarted := True\<rparr> in
               case comparer s2 of
                 None \<Rightarrow> throws AssertionFailed s2
               | Some c \<Rightarrow>
                   andThen (if \<not> cmp_is_empty c then writeUpdate cfg ext s2 else returns s2)
                     (\<lambda>s3. if isStarted (frameTimer s3)
                            then returns (startFrameClock cfg (stopFrameClock s3))
                            else returns s3)))"
  define P where "P = (\<lambda>st::state. clients st = clients s \<and> blacklist st = blacklist s)"
  define Q where "Q = (\<lambda>st::state. P st \<and> desktopStarted st)"
  have eq: "startDesktop cfg ext s =
      andThen (runCallbacks cfg (ext_start ext) (emit [DesktopStart] s)) f"
    using False by (simp add: startDesktop_def f_def)
  have "sameSession (emit [DesktopStart] s)
          (snd (runCallbacks cfg (ext_start ext) (emit [DesktopStart] s)))"
    by (rule runCallbacks_same)
  then have p0: "P (snd (runCallbacks cfg (ext_start ext) (emit [DesktopStart] s)))"
    by (simp add: P_def sameSession_def emit_def)
  have fq: "Q (snd (f st))" if "P st" and "fst (f st) = Inr ()" for st
  proof (cases "pb st")
    case None
    with that show ?thesis by (simp add: f_def throws_def)
  next
    case (Some p)
    show ?thesis
    proof (cases "comparer st")
      case None
      with Some that show ?thesis by (simp add: f_def throws_def)
    next
      case c: (Some c)
      have q2: "Q (st\<lparr>desktopStarted := True\<rparr>)"
        using that(1) by (simp add: Q_def P_def)
      have "Q (snd (andThen (if \<not> cmp_is_empty c
                              then writeUpdate cfg ext (st\<lparr>desktopStarted := True\<rparr>)
                              else returns (st\<lparr>desktopStarted := True\<rparr>))
                     (\<lambda>s3. if isStarted (frameTimer s3)
                            then returns (startFrameClock cfg (stopFrameClock s3))
                            else returns s3)))"
      proof (rule andThen_rule)
        show "Q (snd (if \<not> cmp_is_empty c
                      then writeUpdate cfg ext (st\<lparr>desktopStarted := True\<rparr>)
                      else returns (st\<lparr>desktopStarted := True\<rparr>)))"
          using q2 by (simp add: Q_def P_def writeUpdate_fields returns_def)
      next
        fix s3 assume "Q s3"
        then show "Q (snd (if isStarted (frameTimer s3)
                            then returns (startFrameClock cfg (stopFrameClock s3))
                            else returns s3))"
          by (simp add: Q_def P_def returns_def startFrameClock_def stopFrameClock_def)
      qed
      with Some c show ?thesis by (simp add: f_def Let_def)
    qed
  qed
  from assms have r: "fst (andThen (runCallbacks cfg (ext_start ext) (emit [DesktopStart] s)) f) =
                   Inr ()"
    by (simp add: eq)
  from r p0 fq have "Q (snd (andThen (runCallbacks cfg (ext_start ext) (emit [DesktopStart] s)) f))"
    by (rule andThen_returns_rule2)
  with assms show ?thesis
    by (simp add: eq Q_def P_def)
qed

lemma startDesktop_fields:
  "clients (snd (startDesktop cfg ext s)) = clients s \<and>
   blacklist (snd (startDesktop cfg ext s)) = blacklist s"
proof (cases "desktopStarted s")
  case True
  then show ?thesis by (simp add: startDesktop_def returns_def)
next
  case False
  define f where "f = (\<lambda>s1. case pb s1 of
             None \<Rightarrow>
               throws (LogicError ''SDesktop::start() did not set a valid PixelBuffer'') s1
           | Some p \<Rightarrow>
              (let s2 = s1\<lparr>desktopStarted := True\<rparr> in
               case comparer s2 of
                 None \<Rightarrow> throws AssertionFailed s2
               | Some c \<Rightarrow>
                   andThen (if \<not> cmp_is_empty c then writeUpdate cfg ext s2 else returns s2)
                     (\<lambda>s3. if isStarted (frameTimer s3)
                            then returns (startFrameClock cfg (stopFrameClock s3))
                            else returns s3)))"
  define P where "P = (\<lambda>st::state. clients st = clients s \<and> blacklist st = blacklist s)"
  have eq: "startDesktop cfg ext s =
      andThen (runCallbacks cfg (ext_start ext) (emit [DesktopStart] s)) f"
    using False by (simp add: startDesktop_def f_def)
  have "sameSession (emit [DesktopStart] s)
          (snd (runCallbacks cfg (ext_start ext) (emit [DesktopStart] s)))"
    by (rule runCallbacks_same)
  then have p0: "P (snd (runCallbacks cfg (ext_start ext) (emit [DesktopStart] s)))"
    by (simp add: P_def sameSession_def emit_def)
  have fp: "P (snd (f st))" if "P st" for st
  proof (cases "pb st")
    case None
    with that show ?thesis by (simp add: f_def throws_def)
  next
    case (Some p)
    show ?thesis
    proof (cases "comparer st")
      case None
      with Some that show ?thesis by (simp add: f_def throws_def P_def)
    next
      case c: (Some c)
      have "P (snd (andThen (if \<not> cmp_is_empty c
                              then writeUpdate cfg ext (st\<lparr>desktopStarted := True\<rparr>)
                              else returns (st\<lparr>desktopStarted := True\<rparr>))
                     (\<lambda>s3. if isStarted (frameTimer s3)
                            then returns (startFrameClock cfg (stopFrameClock s3))
                            else returns s3)))"
      proof (rule andThen_rule)
        show "P (snd (if \<not> cmp_is_empty c
                      then writeUpdate cfg ext (st\<lparr>desktopStarted := True\<rparr>)
                      else returns (st\<lparr>desktopStarted := True\<rparr>)))"
          using that by (simp add: P_def writeUpdate_fields returns_def)
      next
        fix s3 assume "P s3"
        then show "P (snd (if isStarted (frameTimer s3)
                            then returns (startFrameClock cfg (stopFrameClock s3))
                            else returns s3))"
          by (simp add: P_def returns_def startFrameClock_def stopFrameClock_def)
      qed
      with Some c show ?thesis by (simp add: f_def Let_def)
    qed
  qed
  from p0 fp have "P (snd (andThen (runCallbacks cfg (ext_start ext) (emit [DesktopStart] s)) f))"
    by (rule andThen_rule)
  then show ?thesis
    by (simp add: eq P_def)
qed

lemma authClientCount_pos:
  "(0 < authClientCount s) = (\<exists>c \<in> set (clients s). authenticated c)"
  by (auto simp: authClientCount_def filter_empty_conv)

text \<open>
  Claim C7, as amended.  When \<open>client\<close> is the connection of \<open>clients\<close> that owns its socket,
  \<open>queryConnection\<close> first clears the blackmark of the peer and starts the desktop, which
  leaves the fields as \<open>s1\<close>; an exception of the start propagates; else the desktop is
  started and, if \<open>neverShared\<close> is set, \<open>disconnectClients\<close> is unset and an authenticated
  client exists, it rejects \<open>client\<close> with the reason "The server is already in use"; else
  it approves \<open>client\<close> when \<open>queryConnect\<close> is unset and the socket requires no query, or
  when the client holds \<open>AccessNoQuery\<close>; otherwise it hands the decision to
  \<^verbatim>\<open>desktop->queryConnection\<close>.  The frame rate is positive.
\<close>

theorem queryConnection_decision:
  assumes rate: "0 < frameRate cfg"
      and started: "startDesktop cfg ext (clearBlackmark (peerAddress (getSock client)) s) =
                      (r, s1)"
      and own: "findClient (sock_id (getSock client)) s = Some client"
  shows "blacklist s1 = removeAll (peerAddress (getSock client)) (blacklist s) \<and>
         clients s1 = clients s \<and>
         (\<forall>e. r = Inl e \<longrightarrow> queryConnection cfg ext client userName s = (Inl e, s1)) \<and>
         (r = Inr () \<longrightarrow> desktopStarted s1) \<and>
         (r = Inr () \<and> neverShared cfg \<and> \<not> disconnectClients cfg \<and>
          (\<exists>c \<in> set (clients s). authenticated c) \<longrightarrow>
            queryConnection cfg ext client userName s =
              (Inr (), s1\<lparr>trace := trace s1 @
                 [ConnCall (conn_id client)
                    (ApproveConnectionOrClose False (Some ''The server is already in use''))]\<rparr>)) \<and>
         (r = Inr () \<and>
          \<not> (neverShared cfg \<and> \<not> disconnectClients cfg \<and>
             (\<exists>c \<in> set (clients s). authenticated c)) \<and>
          (\<not> queryConnect cfg \<and> \<not> requiresQuery (getSock client) \<or>
           accessCheck client AccessNoQuery) \<longrightarrow>
            queryConnection cfg ext client userName s =
              (Inr (), s1\<lparr>trace := trace s1 @
                 [ConnCall (conn_id client) (ApproveConnectionOrClose True None)]\<rparr>)) \<and>
         (r = Inr () \<and>
          \<not> (neverShared cfg \<and> \<not> disconnectClients cfg \<and>
             (\<exists>c \<in> set (clients s). authenticated c)) \<and>
          \<not> (\<not> queryConnect cfg \<and> \<not> requiresQuery (getSock client) \<or>
             accessCheck client AccessNoQuery) \<longrightarrow>
            queryConnection cfg ext client userName s =
              (Inr (), s1\<lparr>trace := trace s1 @
                 [DesktopQueryConnection (sock_id (getSock client)) userName]\<rparr>))"
proof -
  have "clients (snd (r, s1)) = clients (clearBlackmark (peerAddress (getSock client)) s) \<and>
        blacklist (snd (r, s1)) = blacklist (clearBlackmark (peerAddress (getSock client)) s)"
    unfolding started [symmetric] by (rule startDesktop_fields)
  then have eff: "clients s1 = clients s"
            "blacklist s1 = removeAll (peerAddress (getSock client)) (blacklist s)"
    by (simp_all add: clearBlackmark_def)
  have exc: "queryConnection cfg ext client userName s = (Inl e, s1)" if "r = Inl e" for e
    using started that by (simp add: queryConnection_def andThen_def)
  have norm: "desktopStarted s1 \<and>
         (neverShared cfg \<and> \<not> disconnectClients cfg \<and>
          (\<exists>c \<in> set (clients s). authenticated c) \<longrightarrow>
            queryConnection cfg ext client userName s =
              (Inr (), s1\<lparr>trace := trace s1 @
                 [ConnCall (conn_id client)
                    (ApproveConnectionOrClose False (Some ''The server is already in use''))]\<rparr>)) \<and>
         (\<not> (neverShared cfg \<and> \<not> disconnectClients cfg \<and>
             (\<exists>c \<in> set (clients s). authenticated c)) \<and>
          (\<not> queryConnect cfg \<and> \<not> requiresQuery (getSock client) \<or>
           accessCheck client AccessNoQuery) \<longrightarrow>
            queryConnection cfg ext client userName s =
              (Inr (), s1\<lparr>trace := trace s1 @
                 [ConnCall (conn_id client) (ApproveConnectionOrClose True None)]\<rparr>)) \<and>
         (\<not> (neverShared cfg \<and> \<not> disconnectClients cfg \<and>
             (\<exists>c \<in> set (clients s). authenticated c)) \<and>
          \<not> (\<not> queryConnect cfg \<and> \<not> requiresQuery (getSock client) \<or>
             accessCheck client AccessNoQuery) \<longrightarrow>
            queryConnection cfg ext client userName s =
              (Inr (), s1\<lparr>trace := trace s1 @
                 [DesktopQueryConnection (sock_id (getSock client)) userName]\<rparr>))"
    if ok: "r = Inr ()"
  proof -
    from started ok
    have st: "startDesktop cfg ext (clearBlackmark (peerAddress (getSock client)) s) =
                (Inr (), s1)"
      by simp
    from startDesktop_effect [OF st] have ds: "desktopStarted s1"
      by simp
    have fc: "findClient (sock_id (getSock client)) s1 = Some client"
      using own eff(1) by (simp add: findClient_def)
    define A where "A = (\<exists>c \<in> set (clients s). authenticated c)"
    have auth: "(0 < authClientCount s1) = A"
      using eff(1) by (simp add: authClientCount_pos A_def)
    have q: "queryConnection cfg ext client userName s =
         (if neverShared cfg \<and> \<not> disconnectClients cfg \<and> authClientCount s1 > 0
                then returns (approveConnection (sock_id (getSock client)) False
                                (Some ''The server is already in use'') s1)
                else if \<not> queryConnect cfg \<and> \<not> requiresQuery (getSock client)
                then returns (approveConnection (sock_id (getSock client)) True None s1)
                else if accessCheck client AccessNoQuery
                then returns (approveConnection (sock_id (getSock client)) True None s1)
                else returns
                       (emit [DesktopQueryConnection (sock_id (getSock client)) userName] s1))"
      by (simp add: queryConnection_def st andThen_def)
    have ap: "\<And>accept reason. approveConnection (sock_id (getSock client)) accept reason s1 =
           s1\<lparr>trace := trace s1 @
                 [ConnCall (conn_id client) (ApproveConnectionOrClose accept reason)]\<rparr>"
      by (simp add: approveConnection_def fc emit_def)
    show ?thesis
      unfolding q auth A_def [symmetric]
      using ds by (simp add: ap returns_def emit_def)
  qed
  from eff exc norm show ?thesis
    by blast
qed

theorem queryConnection_decision_witness:
  "0 < frameRate exampleConfig \<and>
   findClient (sock_id (getSock exampleClient2)) exampleSharedSession = Some exampleClient2 \<and>
   queryConnection (exampleConfig\<lparr>neverShared := True, disconnectClients := False\<rparr>)
     exampleExternals exampleClient2 ''bob'' exampleSharedSession =
     (Inr (), exampleSharedSession\<lparr>trace := trace exampleSharedSession @
        [ConnCall 1 (ApproveConnectionOrClose False (Some ''The server is already in use''))]\<rparr>) \<and>
   queryConnection exampleConfig exampleExternals exampleClient2 ''bob'' exampleSharedSession =
     (Inr (), exampleSharedSession\<lparr>trace := trace exampleSharedSession @
        [ConnCall 1 (ApproveConnectionOrClose True None)]\<rparr>) \<and>
   queryConnection (exampleConfig\<lparr>queryConnect := True\<rparr>) exampleExternals exampleClient2 ''bob''
     exampleSharedSession =
     (Inr (), exampleSharedSession\<lparr>trace := trace exampleSharedSession @
        [DesktopQueryConnection 6 ''bob'']\<rparr>) \<and>
   fst (startDesktop exampleConfig exampleExternals
          (clearBlackmark (peerAddress (getSock exampleClient))
             (addSocket exampleConfig AcceptOk (exampleSocket 5 ''10.0.0.1'') False []
                exampleState))) = Inr () \<and>
   desktopStarted (snd (startDesktop exampleConfig exampleExternals
          (clearBlackmark (peerAddress (getSock exampleClient))
             (addSocket exampleConfig AcceptOk (exampleSocket 5 ''10.0.0.1'') False []
                exampleState)))) \<and>
   \<not> desktopStarted (addSocket exampleConfig AcceptOk (exampleSocket 5 ''10.0.0.1'') False []
                exampleState)"
proof -
  let ?cN = "exampleConfig\<lparr>neverShared := True, disconnectClients := False\<rparr>"
  let ?cQ = "exampleConfig\<lparr>queryConnect := True\<rparr>"
  let ?s0 = "addSocket exampleConfig AcceptOk (exampleSocket 5 ''10.0.0.1'') False [] exampleState"
  have fr: "0 < frameRate exampleConfig"
    by (simp add: exampleConfig_def)
  have frN: "0 < frameRate ?cN"
    by (simp add: exampleConfig_def)
  have frQ: "0 < frameRate ?cQ"
    by (simp add: exampleConfig_def)
  have own: "findClient (sock_id (getSock exampleClient2)) exampleSharedSession =
             Some exampleClient2"
    by (simp add: exampleSharedSession_eq findClient_def exampleClient2_def
        new_VNCSConnectionST_def exampleSocket_def)
  have cl: "clearBlackmark (peerAddress (getSock exampleClient2)) exampleSharedSession =
            exampleSharedSession"
    by (simp add: exampleSharedSession_eq exampleSession_eq clearBlackmark_def
        exampleClient2_def new_VNCSConnectionST_def exampleSocket_def)
  have sd: "\<And>cfg. startDesktop cfg exampleExternals
              (clearBlackmark (peerAddress (getSock exampleClient2)) exampleSharedSession) =
            (Inr (), exampleSharedSession)"
    unfolding cl by (simp add: startDesktop_def returns_def exampleSharedSession_eq
        exampleSession_eq)
  have facts: "neverShared ?cN \<and> \<not> disconnectClients ?cN \<and> \<not> neverShared exampleConfig \<and>
      \<not> neverShared ?cQ \<and> \<not> queryConnect exampleConfig \<and> queryConnect ?cQ \<and>
      \<not> requiresQuery (getSock exampleClient2) \<and> \<not> accessCheck exampleClient2 AccessNoQuery \<and>
      conn_id exampleClient2 = 1 \<and> sock_id (getSock exampleClient2) = 6 \<and>
      (\<exists>c \<in> set (clients exampleSharedSession). authenticated c)"
    by (simp add: exampleConfig_def exampleClient2_def new_VNCSConnectionST_def
        exampleSocket_def accessCheck_def exampleSharedSession_eq)
  have own0: "findClient (sock_id (getSock exampleClient)) ?s0 = Some exampleClient"
    by (simp add: eval_defs exampleClient_def)
  have ev0: "fst (startDesktop exampleConfig exampleExternals
               (clearBlackmark (peerAddress (getSock exampleClient)) ?s0)) = Inr ()"
    by (simp add: eval_defs exampleClient_def)
  then have sd0: "startDesktop exampleConfig exampleExternals
               (clearBlackmark (peerAddress (getSock exampleClient)) ?s0) =
             (Inr (), snd (startDesktop exampleConfig exampleExternals
               (clearBlackmark (peerAddress (getSock exampleClient)) ?s0)))"
    by (simp add: prod_eq_iff)
  have ns: "\<not> desktopStarted ?s0"
    by (simp add: eval_defs)
  show ?thesis
    using queryConnection_decision [OF frN sd own, where userName = "''bob''"]
          queryConnection_decision [OF fr sd own, where userName = "''bob''"]
          queryConnection_decision [OF frQ sd own, where userName = "''bob''"]
          queryConnection_decision [OF fr sd0 own0, where userName = "''alice''"]
          fr
          own facts ev0 ns
    by simp
qed

text \<open>The claim as stated names another reason: the one \<open>clientReady\<close> uses.\<close>

theorem queryConnection_decision_counterexample:
  "neverShared (exampleConfig\<lparr>neverShared := True, disconnectClients := False\<rparr>) \<and>
   \<not> disconnectClients (exampleConfig\<lparr>neverShared := True, disconnectClients := False\<rparr>) \<and>
   0 < authClientCount exampleSharedSession \<and>
   trace (snd (queryConnection (exampleConfig\<lparr>neverShared := True, disconnectClients := False\<rparr>)
                 exampleExternals exampleClient2 ''bob'' exampleSharedSession)) =
     trace exampleSharedSession @
       [ConnCall 1 (ApproveConnectionOrClose False (Some ''The server is already in use''))] \<and>
   ''The server is already in use'' \<noteq> ''Server is already in use''"
  unfolding exampleSharedSession_eq exampleSession_eq
  by (simp add: eval_defs exampleClient_def exampleClient2_def)

subsection \<open>The frame clock\<close>

lemma writeUpdate_returns:
  assumes "blockCounter s = 0" "desktopStarted s" "comparer s \<noteq> None" "pb s \<noteq> None"
  shows "fst (writeUpdate cfg ext s) = Inr () \<and>
         frameTimer (snd (writeUpdate cfg ext s)) = frameTimer s \<and>
         msc (snd (writeUpdate cfg ext s)) = msc s \<and>
         (\<exists>es. trace (snd (writeUpdate cfg ext s)) = trace s @ es)"
  using assms
  by (auto simp: writeUpdate_def emit_def returns_def Let_def)

lemma startFrameClock_started:
  "isStarted (frameTimer (startFrameClock cfg s)) =
     (isStarted (frameTimer s) \<or>
      \<not> 0 < blockCounter s \<and> \<not> (nothingPending s \<and> queuedMsc s < msc s))"
  by (simp add: startFrameClock_def timer_start_def)

lemma frameTimer_expiry:
  assumes inv: "frameClockInv s" and run: "isStarted (frameTimer s)"
  shows "(nothingPending s \<and> queuedMsc s < msc s \<longrightarrow>
            timerExpiry cfg ext FrameTimer s =
              (Inr (), s\<lparr>frameTimer := timer_stop (frameTimer s)\<rparr>)) \<and>
         (\<not> (nothingPending s \<and> queuedMsc s < msc s) \<longrightarrow>
            fst (timerExpiry cfg ext FrameTimer s) = Inr () \<and>
            isStarted (frameTimer (snd (timerExpiry cfg ext FrameTimer s))) \<and>
            msc (snd (timerExpiry cfg ext FrameTimer s)) = msc s + 1 \<and>
            (\<exists>es. trace (snd (timerExpiry cfg ext FrameTimer s)) =
                    trace s @ es @ [DesktopFrameTick (msc s + 1)]))"
proof -
  define d where "d = s\<lparr>frameTimer := timer_stop (frameTimer s)\<rparr>"
  have te: "timerExpiry cfg ext FrameTimer s = handleTimeout cfg ext FrameTimer d"
    using run by (simp add: timerExpiry_def timerOf_def disarm_def d_def)
  have dn: "nothingPending d = nothingPending s" "queuedMsc d = queuedMsc s" "msc d = msc s"
    by (simp_all add: d_def nothingPending_def)
  have early: "handleTimeout cfg ext FrameTimer d = (Inr (), d)"
    if "nothingPending s \<and> queuedMsc s < msc s"
    using that by (simp add: handleTimeout_def dn returns_def)
  have late: "fst (handleTimeout cfg ext FrameTimer d) = Inr () \<and>
            isStarted (frameTimer (snd (handleTimeout cfg ext FrameTimer d))) \<and>
            msc (snd (handleTimeout cfg ext FrameTimer d)) = msc s + 1 \<and>
            (\<exists>es. trace (snd (handleTimeout cfg ext FrameTimer d)) =
                    trace s @ es @ [DesktopFrameTick (msc s + 1)])"
    if np: "\<not> (nothingPending s \<and> queuedMsc s < msc s)"
  proof -
    define s1 where "s1 = d\<lparr>frameTimer := timer_repeat (if \<not> desktopStarted d then 1000
                            else 1000 div int (frameRate cfg)) (frameTimer d)\<rparr>"
    define w where "w = (if desktopStarted s1 \<and>
                      (case comparer s1 of None \<Rightarrow> False | Some c \<Rightarrow> \<not> cmp_is_empty c)
                   then writeUpdate cfg ext s1 else returns s1)"
    have np': "\<not> (nothingPending d \<and> queuedMsc d < msc d)"
      using np by (simp add: dn)
    have eq: "handleTimeout cfg ext FrameTimer d =
       andThen w (\<lambda>s2. let s3 = s2\<lparr>msc := msc s2 + 1\<rparr>
                         in returns (emit [DesktopFrameTick (msc s3)] s3))"
      by (simp add: handleTimeout_def s1_def w_def Let_def np')
    have b0: "blockCounter s1 = 0"
      using inv run by (simp add: s1_def d_def frameClockInv_def)
    have s1f: "isStarted (frameTimer s1)" "msc s1 = msc s" "trace s1 = trace s"
      by (simp_all add: s1_def d_def timer_repeat_def)
    have wf: "fst w = Inr () \<and> frameTimer (snd w) = frameTimer s1 \<and> msc (snd w) = msc s1 \<and>
              (\<exists>es. trace (snd w) = trace s1 @ es)"
    proof (cases "desktopStarted s1 \<and>
                      (case comparer s1 of None \<Rightarrow> False | Some c \<Rightarrow> \<not> cmp_is_empty c)")
      case False
      show ?thesis by (simp add: w_def returns_def False)
    next
      case True
      then have c: "comparer s1 \<noteq> None" and ds: "desktopStarted s1"
        by (auto split: option.splits)
      from c have "comparer s \<noteq> None"
        by (simp add: s1_def d_def)
      with inv have "pb s1 \<noteq> None"
        by (simp add: s1_def d_def frameClockInv_def)
      from writeUpdate_returns [OF b0 ds c this] True show ?thesis
        by (simp add: w_def)
    qed
    then obtain es where es: "trace (snd w) = trace s1 @ es"
      by blast
    obtain r s2 where w: "w = (r, s2)"
      by (cases w)
    with wf have r: "r = Inr ()" by simp
    have res: "handleTimeout cfg ext FrameTimer d =
                 (Inr (), emit [DesktopFrameTick (msc s2 + 1)] (s2\<lparr>msc := msc s2 + 1\<rparr>))"
      by (simp add: eq w r andThen_def returns_def Let_def)
    have "trace (snd (handleTimeout cfg ext FrameTimer d)) =
            trace s @ es @ [DesktopFrameTick (msc s + 1)]"
      using wf es w s1f by (simp add: res emit_def)
    then have "\<exists>es. trace (snd (handleTimeout cfg ext FrameTimer d)) =
                    trace s @ es @ [DesktopFrameTick (msc s + 1)]"
      by blast
    moreover have "fst (handleTimeout cfg ext FrameTimer d) = Inr () \<and>
            isStarted (frameTimer (snd (handleTimeout cfg ext FrameTimer d))) \<and>
            msc (snd (handleTimeout cfg ext FrameTimer d)) = msc s + 1"
      using wf w s1f by (simp add: res emit_def)
    ultimately show ?thesis by blast
  qed
  from early late show ?thesis
    unfolding te d_def by blast
qed

lemma frameClockInv_init: "frameClockInv (VNCServerST cfg new_name bl)"
  by (simp add: frameClockInv_def VNCServerST_def)

lemma frameClock_run:
  "frameClockInv s \<Longrightarrow> frameClockLive s \<Longrightarrow>
   frameClockInv (run cfg ext opers s) \<and> frameClockLive (run cfg ext opers s)"
proof (induction opers arbitrary: s)
  case Nil
  then show ?case by (simp add: run_def)
next
  case (Cons oper opers)
  from Cons.prems(1) have i: "frameClockInv (snd (step cfg ext oper s))"
    by (rule frameClockInv_step)
  from Cons.prems have l: "frameClockLive (snd (step cfg ext oper s))"
    by (rule frameClockLive_step)
  from i l have "frameClockInv (run cfg ext opers (snd (step cfg ext oper s))) \<and>
                 frameClockLive (run cfg ext opers (snd (step cfg ext oper s)))"
    by (rule Cons.IH)
  then show ?case by (simp add: run_def)
qed

lemma frameClockInv_blocked:
  "frameClockInv s \<Longrightarrow> isStarted (frameTimer s) \<Longrightarrow> blockCounter s = 0"
  by (simp add: frameClockInv_def)

lemma frameClockLive_running:
  "frameClockLive s \<Longrightarrow> blockCounter s = 0 \<Longrightarrow>
   desktopStarted s \<and> comparerNonEmpty s \<or> queuedMsc s > msc s \<Longrightarrow> isStarted (frameTimer s)"
  by (simp add: frameClockLive_def)

lemma startFrameClock_keeps [simp]:
  "queuedMsc (startFrameClock cfg s) = queuedMsc s"
  "blockCounter (startFrameClock cfg s) = blockCounter s"
  by (simp_all add: startFrameClock_def)

lemma queueMsc_clock:
  "queuedMsc (queueMsc cfg target s) = max (queuedMsc s) target \<and>
   isStarted (frameTimer (queueMsc cfg target s)) =
     (isStarted (frameTimer s) \<or> frameClockDue (queueMsc cfg target s))"
  by (auto simp: queueMsc_def startFrameClock_isStarted max_def)

lemma add_changed_clock:
  "comparer s \<noteq> None \<Longrightarrow>
   isStarted (frameTimer (add_changed cfg rg s)) =
     (isStarted (frameTimer s) \<or> frameClockDue (add_changed cfg rg s))"
  by (auto simp: add_changed_def startFrameClock_isStarted)

lemma add_copied_clock:
  "comparer s \<noteq> None \<Longrightarrow>
   isStarted (frameTimer (add_copied cfg dest delta s)) =
     (isStarted (frameTimer s) \<or> frameClockDue (add_copied cfg dest delta s))"
  by (auto simp: add_copied_def startFrameClock_isStarted)

lemma unblockUpdates_clock:
  assumes "0 < blockCounter s"
  shows "fst (unblockUpdates cfg s) = Inr () \<and>
         blockCounter (snd (unblockUpdates cfg s)) = blockCounter s - 1 \<and>
         isStarted (frameTimer (snd (unblockUpdates cfg s))) =
           (isStarted (frameTimer s) \<or> frameClockDue (snd (unblockUpdates cfg s)))"
proof (cases "blockCounter s - 1 = 0")
  case True
  with assms show ?thesis
    by (simp add: unblockUpdates_def Let_def returns_def startFrameClock_isStarted)
next
  case False
  with assms have "\<not> frameClockDue (s\<lparr>blockCounter := blockCounter s - 1\<rparr>)"
    by (simp add: frameClockDue_def)
  with assms False show ?thesis
    by (simp add: unblockUpdates_def Let_def returns_def)
qed

lemma blockUpdates_clock:
  "\<not> isStarted (frameTimer (blockUpdates s)) \<and>
   blockCounter (blockUpdates s) = blockCounter s + 1"
  by (simp add: blockUpdates_def stopFrameClock_def timer_stop_def)

text \<open>
  Claim C1, as amended.  In every state that the constructed server reaches by public
  operations and timer expiries, whether they return or throw: if the frame timer runs
  then \<open>blockCounter = 0\<close>; and if \<open>blockCounter = 0\<close> and the desktop is started with a
  non-empty comparer, or \<open>blockCounter = 0\<close> and \<open>queuedMsc > msc\<close>, then the frame timer
  runs.  Every operation preserves both.  \<open>startFrameClock\<close>, and with it \<open>queueMsc\<close>
  (which raises \<open>queuedMsc\<close> to the maximum), \<open>add_changed\<close> and \<open>add_copied\<close> (with a
  comparer) and \<open>unblockUpdates\<close> (which decrements a positive \<open>blockCounter\<close>), leave the
  timer running exactly when it was running already, or in the resulting state
  \<open>blockCounter\<close> is not positive and it is not the case that nothing is pending and
  \<open>queuedMsc < msc\<close>, where nothing is pending when the desktop is not started or the
  comparer is present and empty; \<open>blockUpdates\<close> increments \<open>blockCounter\<close> and stops the
  timer.  An expiry of the running \<open>frameTimer\<close> that finds nothing pending and
  \<open>queuedMsc < msc\<close> returns without re-arming the timer and changes nothing else; every
  other expiry returns with the timer re-armed, \<open>msc\<close> incremented by exactly 1 and
  \<^verbatim>\<open>desktop->frameTick(msc)\<close> as its last call.
\<close>

theorem frame_clock_running:
  assumes "0 < frameRate cfg"
  shows "frameClockInv (run cfg ext opers (VNCServerST cfg new_name bl)) \<and>
         frameClockLive (run cfg ext opers (VNCServerST cfg new_name bl)) \<and>
         (isStarted (frameTimer (run cfg ext opers (VNCServerST cfg new_name bl))) \<longrightarrow>
            blockCounter (run cfg ext opers (VNCServerST cfg new_name bl)) = 0) \<and>
         (blockCounter (run cfg ext opers (VNCServerST cfg new_name bl)) = 0 \<and>
          (desktopStarted (run cfg ext opers (VNCServerST cfg new_name bl)) \<and>
           comparerNonEmpty (run cfg ext opers (VNCServerST cfg new_name bl)) \<or>
           queuedMsc (run cfg ext opers (VNCServerST cfg new_name bl)) >
             msc (run cfg ext opers (VNCServerST cfg new_name bl))) \<longrightarrow>
            isStarted (frameTimer (run cfg ext opers (VNCServerST cfg new_name bl)))) \<and>
         (frameClockInv s \<longrightarrow> frameClockInv (snd (step cfg ext oper s))) \<and>
         (frameClockInv s \<and> frameClockLive s \<longrightarrow> frameClockLive (snd (step cfg ext oper s))) \<and>
         isStarted (frameTimer (startFrameClock cfg s)) =
           (isStarted (frameTimer s) \<or>
            \<not> 0 < blockCounter s \<and> \<not> (nothingPending s \<and> queuedMsc s < msc s)) \<and>
         (queuedMsc (queueMsc cfg target s) = max (queuedMsc s) target \<and>
          isStarted (frameTimer (queueMsc cfg target s)) =
            (isStarted (frameTimer s) \<or> frameClockDue (queueMsc cfg target s))) \<and>
         (comparer s \<noteq> None \<longrightarrow>
            isStarted (frameTimer (add_changed cfg rg s)) =
              (isStarted (frameTimer s) \<or> frameClockDue (add_changed cfg rg s)) \<and>
            isStarted (frameTimer (add_copied cfg dest delta s)) =
              (isStarted (frameTimer s) \<or> frameClockDue (add_copied cfg dest delta s))) \<and>
         (0 < blockCounter s \<longrightarrow>
            fst (unblockUpdates cfg s) = Inr () \<and>
            blockCounter (snd (unblockUpdates cfg s)) = blockCounter s - 1 \<and>
            isStarted (frameTimer (snd (unblockUpdates cfg s))) =
              (isStarted (frameTimer s) \<or> frameClockDue (snd (unblockUpdates cfg s)))) \<and>
         (\<not> isStarted (frameTimer (blockUpdates s)) \<and>
          blockCounter (blockUpdates s) = blockCounter s + 1) \<and>
         (frameClockInv s \<and> isStarted (frameTimer s) \<longrightarrow>
            (nothingPending s \<and> queuedMsc s < msc s \<longrightarrow>
               timerExpiry cfg ext FrameTimer s =
                 (Inr (), s\<lparr>frameTimer := timer_stop (frameTimer s)\<rparr>)) \<and>
            (\<not> (nothingPending s \<and> queuedMsc s < msc s) \<longrightarrow>
               fst (timerExpiry cfg ext FrameTimer s) = Inr () \<and>
               isStarted (frameTimer (snd (timerExpiry cfg ext FrameTimer s))) \<and>
               msc (snd (timerExpiry cfg ext FrameTimer s)) = msc s + 1 \<and>
               (\<exists>es. trace (snd (timerExpiry cfg ext FrameTimer s)) =
                       trace s @ es @ [DesktopFrameTick (msc s + 1)])))"
proof -
  have reach: "frameClockInv (run cfg ext opers (VNCServerST cfg new_name bl)) \<and>
               frameClockLive (run cfg ext opers (VNCServerST cfg new_name bl))"
    using frameClockInv_init frameClockLive_init by (rule frameClock_run)
  then have ri: "frameClockInv (run cfg ext opers (VNCServerST cfg new_name bl))"
    and rl: "frameClockLive (run cfg ext opers (VNCServerST cfg new_name bl))"
    by simp_all
  have a: "isStarted (frameTimer (run cfg ext opers (VNCServerST cfg new_name bl))) \<longrightarrow>
            blockCounter (run cfg ext opers (VNCServerST cfg new_name bl)) = 0"
    using frameClockInv_blocked [OF ri] by blast
  have b: "blockCounter (run cfg ext opers (VNCServerST cfg new_name bl)) = 0 \<and>
          (desktopStarted (run cfg ext opers (VNCServerST cfg new_name bl)) \<and>
           comparerNonEmpty (run cfg ext opers (VNCServerST cfg new_name bl)) \<or>
           queuedMsc (run cfg ext opers (VNCServerST cfg new_name bl)) >
             msc (run cfg ext opers (VNCServerST cfg new_name bl))) \<longrightarrow>
            isStarted (frameTimer (run cfg ext opers (VNCServerST cfg new_name bl)))"
    using frameClockLive_running [OF rl] by blast
  have c: "frameClockInv s \<longrightarrow> frameClockInv (snd (step cfg ext oper s))"
    using frameClockInv_step [of s cfg ext oper] by blast
  have d: "frameClockInv s \<and> frameClockLive s \<longrightarrow> frameClockLive (snd (step cfg ext oper s))"
    using frameClockLive_step [of s cfg ext oper] by blast
  have e: "comparer s \<noteq> None \<longrightarrow>
            isStarted (frameTimer (add_changed cfg rg s)) =
              (isStarted (frameTimer s) \<or> frameClockDue (add_changed cfg rg s)) \<and>
            isStarted (frameTimer (add_copied cfg dest delta s)) =
              (isStarted (frameTimer s) \<or> frameClockDue (add_copied cfg dest delta s))"
    using add_changed_clock [of s cfg rg] add_copied_clock [of s cfg dest delta] by blast
  have f: "0 < blockCounter s \<longrightarrow>
            fst (unblockUpdates cfg s) = Inr () \<and>
            blockCounter (snd (unblockUpdates cfg s)) = blockCounter s - 1 \<and>
            isStarted (frameTimer (snd (unblockUpdates cfg s))) =
              (isStarted (frameTimer s) \<or> frameClockDue (snd (unblockUpdates cfg s)))"
    using unblockUpdates_clock [of s cfg] by blast
  have g: "frameClockInv s \<and> isStarted (frameTimer s) \<longrightarrow>
            (nothingPending s \<and> queuedMsc s < msc s \<longrightarrow>
               timerExpiry cfg ext FrameTimer s =
                 (Inr (), s\<lparr>frameTimer := timer_stop (frameTimer s)\<rparr>)) \<and>
            (\<not> (nothingPending s \<and> queuedMsc s < msc s) \<longrightarrow>
               fst (timerExpiry cfg ext FrameTimer s) = Inr () \<and>
               isStarted (frameTimer (snd (timerExpiry cfg ext FrameTimer s))) \<and>
               msc (snd (timerExpiry cfg ext FrameTimer s)) = msc s + 1 \<and>
               (\<exists>es. trace (snd (timerExpiry cfg ext FrameTimer s)) =
                       trace s @ es @ [DesktopFrameTick (msc s + 1)]))"
    using frameTimer_expiry [of s cfg ext] by blast
  from ri rl a b c d startFrameClock_started [of cfg s] queueMsc_clock [of cfg target s] e f
       blockUpdates_clock [of s] g
  show ?thesis
    by (intro conjI) (rule TrueI | assumption | erule conjunct1 | erule conjunct2)+
qed

theorem frame_clock_running_witness:
  "0 < frameRate exampleConfig \<and>
   frameClockInv (run exampleConfig exampleExternals [QueueMsc 0, TimerExpiry FrameTimer]
                    (VNCServerST exampleConfig ''desktop'' [''1.2.3.4''])) \<and>
   frameClockInv exampleSession \<and> isStarted (frameTimer exampleSession) \<and>
   nothingPending exampleSession \<and> \<not> queuedMsc exampleSession < msc exampleSession \<and>
   fst (timerExpiry exampleConfig exampleExternals FrameTimer exampleSession) = Inr () \<and>
   isStarted (frameTimer (snd (timerExpiry exampleConfig exampleExternals FrameTimer
                                 exampleSession))) \<and>
   msc (snd (timerExpiry exampleConfig exampleExternals FrameTimer exampleSession)) =
     msc exampleSession + 1 \<and>
   nothingPending (snd (timerExpiry exampleConfig exampleExternals FrameTimer exampleSession)) \<and>
   queuedMsc (snd (timerExpiry exampleConfig exampleExternals FrameTimer exampleSession)) <
     msc (snd (timerExpiry exampleConfig exampleExternals FrameTimer exampleSession)) \<and>
   \<not> isStarted (frameTimer (snd (timerExpiry exampleConfig exampleExternals FrameTimer
       (snd (timerExpiry exampleConfig exampleExternals FrameTimer exampleSession))))) \<and>
   frameClockInv (snd (step exampleConfig exampleExternals BlockUpdates exampleSession)) \<and>
   \<not> isStarted (frameTimer (snd (step exampleConfig exampleExternals BlockUpdates
                                   exampleSession))) \<and>
   isStarted (frameTimer (startFrameClock exampleConfig
     (snd (step exampleConfig exampleExternals UnblockUpdates
        (snd (step exampleConfig exampleExternals BlockUpdates exampleSession)))))) \<and>
   blockCounter (run exampleConfig exampleExternals [QueueMsc 5]
                   (VNCServerST exampleConfig ''desktop'' [''1.2.3.4''])) = 0 \<and>
   msc (run exampleConfig exampleExternals [QueueMsc 5]
          (VNCServerST exampleConfig ''desktop'' [''1.2.3.4''])) <
     queuedMsc (run exampleConfig exampleExternals [QueueMsc 5]
                  (VNCServerST exampleConfig ''desktop'' [''1.2.3.4''])) \<and>
   isStarted (frameTimer (run exampleConfig exampleExternals [QueueMsc 5]
                            (VNCServerST exampleConfig ''desktop'' [''1.2.3.4'']))) \<and>
   frameClockLive exampleSession \<and>
   frameClockLive (snd (step exampleConfig exampleExternals BlockUpdates exampleSession)) \<and>
   0 < blockCounter (snd (step exampleConfig exampleExternals BlockUpdates exampleSession)) \<and>
   fst (unblockUpdates exampleConfig
          (snd (step exampleConfig exampleExternals BlockUpdates exampleSession))) = Inr () \<and>
   comparer exampleSession \<noteq> None \<and>
   isStarted (frameTimer (add_changed exampleConfig [setXYWH 0 0 10 10] exampleSession))"
proof -
  let ?q = "run exampleConfig exampleExternals [QueueMsc 5]
              (VNCServerST exampleConfig ''desktop'' [''1.2.3.4''])"
  let ?t1 = "snd (timerExpiry exampleConfig exampleExternals FrameTimer exampleSession)"
  let ?b = "snd (step exampleConfig exampleExternals BlockUpdates exampleSession)"
  let ?u = "snd (step exampleConfig exampleExternals UnblockUpdates ?b)"
  have fr: "0 < frameRate exampleConfig"
    by (simp add: exampleConfig_def)
  have s0: "frameClockInv exampleSession"
           "isStarted (frameTimer exampleSession)" "nothingPending exampleSession"
           "\<not> queuedMsc exampleSession < msc exampleSession"
    by (simp_all add: exampleSession_eq frameClockInv_def
        nothingPending_def cmp_is_empty_def region_is_empty_def)
  have s1: "frameClockInv ?t1" "isStarted (frameTimer ?t1)"
           "nothingPending ?t1" "queuedMsc ?t1 < msc ?t1"
    by (simp_all only: exampleTick_eq snd_conv)
       (simp_all add: exampleSession_eq frameClockInv_def
          nothingPending_def cmp_is_empty_def region_is_empty_def)
  have b: "\<not> isStarted (frameTimer ?b)"
    by (simp add: step_def blockUpdates_def stopFrameClock_def timer_stop_def)
  have u: "isStarted (frameTimer ?u)"
    unfolding exampleSession_eq by (simp add: eval_defs)
  have q: "blockCounter ?q = 0" "msc ?q < queuedMsc ?q"
    by (simp_all add: eval_defs)
  have l0: "frameClockLive exampleSession" "comparer exampleSession \<noteq> None"
    by (simp_all add: exampleSession_eq frameClockLive_def)
  have bc: "0 < blockCounter ?b"
    by (simp add: step_def blockUpdates_def stopFrameClock_def exampleSession_eq)
  note tq = frame_clock_running [OF fr, where ext = exampleExternals
              and opers = "[QueueMsc 5]" and new_name = "''desktop''"
              and bl = "[''1.2.3.4'']" and s = ?b and oper = BlockUpdates]
  from tq q have eq: "isStarted (frameTimer ?q)"
    by blast
  from tq bc have eb: "fst (unblockUpdates exampleConfig ?b) = Inr ()"
    by blast
  note t0 = frame_clock_running [OF fr, where ext = exampleExternals
              and opers = "[QueueMsc 0, TimerExpiry FrameTimer]" and new_name = "''desktop''"
              and bl = "[''1.2.3.4'']" and s = exampleSession and oper = BlockUpdates
              and rg = "[setXYWH 0 0 10 10]"]
  note t1 = frame_clock_running [OF fr, where ext = exampleExternals
              and opers = "[QueueMsc 0, TimerExpiry FrameTimer]" and new_name = "''desktop''"
              and bl = "[''1.2.3.4'']" and s = ?t1 and oper = BlockUpdates]
  note tu = frame_clock_running [OF fr, where ext = exampleExternals
              and opers = "[QueueMsc 0, TimerExpiry FrameTimer]" and new_name = "''desktop''"
              and bl = "[''1.2.3.4'']" and s = ?u and oper = BlockUpdates]
  from t0 s0 have e0:
    "fst (timerExpiry exampleConfig exampleExternals FrameTimer exampleSession) = Inr ()"
    "isStarted (frameTimer ?t1)" "msc ?t1 = msc exampleSession + 1" "frameClockInv ?b"
    "frameClockInv (run exampleConfig exampleExternals [QueueMsc 0, TimerExpiry FrameTimer]
                      (VNCServerST exampleConfig ''desktop'' [''1.2.3.4'']))"
    by blast+
  from t1 s1 have "timerExpiry exampleConfig exampleExternals FrameTimer ?t1 =
                     (Inr (), ?t1\<lparr>frameTimer := timer_stop (frameTimer ?t1)\<rparr>)"
    by blast
  then have e1: "\<not> isStarted (frameTimer
                    (snd (timerExpiry exampleConfig exampleExternals FrameTimer ?t1)))"
    by (simp add: timer_stop_def)
  from tu u have eu: "isStarted (frameTimer (startFrameClock exampleConfig ?u))"
    by blast
  from t0 s0 l0 have el: "frameClockLive ?b"
    "isStarted (frameTimer (add_changed exampleConfig [setXYWH 0 0 10 10] exampleSession))"
    by blast+
  from fr s0 s1 e0 e1 b eu q eq l0 el bc eb show ?thesis
    by blast
qed

text \<open>The claim as stated fails twice.  The iff is no invariant: after \<open>queueMsc 0\<close> and two
  expiries on the new server the timer is stopped although the spec's condition holds (the
  desktop is not started), and in the example session it runs although the condition
  fails.  And an expiry that finds nothing pending and \<open>queuedMsc = msc\<close> re-arms the timer
  and advances \<open>msc\<close>.\<close>

theorem frame_clock_running_counterexample:
  "specRunningCondition
     (run exampleConfig exampleExternals
        [QueueMsc 0, TimerExpiry FrameTimer, TimerExpiry FrameTimer] exampleState) \<and>
   \<not> isStarted (frameTimer
     (run exampleConfig exampleExternals
        [QueueMsc 0, TimerExpiry FrameTimer, TimerExpiry FrameTimer] exampleState)) \<and>
   isStarted (frameTimer exampleSession) \<and> \<not> specRunningCondition exampleSession \<and>
   nothingPending exampleSession \<and> queuedMsc exampleSession \<le> msc exampleSession \<and>
   isStarted (frameTimer (snd (timerExpiry exampleConfig exampleExternals FrameTimer
                                 exampleSession))) \<and>
   msc (snd (timerExpiry exampleConfig exampleExternals FrameTimer exampleSession)) =
     msc exampleSession + 1"
proof -
  have a: "specRunningCondition
     (run exampleConfig exampleExternals
        [QueueMsc 0, TimerExpiry FrameTimer, TimerExpiry FrameTimer] exampleState) \<and>
   \<not> isStarted (frameTimer
     (run exampleConfig exampleExternals
        [QueueMsc 0, TimerExpiry FrameTimer, TimerExpiry FrameTimer] exampleState))"
    by (simp add: eval_defs specRunningCondition_def comparerNonEmpty_def)
  have b: "isStarted (frameTimer exampleSession) \<and> \<not> specRunningCondition exampleSession \<and>
   nothingPending exampleSession \<and> queuedMsc exampleSession \<le> msc exampleSession"
    by (simp add: exampleSession_eq specRunningCondition_def comparerNonEmpty_def
        nothingPending_def cmp_is_empty_def region_is_empty_def)
  have c: "isStarted (frameTimer (snd (timerExpiry exampleConfig exampleExternals FrameTimer
                                 exampleSession))) \<and>
   msc (snd (timerExpiry exampleConfig exampleExternals FrameTimer exampleSession)) =
     msc exampleSession + 1"
    by (simp only: exampleTick_eq snd_conv) (simp add: exampleSession_eq)
  from a b c show ?thesis by simp
qed

subsection \<open>Comparer present iff pixel buffer present\<close>

lemma comparer_iff_pb_init: "comparer_iff_pb (VNCServerST cfg new_name bl)"
  by (simp add: comparer_iff_pb_def VNCServerST_def)

lemma comparer_iff_pb_run:
  "comparer_iff_pb s \<Longrightarrow> Some invalidLayout \<notin> set (outcomes cfg ext opers s) \<Longrightarrow>
   comparer_iff_pb (run cfg ext opers s)"
proof (induction opers arbitrary: s)
  case Nil
  then show ?case by (simp add: run_def)
next
  case (Cons oper opers)
  from Cons.prems(2) have a: "fst (step cfg ext oper s) \<noteq> Some invalidLayout"
    and b: "Some invalidLayout \<notin> set (outcomes cfg ext opers (snd (step cfg ext oper s)))"
    by auto
  from Cons.prems(1) a have "comparer_iff_pb (snd (step cfg ext oper s))"
    by (rule comparer_iff_pb_step)
  then have "comparer_iff_pb (run cfg ext opers (snd (step cfg ext oper s)))"
    using b by (rule Cons.IH)
  then show ?case by (simp add: run_def)
qed

lemma setPixelBuffer_invalid:
  "\<not> validate layout (pb_width p) (pb_height p) \<Longrightarrow>
   setPixelBuffer cfg (Some p) layout s =
     (Inl invalidLayout, s\<lparr>pb := Some p, comparer := None\<rparr>)"
  by (simp add: setPixelBuffer_def Let_def throws_def invalidLayout_def)

lemma setPixelBuffer_restores:
  "fst (step cfg ext (SetPixelBuffer new_pb layout) s) \<noteq> Some invalidLayout \<Longrightarrow>
   comparer_iff_pb (snd (step cfg ext (SetPixelBuffer new_pb layout) s))"
  by (simp add: step_def fst_outcomeOf_Some setPixelBuffer_pb)

text \<open>
  Claim C3, as amended.  The constructed server satisfies "\<open>comparer\<close> is non-null iff \<open>pb\<close>
  is non-null"; every public operation preserves it, whether it returns normally or
  throws, unless it fails with the invalid-layout exception of \<open>setPixelBuffer\<close>; hence it
  holds after every sequence of public operations none of which failed that way.  When
  \<open>setPixelBuffer pb layout\<close> throws that exception, for a layout that does not validate
  against the dimensions of \<open>pb\<close>, the state is changed: \<open>pb\<close> is the new buffer and
  \<open>comparer\<close> is null.  From whatever state, a \<open>setPixelBuffer\<close> that does not fail that way
  establishes the invariant.
\<close>

theorem comparer_iff_pb_preserved:
  assumes "0 < frameRate cfg"
  shows "comparer_iff_pb (VNCServerST cfg new_name bl) \<and>
         (Some invalidLayout \<notin> set (outcomes cfg ext opers (VNCServerST cfg new_name bl)) \<longrightarrow>
            comparer_iff_pb (run cfg ext opers (VNCServerST cfg new_name bl))) \<and>
         (comparer_iff_pb s \<and> fst (step cfg ext oper s) \<noteq> Some invalidLayout \<longrightarrow>
            comparer_iff_pb (snd (step cfg ext oper s))) \<and>
         (\<not> validate layout (pb_width p) (pb_height p) \<longrightarrow>
            setPixelBuffer cfg (Some p) layout s =
              (Inl invalidLayout, s\<lparr>pb := Some p, comparer := None\<rparr>)) \<and>
         (fst (step cfg ext (SetPixelBuffer new_pb layout) s) \<noteq> Some invalidLayout \<longrightarrow>
            comparer_iff_pb (snd (step cfg ext (SetPixelBuffer new_pb layout) s)))"
proof -
  have reach: "comparer_iff_pb (run cfg ext opers (VNCServerST cfg new_name bl))"
    if "Some invalidLayout \<notin> set (outcomes cfg ext opers (VNCServerST cfg new_name bl))"
    using comparer_iff_pb_init that by (rule comparer_iff_pb_run)
  from reach comparer_iff_pb_init [of cfg new_name bl]
       comparer_iff_pb_step [of s cfg ext oper]
       setPixelBuffer_invalid [of layout p cfg s]
       setPixelBuffer_restores [of cfg ext new_pb layout s]
  show ?thesis
    by blast
qed

theorem comparer_iff_pb_preserved_witness:
  "0 < frameRate exampleConfig \<and>
   outcomes exampleConfig exampleExternals
     [UnblockUpdates, SetScreenLayout [Screen 0 (setXYWH 0 0 800 600) 0],
      SetPixelBuffer (Some (PixelBuffer 800 600)) [Screen 0 (setXYWH 0 0 800 600) 0]]
     (VNCServerST exampleConfig ''desktop'' [''1.2.3.4'']) =
     [Some AssertionFailed,
      Some (LogicError ''setScreenLayout: New screen layout without a PixelBuffer''),
      None] \<and>
   comparer_iff_pb (run exampleConfig exampleExternals
     [UnblockUpdates, SetScreenLayout [Screen 0 (setXYWH 0 0 800 600) 0],
      SetPixelBuffer (Some (PixelBuffer 800 600)) [Screen 0 (setXYWH 0 0 800 600) 0]]
     (VNCServerST exampleConfig ''desktop'' [''1.2.3.4''])) \<and>
   comparer_iff_pb exampleSession \<and>
   fst (step exampleConfig exampleExternals (SetPixelBuffer None []) exampleSession) =
     Some (LogicError ''setPixelBuffer: Null PixelBuffer when desktopStarted?'') \<and>
   comparer_iff_pb (snd (step exampleConfig exampleExternals (SetPixelBuffer None [])
                           exampleSession)) \<and>
   \<not> validate [Screen 0 (setXYWH 0 0 1920 1080) 0] 800 600 \<and>
   setPixelBuffer exampleConfig (Some (PixelBuffer 800 600))
     [Screen 0 (setXYWH 0 0 1920 1080) 0] exampleSession =
     (Inl invalidLayout, exampleSession\<lparr>pb := Some (PixelBuffer 800 600), comparer := None\<rparr>)"
proof -
  let ?ops = "[UnblockUpdates, SetScreenLayout [Screen 0 (setXYWH 0 0 800 600) 0],
      SetPixelBuffer (Some (PixelBuffer 800 600)) [Screen 0 (setXYWH 0 0 800 600) 0]]"
  have fr: "0 < frameRate exampleConfig"
    by (simp add: exampleConfig_def)
  have o: "outcomes exampleConfig exampleExternals ?ops
             (VNCServerST exampleConfig ''desktop'' [''1.2.3.4'']) =
           [Some AssertionFailed,
            Some (LogicError ''setScreenLayout: New screen layout without a PixelBuffer''),
            None]"
    by (simp add: eval_defs)
  have i: "comparer_iff_pb exampleSession"
    by (simp add: exampleSession_eq comparer_iff_pb_def)
  have r: "fst (step exampleConfig exampleExternals (SetPixelBuffer None []) exampleSession) =
     Some (LogicError ''setPixelBuffer: Null PixelBuffer when desktopStarted?'')"
    unfolding exampleSession_eq by (simp add: eval_defs)
  have v: "\<not> validate [Screen 0 (setXYWH 0 0 1920 1080) 0] 800 600"
    by (simp add: eval_defs)
  note t = comparer_iff_pb_preserved [OF fr, where ext = exampleExternals and opers = ?ops
             and new_name = "''desktop''" and bl = "[''1.2.3.4'']" and s = exampleSession
             and oper = "SetPixelBuffer None []"
             and layout = "[Screen 0 (setXYWH 0 0 1920 1080) 0]"
             and p = "PixelBuffer 800 600" and new_pb = None]
  have a: "Some invalidLayout \<notin> set (outcomes exampleConfig exampleExternals ?ops
             (VNCServerST exampleConfig ''desktop'' [''1.2.3.4'']))"
    unfolding o by (simp add: invalidLayout_def)
  have b: "fst (step exampleConfig exampleExternals (SetPixelBuffer None []) exampleSession) \<noteq>
           Some invalidLayout"
    unfolding r by (simp add: invalidLayout_def)
  from t a have c1: "comparer_iff_pb (run exampleConfig exampleExternals ?ops
                       (VNCServerST exampleConfig ''desktop'' [''1.2.3.4'']))"
    by blast
  from t i b have c2: "comparer_iff_pb (snd (step exampleConfig exampleExternals
                         (SetPixelBuffer None []) exampleSession))"
    by blast
  from t v have c3: "setPixelBuffer exampleConfig (Some (PixelBuffer 800 600))
     [Screen 0 (setXYWH 0 0 1920 1080) 0] exampleSession =
     (Inl invalidLayout, exampleSession\<lparr>pb := Some (PixelBuffer 800 600), comparer := None\<rparr>)"
    by simp
  from fr o i r v c1 c2 c3 show ?thesis
    by blast
qed

text \<open>The claim as stated fails where \<open>setPixelBuffer\<close> throws: the new buffer is already
  installed and the comparer already dropped when the layout is found invalid, and an
  operation that returns normally afterwards finds the invariant still broken.\<close>

theorem comparer_iff_pb_preserved_counterexample:
  "comparer_iff_pb exampleSession \<and>
   \<not> validate [Screen 0 (setXYWH 0 0 1920 1080) 0] 800 600 \<and>
   fst (step exampleConfig exampleExternals
          (SetPixelBuffer (Some (PixelBuffer 800 600)) [Screen 0 (setXYWH 0 0 1920 1080) 0])
          exampleSession) = Some (InvalidArgument ''setPixelBuffer: Invalid screen layout'') \<and>
   pb exampleSession = Some (PixelBuffer 1920 1080) \<and>
   pb (snd (step exampleConfig exampleExternals
          (SetPixelBuffer (Some (PixelBuffer 800 600)) [Screen 0 (setXYWH 0 0 1920 1080) 0])
          exampleSession)) = Some (PixelBuffer 800 600) \<and>
   comparer (snd (step exampleConfig exampleExternals
          (SetPixelBuffer (Some (PixelBuffer 800 600)) [Screen 0 (setXYWH 0 0 1920 1080) 0])
          exampleSession)) = None \<and>
   \<not> comparer_iff_pb (snd (step exampleConfig exampleExternals
          (SetPixelBuffer (Some (PixelBuffer 800 600)) [Screen 0 (setXYWH 0 0 1920 1080) 0])
          exampleSession)) \<and>
   outcomes exampleConfig exampleExternals
     [SetPixelBuffer (Some (PixelBuffer 800 600)) [Screen 0 (setXYWH 0 0 1920 1080) 0], Bell]
     exampleSession =
     [Some (InvalidArgument ''setPixelBuffer: Invalid screen layout''), None] \<and>
   \<not> comparer_iff_pb (run exampleConfig exampleExternals
     [SetPixelBuffer (Some (PixelBuffer 800 600)) [Screen 0 (setXYWH 0 0 1920 1080) 0], Bell]
     exampleSession)"
  unfolding exampleSession_eq
  by (simp add: eval_defs comparer_iff_pb_def)

end
